theory Spec2Isabelle
  imports Main
begin

section \<open>Exceptions, logging and number formatting\<close>

text \<open>
  Python exceptions are values. \<open>Http404\<close>, \<open>DoesNotExist\<close> and
  \<open>MultipleObjectsReturned\<close> are the Django exceptions the views and the dispatcher can meet;
  all of them are subclasses of Python's \<open>Exception\<close>, so an \<open>except Exception\<close> clause
  catches every constructor of this type. \<open>Exception m\<close> is any other exception, \<open>m\<close> being
  its \<open>str(e)\<close>.
\<close>

datatype exn = Exception string | Http404 | DoesNotExist | MultipleObjectsReturned

fun str_exn :: "exn \<Rightarrow> string" where
  "str_exn (Exception m) = m"
| "str_exn Http404 = ''No DeviceToken matches the given query.''"
| "str_exn DoesNotExist = ''matching query does not exist.''"
| "str_exn MultipleObjectsReturned = ''get() returned more than one object''"

datatype level = INFO | ERROR | SUCCESS

type_synonym log_line = "level \<times> string"

function str_nat :: "nat \<Rightarrow> string" where
  "str_nat n = (if n < 10 then [''0123456789'' ! n] else str_nat (n div 10) @ [''0123456789'' ! (n mod 10)])"
  by pat_completeness auto
termination
  by (relation "measure (\<lambda>n. n)") auto

declare str_nat.simps [simp del]

definition str_int :: "int \<Rightarrow> string" where
  "str_int i = (if i < 0 then ''-'' @ str_nat (nat (- i)) else str_nat (nat i))"

text \<open>A string between single quotes, as the f-strings of the source write a title.\<close>

definition quoted :: "string \<Rightarrow> string" where
  "quoted s = CHR 0x27 # s @ [CHR 0x27]"

definition str_opt :: "string option \<Rightarrow> string" where
  "str_opt x = (case x of None \<Rightarrow> ''None'' | Some s \<Rightarrow> s)"

section \<open>models.py: the stored rows\<close>

text \<open>
  The fields of the three Django models. The timestamps the ORM maintains by itself
  (\<open>created_at\<close>, \<open>updated_at\<close>, the log's \<open>sent_at\<close>: \<open>auto_now\<close> and \<open>auto_now_add\<close>)
  are left out; \<open>PushNotification.sent_at\<close>, which the dispatcher assigns, is kept.
  Foreign keys are the referenced primary keys.
\<close>

record DeviceToken =
  dt_id :: nat
  dt_user :: "nat option"
  dt_token :: string
  dt_device_type :: string
  dt_is_active :: bool

datatype status = Draft | Sending | Sent | Failed

record PushNotification =
  pn_id :: nat
  pn_title :: string
  pn_body :: string
  pn_data :: "(string \<times> string) list"
  pn_image_url :: "string option"
  pn_auto_send :: bool
  pn_send_to_all :: bool
  pn_target_users :: "nat list"
  pn_target_device_types :: string
  pn_status :: status
  pn_total_recipients :: int
  pn_successful_sends :: int
  pn_failed_sends :: int
  pn_sent_at :: "nat option"
  pn_created_by :: nat

datatype log_status = LogSuccess | LogFailed

record NotificationLog =
  nl_notification :: nat
  nl_device_token :: nat
  nl_status :: log_status
  nl_error_message :: "string option"

text \<open>
  The database: the user table (its primary keys), the device-token table in row order with
  the last primary key its sequence handed out, the notification table keyed by primary key
  (\<open>save()\<close> is an upsert by primary key), and the append-only log table.

  \<open>notification_saves\<close> is a history variable: the row images that \<open>save()\<close> has
  written to the notification table, oldest first. The source keeps no such list and nothing
  in the model reads it; it is there so that the lifecycle can be stated over every write a
  dispatch makes, and not only over the row it leaves behind. It belongs to the database, so
  what a transaction wrote and then rolled back is not in it.
\<close>

record database =
  auth_user :: "nat list"
  device_tokens :: "DeviceToken list"
  device_token_seq :: nat
  notifications :: "nat \<rightharpoonup> PushNotification"
  notification_logs :: "NotificationLog list"
  notification_saves :: "PushNotification list"

section \<open>firebase\_service.py\<close>

datatype App = App string

record FirebaseService =
  fs_app :: "App option"
  fs_initialized :: bool

record Notification =
  n_title :: string
  n_body :: string
  n_image :: "string option"

record Message =
  m_notification :: Notification
  m_data :: "(string \<times> string) list"
  m_token :: string

text \<open>
  What the process sees of the outside: the Django setting, the file system, the
  \<open>firebase_admin\<close> library and the clock. \<open>firebase_initialize_app p\<close> stands for
  \<open>credentials.Certificate(p)\<close> followed by \<open>firebase_admin.initialize_app(cred)\<close>;
  \<open>messaging_send m w\<close> stands for building \<open>messaging.Message\<close> and calling
  \<open>messaging.send\<close> on it in the world \<open>w\<close> (the gateway and the network), giving back
  the message id or the exception raised, and the world after the call. Both callers wrap the
  two steps in the same \<open>try\<close>.
\<close>

record 'w env =
  FIREBASE_SERVICE_ACCOUNT_KEY :: "string option"
  os_path_exists :: "string \<Rightarrow> bool"
  firebase_initialize_app :: "string \<Rightarrow> exn + App"
  messaging_Notification :: "string \<Rightarrow> string \<Rightarrow> string option \<Rightarrow> exn + Notification"
  messaging_send :: "Message \<Rightarrow> 'w \<Rightarrow> (exn + string) \<times> 'w"
  timezone_now :: "'w \<Rightarrow> nat"

text \<open>
  The state a call runs in: the database, the class attributes \<open>_app\<close> and \<open>_initialized\<close>
  of \<open>FirebaseService\<close>, the outside world, the module loggers' output and the messages
  of \<open>django.contrib.messages\<close>.
\<close>

record 'w state =
  st_db :: database
  st_firebase :: FirebaseService
  st_world :: 'w
  st_logger :: "log_line list"
  st_messages :: "log_line list"

definition log :: "level \<Rightarrow> string \<Rightarrow> 'w state \<Rightarrow> 'w state" where
  "log lvl msg s = s\<lparr>st_logger := st_logger s @ [(lvl, msg)]\<rparr>"

definition initialize_firebase :: "'w env \<Rightarrow> 'w state \<Rightarrow> (exn + unit) \<times> 'w state" where
  "initialize_firebase env s =
     (if fs_app (st_firebase s) = None \<and> \<not> fs_initialized (st_firebase s) then
        (let service_account_path = FIREBASE_SERVICE_ACCOUNT_KEY env in
         if (case service_account_path of None \<Rightarrow> False
             | Some p \<Rightarrow> p \<noteq> [] \<and> os_path_exists env p) then
           (case firebase_initialize_app env (the service_account_path) of
              Inr a \<Rightarrow>
                (Inr (),
                 log INFO ''Firebase initialized successfully with service account key''
                   (s\<lparr>st_firebase := \<lparr>fs_app = Some a, fs_initialized = True\<rparr>\<rparr>))
            | Inl e \<Rightarrow>
                (Inl e,
                 (log ERROR (''Failed to initialize Firebase: '' @ str_exn e) s)
                   \<lparr>st_firebase := (st_firebase s)\<lparr>fs_initialized := True\<rparr>\<rparr>))
         else
           (Inr (),
            (log ERROR ''Firebase features will be disabled''
              (log ERROR (''Firebase service account key not found at: '' @ str_opt service_account_path) s))
              \<lparr>st_firebase := (st_firebase s)\<lparr>fs_initialized := True\<rparr>\<rparr>))
      else (Inr (), s))"

definition is_firebase_available :: "'w env \<Rightarrow> 'w state \<Rightarrow> (exn + bool) \<times> 'w state" where
  "is_firebase_available env s =
     (case initialize_firebase env s of
        (Inl e, s') \<Rightarrow> (Inl e, s')
      | (Inr _, s') \<Rightarrow> (Inr (fs_app (st_firebase s') \<noteq> None), s'))"

record send_result =
  sr_success :: bool
  sr_message_id :: "string option"
  sr_error :: "string option"

definition not_configured :: string where
  "not_configured = ''Firebase is not properly configured. Please check your service account key.''"

definition or_empty :: "(string \<times> string) list option \<Rightarrow> (string \<times> string) list" where
  "or_empty data = (case data of None \<Rightarrow> [] | Some d \<Rightarrow> d)"

definition send_notification_to_token ::
  "'w env \<Rightarrow> string \<Rightarrow> string \<Rightarrow> string \<Rightarrow> (string \<times> string) list option \<Rightarrow> string option
     \<Rightarrow> 'w state \<Rightarrow> (exn + send_result) \<times> 'w state" where
  "send_notification_to_token env token title body data image_url s =
     (case is_firebase_available env s of
        (Inl e, s') \<Rightarrow> (Inl e, s')
      | (Inr False, s') \<Rightarrow>
          (Inr \<lparr>sr_success = False, sr_message_id = None, sr_error = Some not_configured\<rparr>,
           log ERROR ''Firebase is not available. Cannot send notification.'' s')
      | (Inr True, s') \<Rightarrow>
          (case messaging_Notification env title body image_url of
             Inl e \<Rightarrow>
               (Inr \<lparr>sr_success = False, sr_message_id = None, sr_error = Some (str_exn e)\<rparr>,
                log ERROR (''Failed to send notification to token '' @ token @ '': '' @ str_exn e) s')
           | Inr notification \<Rightarrow>
               (case messaging_send env
                       \<lparr>m_notification = notification, m_data = or_empty data, m_token = token\<rparr>
                       (st_world s') of
                  (Inr response, w') \<Rightarrow>
                    (Inr \<lparr>sr_success = True, sr_message_id = Some response, sr_error = None\<rparr>,
                     log INFO (''Successfully sent message: '' @ response) (s'\<lparr>st_world := w'\<rparr>))
                | (Inl e, w') \<Rightarrow>
                    (Inr \<lparr>sr_success = False, sr_message_id = None, sr_error = Some (str_exn e)\<rparr>,
                     log ERROR (''Failed to send notification to token '' @ token @ '': '' @ str_exn e)
                       (s'\<lparr>st_world := w'\<rparr>)))))"

record response =
  r_token :: string
  r_success :: bool
  r_message_id :: "string option"
  r_error :: "string option"

record bulk_result =
  br_success_count :: int
  br_failure_count :: int
  br_responses :: "response list"

text \<open>The loop \<open>for token in tokens\<close> of the bulk form, with its three accumulators.\<close>

fun send_each ::
  "'w env \<Rightarrow> Notification \<Rightarrow> (string \<times> string) list \<Rightarrow> string list
     \<Rightarrow> response list \<times> int \<times> int \<Rightarrow> 'w \<Rightarrow> (response list \<times> int \<times> int) \<times> 'w" where
  "send_each env notification d [] acc w = (acc, w)"
| "send_each env notification d (token # tokens) (rs, sc, fc) w =
     (case messaging_send env \<lparr>m_notification = notification, m_data = d, m_token = token\<rparr> w of
        (Inr mid, w') \<Rightarrow>
          send_each env notification d tokens
            (rs @ [\<lparr>r_token = token, r_success = True, r_message_id = Some mid, r_error = None\<rparr>],
             sc + 1, fc) w'
      | (Inl e, w') \<Rightarrow>
          send_each env notification d tokens
            (rs @ [\<lparr>r_token = token, r_success = False, r_message_id = None,
                    r_error = Some (str_exn e)\<rparr>],
             sc, fc + 1) w')"

definition send_notification_to_multiple_tokens ::
  "'w env \<Rightarrow> string list \<Rightarrow> string \<Rightarrow> string \<Rightarrow> (string \<times> string) list option \<Rightarrow> string option
     \<Rightarrow> 'w state \<Rightarrow> (exn + bulk_result) \<times> 'w state" where
  "send_notification_to_multiple_tokens env tokens title body data image_url s =
     (case initialize_firebase env s of
        (Inl e, s') \<Rightarrow> (Inl e, s')
      | (Inr _, s') \<Rightarrow>
          if tokens = [] then
            (Inr \<lparr>br_success_count = 0, br_failure_count = 0, br_responses = []\<rparr>, s')
          else
            (case messaging_Notification env title body image_url of
               Inl e \<Rightarrow>
                 (Inr \<lparr>br_success_count = 0, br_failure_count = int (length tokens),
                       br_responses = map (\<lambda>token. \<lparr>r_token = token, r_success = False,
                                           r_message_id = None, r_error = Some (str_exn e)\<rparr>) tokens\<rparr>,
                  log ERROR (''Failed to send multicast notification: '' @ str_exn e) s')
             | Inr notification \<Rightarrow>
                 (case send_each env notification (or_empty data) tokens ([], 0, 0) (st_world s') of
                    ((rs, sc, fc), w') \<Rightarrow>
                      (Inr \<lparr>br_success_count = sc, br_failure_count = fc, br_responses = rs\<rparr>,
                       log INFO (''Failed to send '' @ str_int fc @ '' messages'')
                         (log INFO (''Successfully sent '' @ str_int sc @ '' messages'')
                            (s'\<lparr>st_world := w'\<rparr>))))))"

section \<open>views.py: registration and unregistration\<close>

datatype json = JStr string | JBool bool | JNum nat

record Response =
  rsp_data :: "(string \<times> json) list"
  rsp_status :: nat

record register_request =
  rq_token :: "string option"
  rq_device_type :: "string option"
  rq_user_id :: "nat option"

text \<open>
  \<open>Model.save()\<close> of an existing device token: an \<open>UPDATE\<close> of the row with its primary key.
\<close>

definition save_device_token :: "DeviceToken \<Rightarrow> database \<Rightarrow> database" where
  "save_device_token obj d =
     d\<lparr>device_tokens := map (\<lambda>r. if dt_id r = dt_id obj then obj else r) (device_tokens d)\<rparr>"

text \<open>
  \<open>DeviceToken.objects.update_or_create(token=token, defaults={user, device_type, is_active})\<close>:
  the ORM looks the row up by token; a single match is updated with the defaults and saved,
  no match inserts a new row with the next primary key, several matches raise.
\<close>

definition update_or_create ::
  "string \<Rightarrow> nat option \<Rightarrow> string \<Rightarrow> bool \<Rightarrow> database \<Rightarrow> exn + ((DeviceToken \<times> bool) \<times> database)" where
  "update_or_create token user device_type is_active d =
     (case filter (\<lambda>r. dt_token r = token) (device_tokens d) of
        [] \<Rightarrow>
          (let obj = \<lparr>dt_id = Suc (device_token_seq d), dt_user = user, dt_token = token,
                      dt_device_type = device_type, dt_is_active = is_active\<rparr>
           in Inr ((obj, True),
                   d\<lparr>device_tokens := device_tokens d @ [obj],
                     device_token_seq := Suc (device_token_seq d)\<rparr>))
      | [r] \<Rightarrow>
          (let obj = r\<lparr>dt_user := user, dt_device_type := device_type, dt_is_active := is_active\<rparr>
           in Inr ((obj, False), save_device_token obj d))
      | _ \<Rightarrow> Inl MultipleObjectsReturned)"

text \<open>The body of the \<open>try\<close> of \<open>register_device_token\<close>.\<close>

definition register_device_token_try ::
  "register_request \<Rightarrow> 'w state \<Rightarrow> (exn + Response) \<times> 'w state" where
  "register_device_token_try request s =
     (let token = rq_token request;
          device_type = (case rq_device_type request of None \<Rightarrow> ''android'' | Some t \<Rightarrow> t);
          user_id = rq_user_id request
      in
      if token = None \<or> token = Some [] then
        (Inr \<lparr>rsp_data = [(''error'', JStr ''Token is required'')], rsp_status = 400\<rparr>, s)
      else if user_id \<noteq> None \<and> user_id \<noteq> Some 0 \<and> the user_id \<notin> set (auth_user (st_db s)) then
        (Inr \<lparr>rsp_data = [(''error'', JStr ''User not found'')], rsp_status = 404\<rparr>, s)
      else
        (let user = (if user_id \<noteq> None \<and> user_id \<noteq> Some 0 then user_id else None)
         in case update_or_create (the token) user device_type True (st_db s) of
              Inl e \<Rightarrow> (Inl e, s)
            | Inr ((device_token, created), d') \<Rightarrow>
                (Inr \<lparr>rsp_data = [(''message'', JStr ''Device token registered successfully''),
                                  (''created'', JBool created),
                                  (''device_token_id'', JNum (dt_id device_token))],
                      rsp_status = (if created then 201 else 200)\<rparr>,
                 s\<lparr>st_db := d'\<rparr>)))"

definition internal_server_error :: Response where
  "internal_server_error = \<lparr>rsp_data = [(''error'', JStr ''Internal server error'')], rsp_status = 500\<rparr>"

definition register_device_token :: "register_request \<Rightarrow> 'w state \<Rightarrow> Response \<times> 'w state" where
  "register_device_token request s =
     (case register_device_token_try request s of
        (Inr r, s') \<Rightarrow> (r, s')
      | (Inl e, s') \<Rightarrow>
          (internal_server_error, log ERROR (''Error registering device token: '' @ str_exn e) s'))"

text \<open>
  \<open>get_object_or_404(DeviceToken, token=token)\<close>: the single row with that token;
  \<open>Http404\<close> when there is none.
\<close>

definition get_object_or_404 :: "string \<Rightarrow> database \<Rightarrow> exn + DeviceToken" where
  "get_object_or_404 token d =
     (case filter (\<lambda>r. dt_token r = token) (device_tokens d) of
        [] \<Rightarrow> Inl Http404
      | [r] \<Rightarrow> Inr r
      | _ \<Rightarrow> Inl MultipleObjectsReturned)"

text \<open>The body of the \<open>try\<close> of \<open>unregister_device_token\<close>.\<close>

definition unregister_device_token_try ::
  "string option \<Rightarrow> 'w state \<Rightarrow> (exn + Response) \<times> 'w state" where
  "unregister_device_token_try token s =
     (if token = None \<or> token = Some [] then
        (Inr \<lparr>rsp_data = [(''error'', JStr ''Token is required'')], rsp_status = 400\<rparr>, s)
      else
        (case get_object_or_404 (the token) (st_db s) of
           Inl e \<Rightarrow> (Inl e, s)
         | Inr device_token \<Rightarrow>
             (Inr \<lparr>rsp_data = [(''message'', JStr ''Device token unregistered successfully'')],
                   rsp_status = 200\<rparr>,
              s\<lparr>st_db := save_device_token (device_token\<lparr>dt_is_active := False\<rparr>) (st_db s)\<rparr>)))"

text \<open>
  The view: its \<open>except Exception\<close> clause catches whatever the body raises, \<open>Http404\<close>
  included, and answers 500.
\<close>

definition unregister_device_token :: "string option \<Rightarrow> 'w state \<Rightarrow> Response \<times> 'w state" where
  "unregister_device_token token s =
     (case unregister_device_token_try token s of
        (Inr r, s') \<Rightarrow> (r, s')
      | (Inl e, s') \<Rightarrow>
          (internal_server_error, log ERROR (''Error unregistering device token: '' @ str_exn e) s'))"

section \<open>signals.py and admin.py: audience resolution and dispatch\<close>

definition get_target_tokens :: "database \<Rightarrow> PushNotification \<Rightarrow> DeviceToken list" where
  "get_target_tokens d notification =
     (let queryset = filter dt_is_active (device_tokens d);
          queryset = (if pn_target_device_types notification \<noteq> ''all''
                      then filter (\<lambda>r. dt_device_type r = pn_target_device_types notification) queryset
                      else queryset);
          queryset = (if \<not> pn_send_to_all notification \<and> pn_target_users notification \<noteq> []
                      then filter (\<lambda>r. case dt_user r of None \<Rightarrow> False
                                         | Some u \<Rightarrow> u \<in> set (pn_target_users notification)) queryset
                      else queryset)
      in queryset)"

text \<open>\<open>PushNotificationAdmin._get_target_tokens\<close> is the same function, written out again.\<close>

definition admin_get_target_tokens :: "database \<Rightarrow> PushNotification \<Rightarrow> DeviceToken list" where
  "admin_get_target_tokens d notification =
     (let queryset = filter dt_is_active (device_tokens d);
          queryset = (if pn_target_device_types notification \<noteq> ''all''
                      then filter (\<lambda>r. dt_device_type r = pn_target_device_types notification) queryset
                      else queryset);
          queryset = (if \<not> pn_send_to_all notification \<and> pn_target_users notification \<noteq> []
                      then filter (\<lambda>r. case dt_user r of None \<Rightarrow> False
                                         | Some u \<Rightarrow> u \<in> set (pn_target_users notification)) queryset
                      else queryset)
      in queryset)"

text \<open>
  \<open>notification.save()\<close>: the row with the object's primary key becomes the object (and
  the history variable records the write).
\<close>

definition save_notification :: "PushNotification \<Rightarrow> 'w state \<Rightarrow> 'w state" where
  "save_notification n s =
     s\<lparr>st_db := (st_db s)\<lparr>notifications := (notifications (st_db s))(pn_id n \<mapsto> n),
                           notification_saves := notification_saves (st_db s) @ [n]\<rparr>\<rparr>"

definition batch_size :: nat where
  "batch_size = 500"

text \<open>
  Python's \<open>range(start, stop, step)\<close> for a positive step, as the list of its values.
\<close>

function py_range :: "nat \<Rightarrow> nat \<Rightarrow> nat \<Rightarrow> nat list" where
  "py_range i stop step = (if i < stop \<and> 0 < step then i # py_range (i + step) stop step else [])"
  by pat_completeness auto
termination
  by (relation "measure (\<lambda>(i, stop, step). stop - i)") auto

declare py_range.simps [simp del]

definition log_of :: "PushNotification \<Rightarrow> DeviceToken \<Rightarrow> response \<Rightarrow> NotificationLog" where
  "log_of notification token resp =
     \<lparr>nl_notification = pn_id notification, nl_device_token = dt_id token,
      nl_status = (if r_success resp then LogSuccess else LogFailed),
      nl_error_message = (if \<not> r_success resp then r_error resp else None)\<rparr>"

text \<open>
  The inner loop \<open>for idx, resp in enumerate(response['responses'])\<close>:
  \<open>batch_tokens[idx]\<close> raises \<open>IndexError\<close> beyond the batch.
\<close>

fun log_responses ::
  "PushNotification \<Rightarrow> DeviceToken list \<Rightarrow> nat \<Rightarrow> response list \<Rightarrow> int \<times> int \<Rightarrow> database
     \<Rightarrow> (exn + int \<times> int) \<times> database" where
  "log_responses notification batch_tokens idx [] cnt d = (Inr cnt, d)"
| "log_responses notification batch_tokens idx (resp # rest) (sc, fc) d =
     (if idx < length batch_tokens then
        (let token = batch_tokens ! idx;
             d' = d\<lparr>notification_logs := notification_logs d @ [log_of notification token resp]\<rparr>
         in log_responses notification batch_tokens (Suc idx) rest
              (if r_success resp then (sc + 1, fc) else (sc, fc + 1)) d')
      else (Inl (Exception ''list index out of range''), d))"

text \<open>
  One round of the loop \<open>for i in range(0, len(target_tokens), batch_size)\<close>: the slice,
  one call of the bulk form, the log rows. The code of this loop is the same, line by line,
  in \<open>send_notification_async\<close> and in \<open>_send_single_notification\<close>.
\<close>

definition send_batch ::
  "'w env \<Rightarrow> PushNotification \<Rightarrow> (string \<times> string) list \<Rightarrow> DeviceToken list \<Rightarrow> nat \<Rightarrow> int \<times> int
     \<Rightarrow> 'w state \<Rightarrow> (exn + int \<times> int) \<times> 'w state" where
  "send_batch env notification data target_tokens i cnt s =
     (let batch_tokens = take batch_size (drop i target_tokens)
      in case send_notification_to_multiple_tokens env (map dt_token batch_tokens)
                (pn_title notification) (pn_body notification) (Some data)
                (pn_image_url notification) s of
           (Inl e, s') \<Rightarrow> (Inl e, s')
         | (Inr resp, s') \<Rightarrow>
             (case log_responses notification batch_tokens 0 (br_responses resp) cnt (st_db s') of
                (r, d') \<Rightarrow> (r, s'\<lparr>st_db := d'\<rparr>)))"

fun for_batches ::
  "'w env \<Rightarrow> PushNotification \<Rightarrow> (string \<times> string) list \<Rightarrow> DeviceToken list \<Rightarrow> nat list \<Rightarrow> int \<times> int
     \<Rightarrow> 'w state \<Rightarrow> (exn + int \<times> int) \<times> 'w state" where
  "for_batches env notification data target_tokens [] cnt s = (Inr cnt, s)"
| "for_batches env notification data target_tokens (i # rest) cnt s =
     (case send_batch env notification data target_tokens i cnt s of
        (Inl e, s') \<Rightarrow> (Inl e, s')
      | (Inr cnt', s') \<Rightarrow> for_batches env notification data target_tokens rest cnt' s')"

text \<open>
  The part both dispatchers share after the audience is known to be non-empty: store the
  total, run the batches, store the counters, the time and the final status. It gives back
  the counters for the caller's message.
\<close>

definition send_to_targets ::
  "'w env \<Rightarrow> PushNotification \<Rightarrow> DeviceToken list \<Rightarrow> 'w state \<Rightarrow> (exn + int \<times> int) \<times> 'w state" where
  "send_to_targets env notification0 target_tokens s =
     (let notification = notification0\<lparr>pn_total_recipients := int (length target_tokens)\<rparr>;
          s = save_notification notification s;
          data = (if pn_data notification \<noteq> [] then pn_data notification else [])
      in case for_batches env notification data target_tokens
                (py_range 0 (length target_tokens) batch_size) (0, 0) s of
           (Inl e, s') \<Rightarrow> (Inl e, s')
         | (Inr (success_count, failure_count), s') \<Rightarrow>
             (let notification = notification
                    \<lparr>pn_successful_sends := success_count,
                     pn_failed_sends := failure_count,
                     pn_sent_at := Some (timezone_now env (st_world s')),
                     pn_status := (if success_count > 0 then Sent else Failed)\<rparr>
              in (Inr (success_count, failure_count), save_notification notification s')))"

text \<open>signals.py: the body of the \<open>try\<close> of \<open>send_notification_async\<close>.\<close>

definition send_notification_async_try ::
  "'w env \<Rightarrow> nat \<Rightarrow> 'w state \<Rightarrow> (exn + unit) \<times> 'w state" where
  "send_notification_async_try env notification_id s =
     (case notifications (st_db s) notification_id of
        None \<Rightarrow> (Inl DoesNotExist, s)
      | Some n0 \<Rightarrow>
          (let notification = n0\<lparr>pn_status := Sending\<rparr>;
               s = save_notification notification s;
               target_tokens = get_target_tokens (st_db s) notification
           in if target_tokens = [] then
                (let notification = notification\<lparr>pn_status := Failed\<rparr>;
                     s = save_notification notification s
                 in (Inr (),
                     log ERROR (''No valid device tokens found for notification ''
                                @ str_nat (pn_id notification)) s))
              else
                (case send_to_targets env notification target_tokens s of
                   (Inl e, s') \<Rightarrow> (Inl e, s')
                 | (Inr (success_count, failure_count), s') \<Rightarrow>
                     (Inr (),
                      log INFO (''Notification '' @ quoted (pn_title notification) @ '' sent automatically! Success: ''
                                @ str_int success_count @ '', Failed: '' @ str_int failure_count) s'))))"

text \<open>
  \<open>send_notification_async\<close>: whatever the body raises is logged, the request is fetched
  again and stored as failed (a second failure is swallowed). The call itself always returns.
\<close>

definition send_notification_async ::
  "'w env \<Rightarrow> nat \<Rightarrow> 'w state \<Rightarrow> (exn + unit) \<times> 'w state" where
  "send_notification_async env notification_id s =
     (case send_notification_async_try env notification_id s of
        (Inr u, s') \<Rightarrow> (Inr (), s')
      | (Inl e, s') \<Rightarrow>
          (let s' = log ERROR (''Failed to send notification '' @ str_nat notification_id
                               @ '': '' @ str_exn e) s'
           in case notifications (st_db s') notification_id of
                None \<Rightarrow> (Inr (), s')
              | Some n \<Rightarrow> (Inr (), save_notification (n\<lparr>pn_status := Failed\<rparr>) s')))"

text \<open>
  The \<open>post_save\<close> receiver. \<open>transaction.on_commit\<close> runs the callback when the
  enclosing transaction commits (at once when there is none); the model runs it on the state
  the receiver is called in.
\<close>

definition auto_send_notification ::
  "'w env \<Rightarrow> PushNotification \<Rightarrow> bool \<Rightarrow> 'w state \<Rightarrow> (exn + unit) \<times> 'w state" where
  "auto_send_notification env instance_obj created s =
     (if created \<and> pn_status instance_obj = Draft \<and> pn_auto_send instance_obj
      then send_notification_async env (pn_id instance_obj) s
      else (Inr (), s))"

text \<open>admin.py: \<open>PushNotificationAdmin._send_single_notification\<close>.\<close>

definition send_single_notification ::
  "'w env \<Rightarrow> PushNotification \<Rightarrow> 'w state \<Rightarrow> (exn + unit) \<times> 'w state" where
  "send_single_notification env n0 s =
     (let notification = n0\<lparr>pn_status := Sending\<rparr>;
          s = save_notification notification s;
          target_tokens = admin_get_target_tokens (st_db s) notification
      in if target_tokens = [] then
           (let notification = notification\<lparr>pn_status := Failed\<rparr>;
                s = save_notification notification s
            in (Inl (Exception ''No valid device tokens found for targeting criteria''), s))
         else
           (case send_to_targets env notification target_tokens s of
              (Inl e, s') \<Rightarrow> (Inl e, s')
            | (Inr (success_count, failure_count), s') \<Rightarrow>
                (Inr (),
                 s'\<lparr>st_messages := st_messages s' @
                      [(SUCCESS, ''Notification '' @ quoted (pn_title notification) @ '' sent successfully! Success: ''
                                 @ str_int success_count @ '', Failed: '' @ str_int failure_count)]\<rparr>)))"

text \<open>
  \<open>with transaction.atomic()\<close>: an exception leaving the block rolls the database back to
  where the block started; nothing else is undone.
\<close>

definition atomic ::
  "('w state \<Rightarrow> (exn + 'a) \<times> 'w state) \<Rightarrow> 'w state \<Rightarrow> (exn + 'a) \<times> 'w state" where
  "atomic f s =
     (case f s of
        (Inl e, s') \<Rightarrow> (Inl e, s'\<lparr>st_db := st_db s\<rparr>)
      | (Inr a, s') \<Rightarrow> (Inr a, s'))"

text \<open>The loop of the admin action over the draft requests of the selection.\<close>

fun send_each_notification ::
  "'w env \<Rightarrow> PushNotification list \<Rightarrow> int \<times> int \<Rightarrow> 'w state \<Rightarrow> (int \<times> int) \<times> 'w state" where
  "send_each_notification env [] cnt s = (cnt, s)"
| "send_each_notification env (notification # rest) (sent_count, error_count) s =
     (case atomic (send_single_notification env notification) s of
        (Inr u, s') \<Rightarrow> send_each_notification env rest (sent_count + 1, error_count) s'
      | (Inl e, s') \<Rightarrow>
          send_each_notification env rest (sent_count, error_count + 1)
            (s'\<lparr>st_messages := st_messages s' @
                  [(ERROR, ''Failed to send notification '' @ quoted (pn_title notification) @ '': '' @ str_exn e)]\<rparr>))"

text \<open>
  \<open>PushNotificationAdmin.send_notifications\<close>. The queryset is the operator's selection,
  given by primary keys; \<open>queryset.filter(status='draft')\<close> reads the rows when the loop
  starts.
\<close>

definition send_notifications :: "'w env \<Rightarrow> nat list \<Rightarrow> 'w state \<Rightarrow> 'w state" where
  "send_notifications env queryset s =
     (let drafts = filter (\<lambda>n. pn_status n = Draft)
                     (List.map_filter (notifications (st_db s)) queryset)
      in case send_each_notification env drafts (0, 0) s of
           ((sent_count, error_count), s') \<Rightarrow>
             (let s' = (if sent_count > 0
                        then s'\<lparr>st_messages := st_messages s' @
                               [(SUCCESS, ''Successfully sent '' @ str_int sent_count @ '' notification(s)'')]\<rparr>
                        else s');
                  s' = (if error_count > 0
                        then s'\<lparr>st_messages := st_messages s' @
                               [(ERROR, ''Failed to send '' @ str_int error_count @ '' notification(s)'')]\<rparr>
                        else s')
              in s'))"

section \<open>Vocabulary of the statements\<close>

text \<open>
  The constraints the database itself enforces on the device-token table: the primary key
  and the \<open>unique=True\<close> token column are free of duplicates, and no primary key is beyond
  the last one the sequence handed out.
\<close>

definition wf_db :: "database \<Rightarrow> bool" where
  "wf_db d = (distinct (map dt_id (device_tokens d)) \<and> distinct (map dt_token (device_tokens d))
              \<and> list_all (\<lambda>r. dt_id r \<le> device_token_seq d) (device_tokens d))"

text \<open>
  The owner and the platform a registration request asks for: \<open>if user_id:\<close> treats an
  absent and a zero \<open>user_id\<close> alike, and \<open>device_type\<close> defaults to \<open>android\<close>.
\<close>

definition request_user :: "register_request \<Rightarrow> nat option" where
  "request_user request =
     (if rq_user_id request \<noteq> None \<and> rq_user_id request \<noteq> Some 0 then rq_user_id request else None)"

definition request_device_type :: "register_request \<Rightarrow> string" where
  "request_device_type request = (case rq_device_type request of None \<Rightarrow> ''android'' | Some t \<Rightarrow> t)"

definition registered_row :: "register_request \<Rightarrow> DeviceToken \<Rightarrow> bool" where
  "registered_row request row =
     (dt_user row = request_user request \<and> dt_device_type row = request_device_type request
      \<and> dt_is_active row)"

text \<open>Successive calls of the registration view, one per request, in order.\<close>

fun register_all :: "register_request list \<Rightarrow> 'w state \<Rightarrow> Response list \<times> 'w state" where
  "register_all [] s = ([], s)"
| "register_all (request # rest) s =
     (case register_device_token request s of
        (r, s') \<Rightarrow> (case register_all rest s' of (rs, s'') \<Rightarrow> (r # rs, s'')))"

definition valid_registration :: "string \<Rightarrow> nat list \<Rightarrow> register_request \<Rightarrow> bool" where
  "valid_registration t users request =
     (rq_token request = Some t \<and> (request_user request = None \<or> the (rq_user_id request) \<in> set users))"

definition created_flag :: "Response \<Rightarrow> json option" where
  "created_flag r = map_of (rsp_data r) ''created''"

text \<open>
  The bulk form as the specification words it: a loop over the single-recipient form, token by
  token in order, collecting the results. \<open>result_of\<close> is a bulk response without its
  \<open>token\<close> key.
\<close>

definition result_of :: "response \<Rightarrow> send_result" where
  "result_of r = \<lparr>sr_success = r_success r, sr_message_id = r_message_id r, sr_error = r_error r\<rparr>"

fun deliver_many_loop ::
  "'w env \<Rightarrow> string list \<Rightarrow> string \<Rightarrow> string \<Rightarrow> (string \<times> string) list option \<Rightarrow> string option
     \<Rightarrow> 'w state \<Rightarrow> (exn + send_result list) \<times> 'w state" where
  "deliver_many_loop env [] title body data image_url s = (Inr [], s)"
| "deliver_many_loop env (token # tokens) title body data image_url s =
     (case send_notification_to_token env token title body data image_url s of
        (Inl e, s') \<Rightarrow> (Inl e, s')
      | (Inr r, s') \<Rightarrow>
          (case deliver_many_loop env tokens title body data image_url s' of
             (Inl e, s'') \<Rightarrow> (Inl e, s'')
           | (Inr rs, s'') \<Rightarrow> (Inr (r # rs), s'')))"

text \<open>
  \<open>initialize_firebase\<close> has nothing left to do: a client exists or an attempt was made.
\<close>

definition settled :: "'w state \<Rightarrow> bool" where
  "settled s = (fs_app (st_firebase s) \<noteq> None \<or> fs_initialized (st_firebase s))"

text \<open>
  The slices the dispatch loop takes, \<open>target_tokens[i:i + batch_size]\<close> for \<open>i\<close> in
  \<open>range(0, len(target_tokens), batch_size)\<close>, and the numbers of successes and failures
  among a list of bulk responses.
\<close>

definition batches_of :: "'a list \<Rightarrow> 'a list list" where
  "batches_of xs = map (\<lambda>i. take batch_size (drop i xs)) (py_range 0 (length xs) batch_size)"

definition successes :: "response list \<Rightarrow> int" where
  "successes rs = int (length (filter r_success rs))"

definition failures :: "response list \<Rightarrow> int" where
  "failures rs = int (length (filter (\<lambda>r. \<not> r_success r) rs))"

text \<open>
  What the messaging library answers for a list of tokens, as a list of bulk responses: the
  notification is built once, then one \<open>send\<close> per token, in order, each on the state of
  the library the one before left; the response of a token carries the identifier the
  library returned or the text of what it raised. When building the notification fails,
  every token gets that failure and the library is not called.
\<close>

definition response_of :: "string \<Rightarrow> exn + string \<Rightarrow> response" where
  "response_of token res =
     (case res of
        Inr mid \<Rightarrow> \<lparr>r_token = token, r_success = True, r_message_id = Some mid, r_error = None\<rparr>
      | Inl e \<Rightarrow> \<lparr>r_token = token, r_success = False, r_message_id = None,
                  r_error = Some (str_exn e)\<rparr>)"

fun gateway_sends ::
  "'w env \<Rightarrow> Notification \<Rightarrow> (string \<times> string) list \<Rightarrow> string list \<Rightarrow> 'w \<Rightarrow> response list \<times> 'w" where
  "gateway_sends env notification d [] w = ([], w)"
| "gateway_sends env notification d (token # tokens) w =
     (case messaging_send env \<lparr>m_notification = notification, m_data = d, m_token = token\<rparr> w of
        (res, w') \<Rightarrow>
          (case gateway_sends env notification d tokens w' of
             (rs, w'') \<Rightarrow> (response_of token res # rs, w'')))"

definition gateway_run ::
  "'w env \<Rightarrow> string \<Rightarrow> string \<Rightarrow> string option \<Rightarrow> (string \<times> string) list \<Rightarrow> string list \<Rightarrow> 'w
     \<Rightarrow> response list \<times> 'w" where
  "gateway_run env title body image_url d tokens w =
     (case messaging_Notification env title body image_url of
        Inl e \<Rightarrow> (map (\<lambda>token. response_of token (Inl e)) tokens, w)
      | Inr notification \<Rightarrow> gateway_sends env notification d tokens w)"

text \<open>What the library answers for a request and its audience, endpoint by endpoint.\<close>

definition audience_responses ::
  "'w env \<Rightarrow> PushNotification \<Rightarrow> DeviceToken list \<Rightarrow> 'w \<Rightarrow> response list" where
  "audience_responses env n tt w =
     fst (gateway_run env (pn_title n) (pn_body n) (pn_image_url n) (pn_data n) (map dt_token tt) w)"

text \<open>
  One log row per endpoint, correlated by position: the rows are as many as the endpoints,
  and the row at position \<open>j\<close> names the request and the endpoint at position \<open>j\<close>
  and carries the outcome of the response at position \<open>j\<close>, which is the response for
  that endpoint's token.
\<close>

definition one_record_per_endpoint ::
  "PushNotification \<Rightarrow> DeviceToken list \<Rightarrow> response list \<Rightarrow> NotificationLog list \<Rightarrow> bool" where
  "one_record_per_endpoint n tt rs rows =
     (length rows = length tt \<and> length rs = length tt
      \<and> (\<forall>j < length tt.
            r_token (rs ! j) = dt_token (tt ! j)
            \<and> nl_notification (rows ! j) = pn_id n
            \<and> nl_device_token (rows ! j) = dt_id (tt ! j)
            \<and> nl_status (rows ! j) = (if r_success (rs ! j) then LogSuccess else LogFailed)
            \<and> nl_error_message (rows ! j) = (if r_success (rs ! j) then None else r_error (rs ! j))))"

text \<open>
  The lines one bulk call on a non-empty batch leaves in the service's log: the two counts,
  or the one error line when the notification cannot be built.
\<close>

definition bulk_log_lines :: "'w env \<Rightarrow> PushNotification \<Rightarrow> nat" where
  "bulk_log_lines env n =
     (case messaging_Notification env (pn_title n) (pn_body n) (pn_image_url n) of
        Inl e \<Rightarrow> 1
      | Inr notification \<Rightarrow> 2)"

text \<open>
  The specification's steps 4 to 6 over a list of batches: for each batch in turn, one call of
  the bulk form with the batch's tokens, then one log row per endpoint of the batch, the row
  at position \<open>j\<close> for the endpoint and the response at position \<open>j\<close>. The second
  component lists the bulk calls that were issued, each by its tokens.
\<close>

fun dispatch_batches ::
  "'w env \<Rightarrow> PushNotification \<Rightarrow> (string \<times> string) list \<Rightarrow> DeviceToken list list \<Rightarrow> int \<times> int
     \<Rightarrow> 'w state \<Rightarrow> ((exn + int \<times> int) \<times> 'w state) \<times> string list list" where
  "dispatch_batches env notification data [] cnt s = ((Inr cnt, s), [])"
| "dispatch_batches env notification data (batch # rest) (sc, fc) s =
     (case send_notification_to_multiple_tokens env (map dt_token batch)
             (pn_title notification) (pn_body notification) (Some data)
             (pn_image_url notification) s of
        (Inl e, s') \<Rightarrow> ((Inl e, s'), [map dt_token batch])
      | (Inr resp, s') \<Rightarrow>
          (case dispatch_batches env notification data rest
                  (sc + successes (br_responses resp), fc + failures (br_responses resp))
                  (s'\<lparr>st_db := (st_db s')\<lparr>notification_logs := notification_logs (st_db s')
                         @ map2 (log_of notification) batch (br_responses resp)\<rparr>\<rparr>) of
             (r, calls) \<Rightarrow> (r, map dt_token batch # calls)))"

text \<open>
  The specification's dispatch of a request over a non-empty resolved audience: store the
  total, partition the audience into its batches, dispatch them in turn, then store the two
  counters, the time and the final status.
\<close>

definition dispatch_pass ::
  "'w env \<Rightarrow> PushNotification \<Rightarrow> DeviceToken list \<Rightarrow> 'w state
     \<Rightarrow> ((exn + int \<times> int) \<times> 'w state) \<times> string list list" where
  "dispatch_pass env n tt s =
     (let n1 = n\<lparr>pn_total_recipients := int (length tt)\<rparr>
      in case dispatch_batches env n1 (pn_data n) (batches_of tt) (0, 0) (save_notification n1 s) of
           ((Inl e, s'), calls) \<Rightarrow> ((Inl e, s'), calls)
         | ((Inr (sc, fc), s'), calls) \<Rightarrow>
             ((Inr (sc, fc),
               save_notification
                 (n1\<lparr>pn_successful_sends := sc, pn_failed_sends := fc,
                     pn_sent_at := Some (timezone_now env (st_world s')),
                     pn_status := (if sc > 0 then Sent else Failed)\<rparr>) s'),
              calls))"

text \<open>
  What the stored request must satisfy once a dispatch over the audience \<open>tt\<close> is complete.
\<close>

definition dispatch_complete :: "DeviceToken list \<Rightarrow> PushNotification \<Rightarrow> bool" where
  "dispatch_complete tt n =
     (pn_total_recipients n = int (length tt)
      \<and> pn_successful_sends n + pn_failed_sends n = pn_total_recipients n
      \<and> 0 \<le> pn_successful_sends n \<and> 0 \<le> pn_failed_sends n
      \<and> pn_status n = (if pn_successful_sends n > 0 then Sent else Failed))"

text \<open>
  The lifecycle of the specification, one move at a time:
  \<open>draft \<rightarrow> sending \<rightarrow> {sent, failed}\<close>.
\<close>

definition lifecycle_step :: "status \<Rightarrow> status \<Rightarrow> bool" where
  "lifecycle_step a b = ((a = Draft \<and> b = Sending) \<or> (a = Sending \<and> (b = Sent \<or> b = Failed)))"

text \<open>
  A sequence of statuses a request is stored with, starting from the status \<open>a\<close> it has:
  each save keeps the status or makes one move of the lifecycle.
\<close>

fun lifecycle_chain :: "status \<Rightarrow> status list \<Rightarrow> bool" where
  "lifecycle_chain a [] = True"
| "lifecycle_chain a (b # bs) = ((a = b \<or> lifecycle_step a b) \<and> lifecycle_chain b bs)"

text \<open>The saves of the request \<open>i\<close> among a list of saves, in their order.\<close>

definition request_writes :: "nat \<Rightarrow> PushNotification list \<Rightarrow> PushNotification list" where
  "request_writes i ws = filter (\<lambda>w. pn_id w = i) ws"

text \<open>Every stored request sits under its own primary key.\<close>

definition pk_consistent :: "database \<Rightarrow> bool" where
  "pk_consistent d = (\<forall>i n. notifications d i = Some n \<longrightarrow> pn_id n = i)"

text \<open>
  How a trigger may change the request table: each row is what it was, or it was a draft and
  is now sent or failed.
\<close>

definition advanced :: "database \<Rightarrow> database \<Rightarrow> bool" where
  "advanced d d' =
     (\<forall>i. notifications d' i = notifications d i
          \<or> (\<exists>n n'. notifications d i = Some n \<and> pn_status n = Draft
                \<and> notifications d' i = Some n' \<and> (pn_status n' = Sent \<or> pn_status n' = Failed)))"

section \<open>Concrete inputs\<close>

definition demo_tokens :: "DeviceToken list" where
  "demo_tokens =
     [\<lparr>dt_id = 1, dt_user = Some 1, dt_token = ''tok-android'', dt_device_type = ''android'', dt_is_active = True\<rparr>,
      \<lparr>dt_id = 2, dt_user = Some 1, dt_token = ''tok-ios'', dt_device_type = ''ios'', dt_is_active = True\<rparr>,
      \<lparr>dt_id = 3, dt_user = Some 2, dt_token = ''tok-bad'', dt_device_type = ''ios'', dt_is_active = True\<rparr>,
      \<lparr>dt_id = 4, dt_user = Some 1, dt_token = ''tok-old'', dt_device_type = ''ios'', dt_is_active = False\<rparr>,
      \<lparr>dt_id = 5, dt_user = None, dt_token = ''tok-web'', dt_device_type = ''web'', dt_is_active = True\<rparr>]"

definition demo_notification :: PushNotification where
  "demo_notification =
     \<lparr>pn_id = 1, pn_title = ''Hello'', pn_body = ''World'', pn_data = [], pn_image_url = None,
      pn_auto_send = True, pn_send_to_all = False, pn_target_users = [1],
      pn_target_device_types = ''ios'', pn_status = Draft, pn_total_recipients = 0,
      pn_successful_sends = 0, pn_failed_sends = 0, pn_sent_at = None, pn_created_by = 1\<rparr>"

definition demo_notification_web :: PushNotification where
  "demo_notification_web =
     demo_notification\<lparr>pn_id := 2, pn_target_device_types := ''web''\<rparr>"

definition demo_notification_ios :: PushNotification where
  "demo_notification_ios =
     demo_notification\<lparr>pn_id := 3, pn_send_to_all := True, pn_target_users := []\<rparr>"

definition demo_notification_sent :: PushNotification where
  "demo_notification_sent =
     demo_notification\<lparr>pn_id := 4, pn_status := Sent, pn_total_recipients := 1,
                        pn_successful_sends := 1, pn_sent_at := Some 900\<rparr>"

definition demo_db :: database where
  "demo_db = \<lparr>auth_user = [1, 2], device_tokens = demo_tokens, device_token_seq = 5,
              notifications = [1 \<mapsto> demo_notification, 2 \<mapsto> demo_notification_web,
                               3 \<mapsto> demo_notification_ios, 4 \<mapsto> demo_notification_sent],
              notification_logs = [], notification_saves = []\<rparr>"

definition env_no_key :: "nat env" where
  "env_no_key =
     \<lparr>FIREBASE_SERVICE_ACCOUNT_KEY = None, os_path_exists = (\<lambda>p. False),
      firebase_initialize_app = (\<lambda>p. Inl (Exception ''no such file'')),
      messaging_Notification = (\<lambda>t b i. Inr \<lparr>n_title = t, n_body = b, n_image = i\<rparr>),
      messaging_send = (\<lambda>m w. (Inl (Exception ''The default Firebase app does not exist. Make sure to initialize the SDK by calling initialize_app().''), w)),
      timezone_now = (\<lambda>w. w)\<rparr>"

definition demo_state :: "nat state" where
  "demo_state = \<lparr>st_db = demo_db, st_firebase = \<lparr>fs_app = None, fs_initialized = False\<rparr>,
                 st_world = 0, st_logger = [], st_messages = []\<rparr>"

definition env_ready :: "nat env" where
  "env_ready =
     \<lparr>FIREBASE_SERVICE_ACCOUNT_KEY = Some ''firebase-key.json'',
      os_path_exists = (\<lambda>p. p = ''firebase-key.json''),
      firebase_initialize_app = (\<lambda>p. Inr (App ''[DEFAULT]'')),
      messaging_Notification = (\<lambda>t b i. Inr \<lparr>n_title = t, n_body = b, n_image = i\<rparr>),
      messaging_send = (\<lambda>m w. (if m_token m = ''tok-bad'' then Inl (Exception ''invalid token'')
                                else Inr (''msg-'' @ m_token m), Suc w)),
      timezone_now = (\<lambda>w. 1000 + w)\<rparr>"

definition env_bad_key :: "nat env" where
  "env_bad_key =
     \<lparr>FIREBASE_SERVICE_ACCOUNT_KEY = Some ''firebase-key.json'',
      os_path_exists = (\<lambda>p. p = ''firebase-key.json''),
      firebase_initialize_app = (\<lambda>p. Inl (Exception ''Invalid service account certificate'')),
      messaging_Notification = (\<lambda>t b i. Inr \<lparr>n_title = t, n_body = b, n_image = i\<rparr>),
      messaging_send = (\<lambda>m w. (Inl (Exception ''The default Firebase app does not exist. Make sure to initialize the SDK by calling initialize_app().''), w)),
      timezone_now = (\<lambda>w. 1000 + w)\<rparr>"

section \<open>Audience resolution, registration and unregistration\<close>

lemma get_target_tokens_filter:
  "get_target_tokens d n =
     filter (\<lambda>r. dt_is_active r
                \<and> (pn_target_device_types n \<noteq> ''all'' \<longrightarrow> dt_device_type r = pn_target_device_types n)
                \<and> (\<not> pn_send_to_all n \<and> pn_target_users n \<noteq> [] \<longrightarrow>
                     (\<exists>u \<in> set (pn_target_users n). dt_user r = Some u)))
       (device_tokens d)"
  unfolding get_target_tokens_def Let_def
  by (auto intro!: filter_cong split: option.splits)

lemma admin_get_target_tokens_eq: "admin_get_target_tokens d n = get_target_tokens d n"
  by (simp add: admin_get_target_tokens_def get_target_tokens_def)

lemma filter_token_distinct:
  "distinct (map dt_token rows) \<Longrightarrow>
     filter (\<lambda>r. dt_token r = t) rows = [] \<or> (\<exists>r. filter (\<lambda>r. dt_token r = t) rows = [r])"
proof (induction rows)
  case Nil
  then show ?case by simp
next
  case (Cons a rows)
  show ?case
  proof (cases "dt_token a = t")
    case True
    with Cons.prems have "\<forall>r \<in> set rows. dt_token r \<noteq> t" by (auto simp: image_iff)
    then have "filter (\<lambda>r. dt_token r = t) rows = []" by (simp add: filter_empty_conv)
    with True show ?thesis by simp
  next
    case False
    with Cons show ?thesis by simp
  qed
qed

lemma unregister_unknown:
  assumes "t \<noteq> []" and "\<forall>r \<in> set (device_tokens (st_db s)). dt_token r \<noteq> t"
  shows "unregister_device_token (Some t) s =
           (internal_server_error,
            log ERROR (''Error unregistering device token: '' @ str_exn Http404) s)"
proof -
  from assms(2) have "filter (\<lambda>r. dt_token r = t) (device_tokens (st_db s)) = []"
    by (simp add: filter_empty_conv)
  then have "get_object_or_404 t (st_db s) = Inl Http404"
    by (simp add: get_object_or_404_def)
  with assms(1) show ?thesis
    by (simp add: unregister_device_token_def unregister_device_token_try_def)
qed


lemma save_device_token_other:
  "distinct (map dt_id rows) \<Longrightarrow> r \<in> set rows \<Longrightarrow> dt_id obj = dt_id r \<Longrightarrow>
     map (\<lambda>x. if dt_id x = dt_id obj then obj else x) rows = map (\<lambda>x. if x = r then obj else x) rows"
  by (rule map_cong) (auto simp: distinct_map inj_on_def)

lemma update_or_create_none:
  "filter (\<lambda>r. dt_token r = t) (device_tokens d) = [] \<Longrightarrow>
     update_or_create t u dty a d =
       Inr ((\<lparr>dt_id = Suc (device_token_seq d), dt_user = u, dt_token = t,
               dt_device_type = dty, dt_is_active = a\<rparr>, True),
            d\<lparr>device_tokens := device_tokens d @
                 [\<lparr>dt_id = Suc (device_token_seq d), dt_user = u, dt_token = t,
                    dt_device_type = dty, dt_is_active = a\<rparr>],
              device_token_seq := Suc (device_token_seq d)\<rparr>)"
  by (simp add: update_or_create_def Let_def)

lemma update_or_create_one:
  "filter (\<lambda>r. dt_token r = t) (device_tokens d) = [r] \<Longrightarrow>
     update_or_create t u dty a d =
       Inr ((r\<lparr>dt_user := u, dt_device_type := dty, dt_is_active := a\<rparr>, False),
            save_device_token (r\<lparr>dt_user := u, dt_device_type := dty, dt_is_active := a\<rparr>) d)"
  by (simp add: update_or_create_def Let_def)

lemma update_or_create_many:
  "filter (\<lambda>r. dt_token r = t) (device_tokens d) = r1 # r2 # rest \<Longrightarrow>
     update_or_create t u dty a d = Inl MultipleObjectsReturned"
  by (simp add: update_or_create_def)

lemma register_device_token_ok:
  assumes "rq_token request = Some t" and "t \<noteq> []"
    and "request_user request = None \<or> the (rq_user_id request) \<in> set (auth_user (st_db s))"
    and "update_or_create t (request_user request) (request_device_type request) True (st_db s)
           = Inr ((obj, created), d')"
  shows "register_device_token request s =
           (\<lparr>rsp_data = [(''message'', JStr ''Device token registered successfully''),
                         (''created'', JBool created),
                         (''device_token_id'', JNum (dt_id obj))],
             rsp_status = (if created then 201 else 200)\<rparr>,
            s\<lparr>st_db := d'\<rparr>)"
  using assms
  by (auto simp: register_device_token_def register_device_token_try_def request_user_def
      request_device_type_def Let_def split: if_splits)

lemma update_or_create_wf:
  assumes wf: "wf_db d"
  shows "\<exists>obj d'. update_or_create t u dty a d
                     = Inr ((obj, \<not> (\<exists>r \<in> set (device_tokens d). dt_token r = t)), d')
           \<and> wf_db d'
           \<and> filter (\<lambda>r. dt_token r = t) (device_tokens d') = [obj]
           \<and> dt_user obj = u \<and> dt_device_type obj = dty \<and> dt_is_active obj = a
           \<and> filter (\<lambda>r. dt_token r \<noteq> t) (device_tokens d') = filter (\<lambda>r. dt_token r \<noteq> t) (device_tokens d)
           \<and> auth_user d' = auth_user d \<and> notifications d' = notifications d
           \<and> notification_logs d' = notification_logs d"
proof -
  let ?rows = "device_tokens d"
  from wf have dids: "distinct (map dt_id ?rows)" and dtok: "distinct (map dt_token ?rows)"
    and seq: "list_all (\<lambda>r. dt_id r \<le> device_token_seq d) ?rows"
    by (simp_all add: wf_db_def)
  from filter_token_distinct [OF dtok, of t]
  consider (none) "filter (\<lambda>r. dt_token r = t) ?rows = []"
    | (one) r where "filter (\<lambda>r. dt_token r = t) ?rows = [r]"
    by blast
  then show ?thesis
  proof cases
    case none
    let ?obj = "\<lparr>dt_id = Suc (device_token_seq d), dt_user = u, dt_token = t,
                  dt_device_type = dty, dt_is_active = a\<rparr>"
    from none have fresh: "\<forall>r \<in> set ?rows. dt_token r \<noteq> t"
      by (simp add: filter_empty_conv)
    from seq have "\<forall>r \<in> set ?rows. dt_id r \<noteq> Suc (device_token_seq d)"
      by (auto simp: list_all_iff)
    with dids have d1: "distinct (map dt_id (?rows @ [?obj]))" by auto
    from fresh dtok have d2: "distinct (map dt_token (?rows @ [?obj]))" by auto
    from seq have d3: "list_all (\<lambda>r. dt_id r \<le> Suc (device_token_seq d)) (?rows @ [?obj])"
      by (auto simp: list_all_iff)
    from fresh have d4: "filter (\<lambda>r. dt_token r \<noteq> t) ?rows = ?rows" by simp
    show ?thesis
      using update_or_create_none [OF none, of u dty a] fresh none d1 d2 d3 d4
      by (simp add: wf_db_def)
  next
    case one
    let ?obj = "r\<lparr>dt_user := u, dt_device_type := dty, dt_is_active := a\<rparr>"
    let ?f = "\<lambda>x. if dt_id x = dt_id ?obj then ?obj else x"
    let ?g = "\<lambda>x. if x = r then ?obj else x"
    have "r \<in> set (filter (\<lambda>r. dt_token r = t) ?rows)" using one by simp
    then have rin: "r \<in> set ?rows" and rt: "dt_token r = t" by simp_all
    have fg: "map ?f ?rows = map ?g ?rows"
      using save_device_token_other [OF dids rin, of ?obj] by simp
    have new: "device_tokens (save_device_token ?obj d) = map ?g ?rows"
      using fg by (simp add: save_device_token_def)
    have ids: "map dt_id (map ?g ?rows) = map dt_id ?rows"
      by (simp add: comp_def cong: map_cong)
    have toks: "map dt_token (map ?g ?rows) = map dt_token ?rows"
      by (simp add: comp_def cong: map_cong)
    have seq': "list_all (\<lambda>x. dt_id x \<le> device_token_seq d) (map ?g ?rows)"
      using seq by (auto simp: list_all_iff)
    have pe: "\<And>x. dt_token (?g x) = dt_token x" by (simp add: rt)
    have "filter (\<lambda>x. dt_token x = t) (map ?g ?rows) = map ?g (filter (\<lambda>x. dt_token (?g x) = t) ?rows)"
      unfolding filter_map comp_def ..
    then have "filter (\<lambda>x. dt_token x = t) (map ?g ?rows) = map ?g (filter (\<lambda>x. dt_token x = t) ?rows)"
      unfolding pe .
    then have hit: "filter (\<lambda>x. dt_token x = t) (map ?g ?rows) = [?obj]"
      using one by simp
    have "filter (\<lambda>x. dt_token x \<noteq> t) (map ?g ?rows) = map ?g (filter (\<lambda>x. dt_token (?g x) \<noteq> t) ?rows)"
      unfolding filter_map comp_def ..
    then have "filter (\<lambda>x. dt_token x \<noteq> t) (map ?g ?rows) = map ?g (filter (\<lambda>x. dt_token x \<noteq> t) ?rows)"
      unfolding pe .
    also have "\<dots> = map (\<lambda>x. x) (filter (\<lambda>x. dt_token x \<noteq> t) ?rows)"
      by (rule map_cong) (auto simp: rt)
    finally have miss: "filter (\<lambda>x. dt_token x \<noteq> t) (map ?g ?rows) = filter (\<lambda>x. dt_token x \<noteq> t) ?rows"
      by simp
    have ex: "\<exists>r \<in> set ?rows. dt_token r = t" using rin rt by blast
    define d' where "d' = save_device_token ?obj d"
    have new': "device_tokens d' = map ?g ?rows" using new by (simp add: d'_def)
    have s1: "device_token_seq d' = device_token_seq d"
      and fields: "auth_user d' = auth_user d" "notifications d' = notifications d"
        "notification_logs d' = notification_logs d"
      by (simp_all add: d'_def save_device_token_def)
    have wf': "wf_db d'"
      unfolding wf_db_def new' s1 ids toks using dids dtok seq' by blast
    have uoc: "update_or_create t u dty a d
                 = Inr ((?obj, \<not> (\<exists>r \<in> set ?rows. dt_token r = t)), d')"
      using update_or_create_one [OF one, of u dty a] ex by (simp add: d'_def)
    have props: "dt_user ?obj = u \<and> dt_device_type ?obj = dty \<and> dt_is_active ?obj = a" by simp
    have hit': "filter (\<lambda>r. dt_token r = t) (device_tokens d') = [?obj]"
      unfolding new' by (rule hit)
    have miss': "filter (\<lambda>r. dt_token r \<noteq> t) (device_tokens d') = filter (\<lambda>r. dt_token r \<noteq> t) ?rows"
      unfolding new' by (rule miss)
    from uoc wf' hit' miss' props fields show ?thesis by blast
  qed
qed

lemma register_step:
  assumes wf: "wf_db (st_db s)" and v: "valid_registration t (auth_user (st_db s)) request"
    and t: "t \<noteq> []"
  shows "\<exists>resp obj d'. register_device_token request s = (resp, s\<lparr>st_db := d'\<rparr>)
           \<and> rsp_status resp = (if \<exists>r \<in> set (device_tokens (st_db s)). dt_token r = t then 200 else 201)
           \<and> created_flag resp = Some (JBool (\<not> (\<exists>r \<in> set (device_tokens (st_db s)). dt_token r = t)))
           \<and> wf_db d'
           \<and> filter (\<lambda>r. dt_token r = t) (device_tokens d') = [obj]
           \<and> registered_row request obj
           \<and> filter (\<lambda>r. dt_token r \<noteq> t) (device_tokens d')
               = filter (\<lambda>r. dt_token r \<noteq> t) (device_tokens (st_db s))
           \<and> auth_user d' = auth_user (st_db s)"
proof -
  from update_or_create_wf [OF wf, of t "request_user request" "request_device_type request" True]
  obtain obj d' where
    uoc: "update_or_create t (request_user request) (request_device_type request) True (st_db s)
            = Inr ((obj, \<not> (\<exists>r \<in> set (device_tokens (st_db s)). dt_token r = t)), d')"
    and wf': "wf_db d'"
    and hit: "filter (\<lambda>r. dt_token r = t) (device_tokens d') = [obj]"
    and row: "dt_user obj = request_user request" "dt_device_type obj = request_device_type request"
      "dt_is_active obj = True"
    and miss: "filter (\<lambda>r. dt_token r \<noteq> t) (device_tokens d')
                 = filter (\<lambda>r. dt_token r \<noteq> t) (device_tokens (st_db s))"
    and au: "auth_user d' = auth_user (st_db s)"
    by blast
  from v have tok: "rq_token request = Some t"
    and usr: "request_user request = None \<or> the (rq_user_id request) \<in> set (auth_user (st_db s))"
    by (simp_all add: valid_registration_def)
  let ?present = "\<exists>r \<in> set (device_tokens (st_db s)). dt_token r = t"
  let ?resp = "\<lparr>rsp_data = [(''message'', JStr ''Device token registered successfully''),
                            (''created'', JBool (\<not> ?present)),
                            (''device_token_id'', JNum (dt_id obj))],
                rsp_status = (if \<not> ?present then 201 else 200)\<rparr>"
  have ok: "register_device_token request s = (?resp, s\<lparr>st_db := d'\<rparr>)"
    by (rule register_device_token_ok [OF tok t usr uoc])
  have a: "rsp_status ?resp = (if ?present then 200 else 201)" by simp
  have b: "created_flag ?resp = Some (JBool (\<not> ?present))" by (simp add: created_flag_def)
  have rr: "registered_row request obj" using row by (simp add: registered_row_def)
  from ok a b wf' hit rr miss au show ?thesis by blast
qed

lemma register_device_token_no_token:
  "rq_token request = None \<or> rq_token request = Some [] \<Longrightarrow>
     register_device_token request s =
       (\<lparr>rsp_data = [(''error'', JStr ''Token is required'')], rsp_status = 400\<rparr>, s)"
  by (simp add: register_device_token_def register_device_token_try_def Let_def)

lemma register_device_token_no_user:
  "rq_token request = Some t \<Longrightarrow> t \<noteq> [] \<Longrightarrow>
   \<not> (request_user request = None \<or> the (rq_user_id request) \<in> set (auth_user (st_db s))) \<Longrightarrow>
     register_device_token request s =
       (\<lparr>rsp_data = [(''error'', JStr ''User not found'')], rsp_status = 404\<rparr>, s)"
  by (auto simp: register_device_token_def register_device_token_try_def Let_def request_user_def
      split: if_splits)

lemma register_device_token_raises:
  assumes "rq_token request = Some t" and "t \<noteq> []"
    and "request_user request = None \<or> the (rq_user_id request) \<in> set (auth_user (st_db s))"
    and "update_or_create t (request_user request) (request_device_type request) True (st_db s) = Inl e"
  shows "register_device_token request s =
           (internal_server_error, log ERROR (''Error registering device token: '' @ str_exn e) s)"
  using assms
  by (auto simp: register_device_token_def register_device_token_try_def request_user_def
      request_device_type_def Let_def split: if_splits)

text \<open>
  C7. Audience resolution returns, in table order, exactly the device tokens that are active,
  that have the request's platform when its platform filter is not \<open>all\<close>, and that belong
  to a user of the explicit user set when the request is not broadcast-to-all and that set is
  not empty; the admin's copy of the function agrees; a filter of \<open>ios\<close> yields only
  \<open>ios\<close> endpoints, so never an \<open>android\<close> or \<open>web\<close> one.
\<close>

theorem audience_resolution:
  "get_target_tokens d n =
     filter (\<lambda>r. dt_is_active r
                \<and> (pn_target_device_types n \<noteq> ''all'' \<longrightarrow> dt_device_type r = pn_target_device_types n)
                \<and> (\<not> pn_send_to_all n \<and> pn_target_users n \<noteq> [] \<longrightarrow>
                     (\<exists>u \<in> set (pn_target_users n). dt_user r = Some u)))
       (device_tokens d)
   \<and> admin_get_target_tokens d n = get_target_tokens d n
   \<and> (pn_target_device_types n = ''ios'' \<longrightarrow>
        (\<forall>r \<in> set (get_target_tokens d n).
           dt_device_type r = ''ios'' \<and> dt_device_type r \<noteq> ''android'' \<and> dt_device_type r \<noteq> ''web''))"
proof (intro conjI impI ballI)
  show "get_target_tokens d n =
     filter (\<lambda>r. dt_is_active r
                \<and> (pn_target_device_types n \<noteq> ''all'' \<longrightarrow> dt_device_type r = pn_target_device_types n)
                \<and> (\<not> pn_send_to_all n \<and> pn_target_users n \<noteq> [] \<longrightarrow>
                     (\<exists>u \<in> set (pn_target_users n). dt_user r = Some u)))
       (device_tokens d)"
    by (rule get_target_tokens_filter)
  show "admin_get_target_tokens d n = get_target_tokens d n"
    by (rule admin_get_target_tokens_eq)
next
  fix r assume ios: "pn_target_device_types n = ''ios''" and r: "r \<in> set (get_target_tokens d n)"
  from r ios have t: "dt_device_type r = ''ios''"
    by (simp add: get_target_tokens_filter)
  then show "dt_device_type r = ''ios''" "dt_device_type r \<noteq> ''android''" "dt_device_type r \<noteq> ''web''"
    by simp_all
qed

theorem audience_resolution_witness:
  "get_target_tokens demo_db demo_notification
     = [\<lparr>dt_id = 2, dt_user = Some 1, dt_token = ''tok-ios'', dt_device_type = ''ios'', dt_is_active = True\<rparr>]
   \<and> admin_get_target_tokens demo_db demo_notification = get_target_tokens demo_db demo_notification"
  using audience_resolution [of demo_db demo_notification]
  by (simp add: demo_db_def demo_notification_def demo_tokens_def)

text \<open>
  C8. Unregistering a token that matches no stored row: the view's \<open>except Exception\<close>
  catches the \<open>Http404\<close> of \<open>get_object_or_404\<close>, so the answer is 500 "Internal server
  error" and not a not-found error; nothing but the logger changes.
\<close>

theorem unregister_unknown_token_500:
  "unregister_device_token (Some ''tok-unknown'') demo_state
     = (\<lparr>rsp_data = [(''error'', JStr ''Internal server error'')], rsp_status = 500\<rparr>,
        log ERROR ''Error unregistering device token: No DeviceToken matches the given query.'' demo_state)"
proof -
  have "\<forall>r \<in> set (device_tokens (st_db demo_state)). dt_token r \<noteq> ''tok-unknown''"
    by (simp add: demo_state_def demo_db_def demo_tokens_def)
  from unregister_unknown [OF _ this] show ?thesis
    by (simp add: internal_server_error_def)
qed

text \<open>
  The other half of C8 holds: a token that matches a row sets \<open>is_active\<close> to false on
  that row and leaves every other row, and every other field of the row, as it was.
\<close>

lemma unregister_known_token:
  assumes wf: "wf_db (st_db s)" and rin: "r \<in> set (device_tokens (st_db s))"
    and t: "dt_token r \<noteq> []"
  shows "unregister_device_token (Some (dt_token r)) s =
           (\<lparr>rsp_data = [(''message'', JStr ''Device token unregistered successfully'')],
             rsp_status = 200\<rparr>,
            s\<lparr>st_db := (st_db s)\<lparr>device_tokens :=
                  map (\<lambda>x. if x = r then r\<lparr>dt_is_active := False\<rparr> else x)
                    (device_tokens (st_db s))\<rparr>\<rparr>)"
proof -
  let ?rows = "device_tokens (st_db s)"
  from wf have dids: "distinct (map dt_id ?rows)" and dtok: "distinct (map dt_token ?rows)"
    by (simp_all add: wf_db_def)
  from rin have mem: "r \<in> set (filter (\<lambda>x. dt_token x = dt_token r) ?rows)" by simp
  from filter_token_distinct [OF dtok, of "dt_token r"]
  consider (none) "filter (\<lambda>x. dt_token x = dt_token r) ?rows = []"
    | (single) x where "filter (\<lambda>x. dt_token x = dt_token r) ?rows = [x]"
    by blast
  then have one: "filter (\<lambda>x. dt_token x = dt_token r) ?rows = [r]"
  proof cases
    case none
    with mem show ?thesis by (simp only: list.set empty_iff)
  next
    case single
    with mem have "r \<in> set [x]" by (simp only:)
    with single show ?thesis by simp
  qed
  then have got: "get_object_or_404 (dt_token r) (st_db s) = Inr r"
    by (simp add: get_object_or_404_def)
  have "map (\<lambda>x. if dt_id x = dt_id (r\<lparr>dt_is_active := False\<rparr>) then r\<lparr>dt_is_active := False\<rparr> else x) ?rows
          = map (\<lambda>x. if x = r then r\<lparr>dt_is_active := False\<rparr> else x) ?rows"
    by (rule save_device_token_other [OF dids rin]) simp
  with got t show ?thesis
    by (simp add: unregister_device_token_def unregister_device_token_try_def save_device_token_def)
qed

text \<open>
  C9. Registration is idempotent per token. In a database that meets its own constraints,
  any non-empty sequence of registrations of one non-empty token, each naming no user or an
  existing one, leaves exactly one row with that token; the row carries the owner and the
  platform of the latest request and is active; the first call answers 201 with
  \<open>created\<close> true exactly when the token was new, and every later call answers 200 with
  \<open>created\<close> false; the rows of other tokens are untouched.
\<close>

theorem registration_idempotent:
  assumes "rqs \<noteq> []" and "wf_db (st_db s)"
    and "\<forall>request \<in> set rqs. valid_registration t (auth_user (st_db s)) request" and "t \<noteq> []"
  shows "\<exists>row. filter (\<lambda>r. dt_token r = t) (device_tokens (st_db (snd (register_all rqs s)))) = [row]
           \<and> registered_row (last rqs) row
           \<and> map rsp_status (fst (register_all rqs s))
               = (if \<exists>r \<in> set (device_tokens (st_db s)). dt_token r = t then 200 else 201)
                 # replicate (length rqs - 1) 200
           \<and> map created_flag (fst (register_all rqs s))
               = Some (JBool (\<not> (\<exists>r \<in> set (device_tokens (st_db s)). dt_token r = t)))
                 # replicate (length rqs - 1) (Some (JBool False))
           \<and> filter (\<lambda>r. dt_token r \<noteq> t) (device_tokens (st_db (snd (register_all rqs s))))
               = filter (\<lambda>r. dt_token r \<noteq> t) (device_tokens (st_db s))
           \<and> wf_db (st_db (snd (register_all rqs s)))"
  using assms
proof (induction rqs arbitrary: s rule: list_nonempty_induct)
  case (single request)
  then have v: "valid_registration t (auth_user (st_db s)) request" by simp
  from register_step [OF single.prems(1) v single.prems(3)]
  show ?case by auto
next
  case (cons request rqs)
  then have v: "valid_registration t (auth_user (st_db s)) request" by simp
  from register_step [OF cons.prems(1) v cons.prems(3)]
  obtain resp obj d' where
    step: "register_device_token request s = (resp, s\<lparr>st_db := d'\<rparr>)"
    and st: "rsp_status resp = (if \<exists>r \<in> set (device_tokens (st_db s)). dt_token r = t then 200 else 201)"
    and cf: "created_flag resp = Some (JBool (\<not> (\<exists>r \<in> set (device_tokens (st_db s)). dt_token r = t)))"
    and wf': "wf_db d'"
    and hit: "filter (\<lambda>r. dt_token r = t) (device_tokens d') = [obj]"
    and miss: "filter (\<lambda>r. dt_token r \<noteq> t) (device_tokens d')
                 = filter (\<lambda>r. dt_token r \<noteq> t) (device_tokens (st_db s))"
    and au: "auth_user d' = auth_user (st_db s)"
    by blast
  let ?s1 = "s\<lparr>st_db := d'\<rparr>"
  have "obj \<in> set (filter (\<lambda>r. dt_token r = t) (device_tokens d'))" using hit by simp
  then have present: "\<exists>r \<in> set (device_tokens (st_db ?s1)). dt_token r = t" by auto
  have p1: "wf_db (st_db ?s1)" using wf' by simp
  have p2: "\<forall>request \<in> set rqs. valid_registration t (auth_user (st_db ?s1)) request"
    using cons.prems(2) au by simp
  note ih0 = cons.IH [OF p1 p2 cons.prems(3)]
  from present ih0 have "\<exists>row.
      filter (\<lambda>r. dt_token r = t) (device_tokens (st_db (snd (register_all rqs ?s1)))) = [row] \<and>
      registered_row (last rqs) row \<and>
      map rsp_status (fst (register_all rqs ?s1)) = 200 # replicate (length rqs - 1) 200 \<and>
      map created_flag (fst (register_all rqs ?s1)) = Some (JBool False) # replicate (length rqs - 1) (Some (JBool False)) \<and>
      filter (\<lambda>r. dt_token r \<noteq> t) (device_tokens (st_db (snd (register_all rqs ?s1))))
         = filter (\<lambda>r. dt_token r \<noteq> t) (device_tokens (st_db ?s1)) \<and>
      wf_db (st_db (snd (register_all rqs ?s1)))"
    by simp
  then obtain row where
    ih: "filter (\<lambda>r. dt_token r = t) (device_tokens (st_db (snd (register_all rqs ?s1)))) = [row] \<and>
      registered_row (last rqs) row \<and>
      map rsp_status (fst (register_all rqs ?s1)) = 200 # replicate (length rqs - 1) 200 \<and>
      map created_flag (fst (register_all rqs ?s1)) = Some (JBool False) # replicate (length rqs - 1) (Some (JBool False)) \<and>
      filter (\<lambda>r. dt_token r \<noteq> t) (device_tokens (st_db (snd (register_all rqs ?s1))))
         = filter (\<lambda>r. dt_token r \<noteq> t) (device_tokens (st_db ?s1)) \<and>
      wf_db (st_db (snd (register_all rqs ?s1)))" ..
  from cons.hyps obtain r0 rqs' where rqs: "rqs = r0 # rqs'" by (cases rqs) auto
  show ?case
    using rqs step st cf ih miss
    by (simp add: split_beta)
qed

theorem registration_idempotent_witness:
  "filter (\<lambda>r. dt_token r = ''tok-new'')
     (device_tokens (st_db (snd (register_all
        [\<lparr>rq_token = Some ''tok-new'', rq_device_type = None, rq_user_id = Some 1\<rparr>,
         \<lparr>rq_token = Some ''tok-new'', rq_device_type = Some ''web'', rq_user_id = None\<rparr>]
        demo_state))))
     = [\<lparr>dt_id = 6, dt_user = None, dt_token = ''tok-new'', dt_device_type = ''web'',
         dt_is_active = True\<rparr>]
   \<and> map rsp_status (fst (register_all
        [\<lparr>rq_token = Some ''tok-new'', rq_device_type = None, rq_user_id = Some 1\<rparr>,
         \<lparr>rq_token = Some ''tok-new'', rq_device_type = Some ''web'', rq_user_id = None\<rparr>]
        demo_state)) = [201, 200]"
proof -
  let ?rqs = "[\<lparr>rq_token = Some ''tok-new'', rq_device_type = None, rq_user_id = Some 1\<rparr>,
               \<lparr>rq_token = Some ''tok-new'', rq_device_type = Some ''web'', rq_user_id = None\<rparr>]"
  have ne: "?rqs \<noteq> []" by simp
  have wf: "wf_db (st_db demo_state)"
    by (simp add: wf_db_def demo_state_def demo_db_def demo_tokens_def)
  have v: "\<forall>request \<in> set ?rqs. valid_registration ''tok-new'' (auth_user (st_db demo_state)) request"
    by (simp add: valid_registration_def request_user_def demo_state_def demo_db_def)
  have t: "''tok-new'' \<noteq> []" by simp
  have fresh: "\<not> (\<exists>r \<in> set (device_tokens (st_db demo_state)). dt_token r = ''tok-new'')"
    by (simp add: demo_state_def demo_db_def demo_tokens_def)
  from registration_idempotent [OF ne wf v t] fresh
  obtain row where
    row: "filter (\<lambda>r. dt_token r = ''tok-new'')
            (device_tokens (st_db (snd (register_all ?rqs demo_state)))) = [row]"
    and reg: "registered_row (last ?rqs) row"
    and st: "map rsp_status (fst (register_all ?rqs demo_state)) = [201, 200]"
    and others: "filter (\<lambda>r. dt_token r \<noteq> ''tok-new'')
            (device_tokens (st_db (snd (register_all ?rqs demo_state))))
          = filter (\<lambda>r. dt_token r \<noteq> ''tok-new'') (device_tokens (st_db demo_state))"
    by auto
  have run: "device_tokens (st_db (snd (register_all ?rqs demo_state)))
               = demo_tokens @ [\<lparr>dt_id = 6, dt_user = None, dt_token = ''tok-new'',
                                  dt_device_type = ''web'', dt_is_active = True\<rparr>]"
    by (simp add: register_device_token_def register_device_token_try_def update_or_create_def
        save_device_token_def demo_state_def demo_db_def demo_tokens_def Let_def)
  have "filter (\<lambda>r. dt_token r = ''tok-new'')
          (demo_tokens @ [\<lparr>dt_id = 6, dt_user = None, dt_token = ''tok-new'',
                            dt_device_type = ''web'', dt_is_active = True\<rparr>])
        = [\<lparr>dt_id = 6, dt_user = None, dt_token = ''tok-new'', dt_device_type = ''web'',
            dt_is_active = True\<rparr>]"
    by (simp add: demo_tokens_def)
  with run st show ?thesis by simp
qed

text \<open>
  C10. A registration call that succeeds (answers 200 or 201) leaves a row with the call's
  token, and every row with that token is active and owned by exactly the user the call
  names: by nobody when \<open>user_id\<close> is omitted (or zero), whatever the row said before.
\<close>

theorem registration_activates_and_sets_owner:
  assumes run: "register_device_token request s = (resp, s')"
    and ok: "rsp_status resp = 200 \<or> rsp_status resp = 201"
  shows "\<exists>t. rq_token request = Some t \<and> t \<noteq> []
           \<and> (\<exists>row \<in> set (device_tokens (st_db s')). dt_token row = t)
           \<and> (\<forall>row \<in> set (device_tokens (st_db s')). dt_token row = t \<longrightarrow>
                 dt_is_active row \<and> dt_user row = request_user request)
           \<and> (request_user request = None \<or> the (rq_user_id request) \<in> set (auth_user (st_db s)))"
proof -
  have "\<not> (rq_token request = None \<or> rq_token request = Some [])"
  proof
    assume "rq_token request = None \<or> rq_token request = Some []"
    from register_device_token_no_token [OF this, of s] run ok show False by auto
  qed
  then obtain t where tok: "rq_token request = Some t" and t: "t \<noteq> []"
    by (cases "rq_token request") auto
  have usr: "request_user request = None \<or> the (rq_user_id request) \<in> set (auth_user (st_db s))"
  proof (rule ccontr)
    assume "\<not> ?thesis"
    from register_device_token_no_user [OF tok t this] run ok show False by auto
  qed
  let ?u = "request_user request" and ?dty = "request_device_type request"
  let ?rows = "device_tokens (st_db s)"
  obtain obj created d' where
    uoc: "update_or_create t ?u ?dty True (st_db s) = Inr ((obj, created), d')"
  proof (cases "update_or_create t ?u ?dty True (st_db s)")
    case (Inl e)
    from register_device_token_raises [OF tok t usr Inl] run ok have False
      by (auto simp: internal_server_error_def)
    then show ?thesis ..
  next
    case (Inr x)
    then show ?thesis using that by (cases x) auto
  qed
  from register_device_token_ok [OF tok t usr uoc] run
  have s': "s' = s\<lparr>st_db := d'\<rparr>" by simp
  show ?thesis
  proof (cases "filter (\<lambda>r. dt_token r = t) ?rows")
    case Nil
    then have fresh: "\<forall>r \<in> set ?rows. dt_token r \<noteq> t" by (simp add: filter_empty_conv)
    from uoc update_or_create_none [OF Nil, of ?u ?dty True]
    have "device_tokens d' = ?rows @ [\<lparr>dt_id = Suc (device_token_seq (st_db s)), dt_user = ?u,
             dt_token = t, dt_device_type = ?dty, dt_is_active = True\<rparr>]"
      by auto
    with fresh tok t usr s' show ?thesis by auto
  next
    case (Cons r rest)
    show ?thesis
    proof (cases rest)
      case Nil
      with Cons have one: "filter (\<lambda>r. dt_token r = t) ?rows = [r]" by simp
      then have "r \<in> set (filter (\<lambda>r. dt_token r = t) ?rows)" by simp
      then have rin: "r \<in> set ?rows" and rt: "dt_token r = t" by simp_all
      let ?obj = "r\<lparr>dt_user := ?u, dt_device_type := ?dty, dt_is_active := True\<rparr>"
      from uoc update_or_create_one [OF one, of ?u ?dty True]
      have "d' = save_device_token ?obj (st_db s)" by auto
      then have new: "device_tokens d' = map (\<lambda>x. if dt_id x = dt_id r then ?obj else x) ?rows"
        by (simp add: save_device_token_def)
      have "?obj \<in> set (device_tokens d')" unfolding new using rin by force
      moreover have "dt_token ?obj = t" using rt by simp
      ultimately have ex: "\<exists>row \<in> set (device_tokens d'). dt_token row = t" by blast
      have all: "\<forall>row \<in> set (device_tokens d'). dt_token row = t \<longrightarrow>
                   dt_is_active row \<and> dt_user row = ?u"
      proof (intro ballI impI)
        fix row assume "row \<in> set (device_tokens d')" and rowt: "dt_token row = t"
        then obtain x where x: "x \<in> set ?rows" and row: "row = (if dt_id x = dt_id r then ?obj else x)"
          unfolding new by auto
        show "dt_is_active row \<and> dt_user row = ?u"
        proof (cases "dt_id x = dt_id r")
          case True
          with row show ?thesis by simp
        next
          case False
          with row rowt have "x \<in> set (filter (\<lambda>r. dt_token r = t) ?rows)" using x by simp
          with one have "x = r" by simp
          with False show ?thesis by simp
        qed
      qed
      from tok t ex all usr s' show ?thesis by simp
    next
      case (Cons r2 rest2)
      with \<open>filter (\<lambda>r. dt_token r = t) ?rows = r # rest\<close>
      have "update_or_create t ?u ?dty True (st_db s) = Inl MultipleObjectsReturned"
        by (simp add: update_or_create_many)
      with uoc show ?thesis by simp
    qed
  qed
qed

theorem registration_activates_and_sets_owner_witness:
  "rsp_status (fst (register_device_token
      \<lparr>rq_token = Some ''tok-old'', rq_device_type = None, rq_user_id = None\<rparr> demo_state)) = 200
   \<and> filter (\<lambda>r. dt_token r = ''tok-old'')
       (device_tokens (st_db (snd (register_device_token
          \<lparr>rq_token = Some ''tok-old'', rq_device_type = None, rq_user_id = None\<rparr> demo_state))))
     = [\<lparr>dt_id = 4, dt_user = None, dt_token = ''tok-old'', dt_device_type = ''android'',
         dt_is_active = True\<rparr>]"
proof -
  let ?rq = "\<lparr>rq_token = Some ''tok-old'', rq_device_type = None, rq_user_id = None\<rparr>"
  obtain resp s' where run: "register_device_token ?rq demo_state = (resp, s')"
    by (cases "register_device_token ?rq demo_state")
  have st: "rsp_status (fst (register_device_token ?rq demo_state)) = 200"
    by (simp add: register_device_token_def register_device_token_try_def update_or_create_def
        save_device_token_def demo_state_def demo_db_def demo_tokens_def Let_def)
  with run have ok: "rsp_status resp = 200 \<or> rsp_status resp = 201" by simp
  have rows: "filter (\<lambda>r. dt_token r = ''tok-old'')
                (device_tokens (st_db (snd (register_device_token ?rq demo_state))))
              = [\<lparr>dt_id = 4, dt_user = None, dt_token = ''tok-old'', dt_device_type = ''android'',
                  dt_is_active = True\<rparr>]"
    by (simp add: register_device_token_def register_device_token_try_def update_or_create_def
        save_device_token_def demo_state_def demo_db_def demo_tokens_def Let_def)
  from registration_activates_and_sets_owner [OF run ok] st rows show ?thesis by simp
qed

section \<open>The gateway adapter\<close>

lemma initialize_firebase_settled: "settled s \<Longrightarrow> initialize_firebase env s = (Inr (), s)"
  by (auto simp: settled_def initialize_firebase_def)

lemma initialize_firebase_after:
  "initialize_firebase env s = (r, s1) \<Longrightarrow>
     settled s1 \<and> st_db s1 = st_db s \<and> st_world s1 = st_world s \<and> st_messages s1 = st_messages s"
  by (auto simp: settled_def initialize_firebase_def log_def Let_def split: if_splits sum.splits option.splits)

lemma initialize_firebase_again:
  "initialize_firebase env s = (r, s1) \<Longrightarrow> initialize_firebase env s1 = (Inr (), s1)"
  using initialize_firebase_after initialize_firebase_settled by blast

lemma log_fields [simp]:
  "st_db (log l m s) = st_db s" "st_world (log l m s) = st_world s"
  "st_firebase (log l m s) = st_firebase s" "st_messages (log l m s) = st_messages s"
  by (simp_all add: log_def)

lemma send_each_acc:
  "send_each env n d ts (rs, sc, fc) w =
     (case send_each env n d ts ([], 0, 0) w of
        ((rs', sc', fc'), w') \<Rightarrow> ((rs @ rs', sc + sc', fc + fc'), w'))"
proof (induction ts arbitrary: rs sc fc w)
  case Nil
  then show ?case by simp
next
  case (Cons t ts)
  show ?case
  proof (cases "messaging_send env \<lparr>m_notification = n, m_data = d, m_token = t\<rparr> w")
    case (Pair res w1)
    show ?thesis
    proof (cases res)
      case (Inl e)
      with Pair show ?thesis
        apply simp
        apply (subst Cons.IH)
        apply (subst (2) Cons.IH)
        apply (simp split: prod.splits)
        done
    next
      case (Inr mid)
      with Pair show ?thesis
        apply simp
        apply (subst Cons.IH)
        apply (subst (2) Cons.IH)
        apply (simp split: prod.splits)
        done
    qed
  qed
qed

lemma send_each_result:
  "send_each env n d ts ([], 0, 0) w = ((rs, sc, fc), w') \<Longrightarrow>
     map r_token rs = ts
     \<and> sc = int (length (filter r_success rs))
     \<and> fc = int (length (filter (\<lambda>r. \<not> r_success r) rs))"
proof (induction ts arbitrary: rs sc fc w w')
  case Nil
  then show ?case by simp
next
  case (Cons t ts)
  obtain res w1 where ms: "messaging_send env \<lparr>m_notification = n, m_data = d, m_token = t\<rparr> w = (res, w1)"
    by (cases "messaging_send env \<lparr>m_notification = n, m_data = d, m_token = t\<rparr> w")
  obtain rs2 sc2 fc2 w2 where rest: "send_each env n d ts ([], 0, 0) w1 = ((rs2, sc2, fc2), w2)"
    by (cases "send_each env n d ts ([], 0, 0) w1") auto
  note ih = Cons.IH [OF rest]
  show ?case
  proof (cases res)
    case (Inl e)
    with ms Cons.prems rest ih show ?thesis
      by (auto simp: send_each_acc [of env n d ts "[x]" for x])
  next
    case (Inr mid)
    with ms Cons.prems rest ih show ?thesis
      by (auto simp: send_each_acc [of env n d ts "[x]" for x])
  qed
qed

lemma is_firebase_available_settled:
  "settled s \<Longrightarrow> is_firebase_available env s = (Inr (fs_app (st_firebase s) \<noteq> None), s)"
  by (simp add: is_firebase_available_def initialize_firebase_settled)

lemma bulk_after_init:
  "initialize_firebase env s = (Inr (), s1) \<Longrightarrow>
     send_notification_to_multiple_tokens env tokens title body data image_url s
       = send_notification_to_multiple_tokens env tokens title body data image_url s1"
  by (simp add: send_notification_to_multiple_tokens_def initialize_firebase_again)

lemma single_after_init:
  "initialize_firebase env s = (Inr (), s1) \<Longrightarrow>
     send_notification_to_token env token title body data image_url s
       = send_notification_to_token env token title body data image_url s1"
  by (simp add: send_notification_to_token_def is_firebase_available_def initialize_firebase_again)

text \<open>What the bulk form gives once initialization has returned.\<close>

lemma bulk_result:
  assumes init: "initialize_firebase env s = (Inr (), s1)"
  shows "\<exists>res s'. send_notification_to_multiple_tokens env tokens title body data image_url s = (Inr res, s')
           \<and> map r_token (br_responses res) = tokens
           \<and> br_success_count res = int (length (filter r_success (br_responses res)))
           \<and> br_failure_count res = int (length (filter (\<lambda>r. \<not> r_success r) (br_responses res)))
           \<and> st_db s' = st_db s \<and> st_messages s' = st_messages s \<and> settled s'"
proof -
  from initialize_firebase_after [OF init]
  have s1: "settled s1" "st_db s1 = st_db s" "st_messages s1 = st_messages s" by simp_all
  show ?thesis
  proof (cases "tokens = []")
    case True
    with init s1 show ?thesis by (simp add: send_notification_to_multiple_tokens_def)
  next
    case False
    show ?thesis
    proof (cases "messaging_Notification env title body image_url")
      case (Inl e)
      with init s1 False show ?thesis
        by (simp add: send_notification_to_multiple_tokens_def comp_def settled_def)
    next
      case (Inr notif)
      obtain rs sc fc w' where
        se: "send_each env notif (or_empty data) tokens ([], 0, 0) (st_world s1) = ((rs, sc, fc), w')"
        by (cases "send_each env notif (or_empty data) tokens ([], 0, 0) (st_world s1)") auto
      from send_each_result [OF se] init s1 False Inr se show ?thesis
        by (simp add: send_notification_to_multiple_tokens_def settled_def)
    qed
  qed
qed

lemma single_send_cases:
  assumes init: "initialize_firebase env s = (Inr (), s1)"
  shows "send_notification_to_token env token title body data image_url s =
     (if fs_app (st_firebase s1) = None then
        (Inr \<lparr>sr_success = False, sr_message_id = None, sr_error = Some not_configured\<rparr>,
         log ERROR ''Firebase is not available. Cannot send notification.'' s1)
      else case messaging_Notification env title body image_url of
        Inl e \<Rightarrow>
          (Inr \<lparr>sr_success = False, sr_message_id = None, sr_error = Some (str_exn e)\<rparr>,
           log ERROR (''Failed to send notification to token '' @ token @ '': '' @ str_exn e) s1)
      | Inr notification \<Rightarrow>
          (case messaging_send env
                  \<lparr>m_notification = notification, m_data = or_empty data, m_token = token\<rparr>
                  (st_world s1) of
             (Inr response, w') \<Rightarrow>
               (Inr \<lparr>sr_success = True, sr_message_id = Some response, sr_error = None\<rparr>,
                log INFO (''Successfully sent message: '' @ response) (s1\<lparr>st_world := w'\<rparr>))
           | (Inl e, w') \<Rightarrow>
               (Inr \<lparr>sr_success = False, sr_message_id = None, sr_error = Some (str_exn e)\<rparr>,
                log ERROR (''Failed to send notification to token '' @ token @ '': '' @ str_exn e)
                  (s1\<lparr>st_world := w'\<rparr>))))"
  using init by (simp add: send_notification_to_token_def is_firebase_available_def)

text \<open>
  C6, as the code has it. When the initialization step returns (it raises at most once, on the
  first call of the process, and \<open>send_notification_to_token\<close> calls it outside its
  \<open>try\<close>), the single-recipient form returns a result and never raises: with no usable
  client it is the fixed not-configured failure and the gateway is not called; an exception
  raised while the notification is built, or by the transport, becomes the failure result
  carrying its message; what the transport returns becomes the success result carrying that
  message id; a success carries a message id and no error, a failure an error and no message
  id; the gateway is called at most once, and the database is not touched. When the initialization step raises,
  the call raises the same exception.
\<close>

theorem single_send_never_raises_once_initialized:
  "(initialize_firebase env s = (Inr (), s1) \<longrightarrow>
     (\<exists>r s'. send_notification_to_token env token title body data image_url s = (Inr r, s')
        \<and> (fs_app (st_firebase s1) = None \<longrightarrow>
              r = \<lparr>sr_success = False, sr_message_id = None, sr_error = Some not_configured\<rparr>
              \<and> st_world s' = st_world s)
        \<and> (\<forall>e. fs_app (st_firebase s1) \<noteq> None
                 \<and> messaging_Notification env title body image_url = Inl e \<longrightarrow>
              r = \<lparr>sr_success = False, sr_message_id = None, sr_error = Some (str_exn e)\<rparr>
              \<and> st_world s' = st_world s)
        \<and> (\<forall>notification e.
              fs_app (st_firebase s1) \<noteq> None
              \<and> messaging_Notification env title body image_url = Inr notification
              \<and> fst (messaging_send env
                       \<lparr>m_notification = notification, m_data = or_empty data, m_token = token\<rparr>
                       (st_world s)) = Inl e \<longrightarrow>
              r = \<lparr>sr_success = False, sr_message_id = None, sr_error = Some (str_exn e)\<rparr>)
        \<and> (\<forall>notification mid.
              fs_app (st_firebase s1) \<noteq> None
              \<and> messaging_Notification env title body image_url = Inr notification
              \<and> fst (messaging_send env
                       \<lparr>m_notification = notification, m_data = or_empty data, m_token = token\<rparr>
                       (st_world s)) = Inr mid \<longrightarrow>
              r = \<lparr>sr_success = True, sr_message_id = Some mid, sr_error = None\<rparr>)
        \<and> (\<forall>notification.
              fs_app (st_firebase s1) \<noteq> None
              \<and> messaging_Notification env title body image_url = Inr notification \<longrightarrow>
              st_world s' = snd (messaging_send env
                       \<lparr>m_notification = notification, m_data = or_empty data, m_token = token\<rparr>
                       (st_world s)))
        \<and> (sr_success r \<longrightarrow> fs_app (st_firebase s1) \<noteq> None \<and> sr_message_id r \<noteq> None \<and> sr_error r = None)
        \<and> (\<not> sr_success r \<longrightarrow> sr_message_id r = None \<and> sr_error r \<noteq> None)
        \<and> st_db s' = st_db s \<and> st_firebase s' = st_firebase s1))
   \<and> (initialize_firebase env s = (Inl x, s1) \<longrightarrow>
        send_notification_to_token env token title body data image_url s = (Inl x, s1))"
proof (intro conjI impI)
  assume "initialize_firebase env s = (Inl x, s1)"
  then show "send_notification_to_token env token title body data image_url s = (Inl x, s1)"
    by (simp add: send_notification_to_token_def is_firebase_available_def)
next
  assume init: "initialize_firebase env s = (Inr (), s1)"
  from initialize_firebase_after [OF init]
  have s1: "st_db s1 = st_db s" "st_world s1 = st_world s" by simp_all
  note c = single_send_cases [OF init, of token title body data image_url]
  let ?goal = "\<exists>r s'. send_notification_to_token env token title body data image_url s = (Inr r, s')
        \<and> (fs_app (st_firebase s1) = None \<longrightarrow>
              r = \<lparr>sr_success = False, sr_message_id = None, sr_error = Some not_configured\<rparr>
              \<and> st_world s' = st_world s)
        \<and> (\<forall>e. fs_app (st_firebase s1) \<noteq> None
                 \<and> messaging_Notification env title body image_url = Inl e \<longrightarrow>
              r = \<lparr>sr_success = False, sr_message_id = None, sr_error = Some (str_exn e)\<rparr>
              \<and> st_world s' = st_world s)
        \<and> (\<forall>notification e.
              fs_app (st_firebase s1) \<noteq> None
              \<and> messaging_Notification env title body image_url = Inr notification
              \<and> fst (messaging_send env
                       \<lparr>m_notification = notification, m_data = or_empty data, m_token = token\<rparr>
                       (st_world s)) = Inl e \<longrightarrow>
              r = \<lparr>sr_success = False, sr_message_id = None, sr_error = Some (str_exn e)\<rparr>)
        \<and> (\<forall>notification mid.
              fs_app (st_firebase s1) \<noteq> None
              \<and> messaging_Notification env title body image_url = Inr notification
              \<and> fst (messaging_send env
                       \<lparr>m_notification = notification, m_data = or_empty data, m_token = token\<rparr>
                       (st_world s)) = Inr mid \<longrightarrow>
              r = \<lparr>sr_success = True, sr_message_id = Some mid, sr_error = None\<rparr>)
        \<and> (\<forall>notification.
              fs_app (st_firebase s1) \<noteq> None
              \<and> messaging_Notification env title body image_url = Inr notification \<longrightarrow>
              st_world s' = snd (messaging_send env
                       \<lparr>m_notification = notification, m_data = or_empty data, m_token = token\<rparr>
                       (st_world s)))
        \<and> (sr_success r \<longrightarrow> fs_app (st_firebase s1) \<noteq> None \<and> sr_message_id r \<noteq> None \<and> sr_error r = None)
        \<and> (\<not> sr_success r \<longrightarrow> sr_message_id r = None \<and> sr_error r \<noteq> None)
        \<and> st_db s' = st_db s \<and> st_firebase s' = st_firebase s1"
  show ?goal
  proof (cases "fs_app (st_firebase s1) = None")
    case True
    with c s1 show ?thesis by simp
  next
    case False
    show ?thesis
    proof (cases "messaging_Notification env title body image_url")
      case (Inl e)
      with c s1 False show ?thesis by auto
    next
      case (Inr notif)
      obtain res w' where ms: "messaging_send env
          \<lparr>m_notification = notif, m_data = or_empty data, m_token = token\<rparr> (st_world s) = (res, w')"
        by (cases "messaging_send env
          \<lparr>m_notification = notif, m_data = or_empty data, m_token = token\<rparr> (st_world s)")
      show ?thesis
      proof (cases res)
        case (Inl e)
        with c s1 False Inr ms show ?thesis by auto
      next
        case (Inr mid)
        with c s1 False \<open>messaging_Notification env title body image_url = Inr notif\<close> ms
        show ?thesis by auto
      qed
    qed
  qed
qed

lemma loop_when_notification_fails:
  assumes av: "fs_app (st_firebase s) \<noteq> None"
    and nf: "messaging_Notification env title body image_url = Inl e"
  shows "fst (deliver_many_loop env tokens title body data image_url s)
           = Inr (map (\<lambda>t. \<lparr>sr_success = False, sr_message_id = None, sr_error = Some (str_exn e)\<rparr>) tokens)
         \<and> st_world (snd (deliver_many_loop env tokens title body data image_url s)) = st_world s"
  using av
proof (induction tokens arbitrary: s)
  case Nil
  then show ?case by simp
next
  case (Cons t ts)
  from Cons.prems have init: "initialize_firebase env s = (Inr (), s)"
    by (simp add: initialize_firebase_settled settled_def)
  let ?s' = "log ERROR (''Failed to send notification to token '' @ t @ '': '' @ str_exn e) s"
  from single_send_cases [OF init, of t title body data image_url] Cons.prems nf
  have one: "send_notification_to_token env t title body data image_url s
               = (Inr \<lparr>sr_success = False, sr_message_id = None, sr_error = Some (str_exn e)\<rparr>, ?s')"
    by simp
  have "fs_app (st_firebase ?s') \<noteq> None" using Cons.prems by simp
  from Cons.IH [OF this] one show ?case
    by (simp add: split_beta split: sum.splits)
qed

lemma loop_when_notification_built:
  assumes av: "fs_app (st_firebase s) \<noteq> None"
    and nb: "messaging_Notification env title body image_url = Inr notif"
  shows "fst (deliver_many_loop env tokens title body data image_url s)
           = Inr (map result_of (fst (fst (send_each env notif (or_empty data) tokens ([], 0, 0) (st_world s)))))
         \<and> st_world (snd (deliver_many_loop env tokens title body data image_url s))
           = snd (send_each env notif (or_empty data) tokens ([], 0, 0) (st_world s))"
  using av
proof (induction tokens arbitrary: s)
  case Nil
  then show ?case by simp
next
  case (Cons t ts)
  from Cons.prems have init: "initialize_firebase env s = (Inr (), s)"
    by (simp add: initialize_firebase_settled settled_def)
  obtain res w1 where ms: "messaging_send env
      \<lparr>m_notification = notif, m_data = or_empty data, m_token = t\<rparr> (st_world s) = (res, w1)"
    by (cases "messaging_send env
      \<lparr>m_notification = notif, m_data = or_empty data, m_token = t\<rparr> (st_world s)")
  obtain rs2 sc2 fc2 w2 where rest:
    "send_each env notif (or_empty data) ts ([], 0, 0) w1 = ((rs2, sc2, fc2), w2)"
    by (cases "send_each env notif (or_empty data) ts ([], 0, 0) w1") auto
  show ?case
  proof (cases res)
    case (Inl e)
    let ?s' = "log ERROR (''Failed to send notification to token '' @ t @ '': '' @ str_exn e)
                 (s\<lparr>st_world := w1\<rparr>)"
    from single_send_cases [OF init, of t title body data image_url] Cons.prems nb ms Inl
    have one: "send_notification_to_token env t title body data image_url s
                 = (Inr \<lparr>sr_success = False, sr_message_id = None, sr_error = Some (str_exn e)\<rparr>, ?s')"
      by simp
    have "fs_app (st_firebase ?s') \<noteq> None" using Cons.prems by simp
    from Cons.IH [OF this] one ms Inl rest show ?thesis
      by (simp add: split_beta result_of_def send_each_acc [of env notif "or_empty data" ts "[x]" for x]
          split: sum.splits)
  next
    case (Inr mid)
    let ?s' = "log INFO (''Successfully sent message: '' @ mid) (s\<lparr>st_world := w1\<rparr>)"
    from single_send_cases [OF init, of t title body data image_url] Cons.prems nb ms Inr
    have one: "send_notification_to_token env t title body data image_url s
                 = (Inr \<lparr>sr_success = True, sr_message_id = Some mid, sr_error = None\<rparr>, ?s')"
      by simp
    have "fs_app (st_firebase ?s') \<noteq> None" using Cons.prems by simp
    from Cons.IH [OF this] one ms Inr rest show ?thesis
      by (simp add: split_beta result_of_def send_each_acc [of env notif "or_empty data" ts "[x]" for x]
          split: sum.splits)
  qed
qed

lemma loop_after_init:
  "initialize_firebase env s = (Inr (), s1) \<Longrightarrow>
     fst (deliver_many_loop env tokens title body data image_url s)
       = fst (deliver_many_loop env tokens title body data image_url s1)
     \<and> st_world (snd (deliver_many_loop env tokens title body data image_url s))
       = st_world (snd (deliver_many_loop env tokens title body data image_url s1))"
proof (cases tokens)
  case Nil
  assume "initialize_firebase env s = (Inr (), s1)"
  from initialize_firebase_after [OF this] Nil show ?thesis by simp
next
  case (Cons t ts)
  assume "initialize_firebase env s = (Inr (), s1)"
  from single_after_init [OF this, of t title body data image_url] Cons show ?thesis by simp
qed

lemma length_filter_result_of:
  "length (filter sr_success (map result_of rs)) = length (filter r_success rs)"
  "length (filter (\<lambda>r. \<not> sr_success r) (map result_of rs)) = length (filter (\<lambda>r. \<not> r_success r) rs)"
  by (induction rs) (simp_all add: result_of_def)

text \<open>
  C5, as the code has it. When the gateway client is available, the bulk form returns what
  the loop over the single-recipient form returns: its responses, without their token key, are
  the single-form results in order, every response carries its token, the two counters are the
  numbers of successes and failures among them, and both leave the gateway in the same state.
\<close>

theorem bulk_form_is_loop_when_available:
  assumes av: "is_firebase_available env s = (Inr True, s1)"
  shows "\<exists>res s' rs s''.
           send_notification_to_multiple_tokens env tokens title body data image_url s = (Inr res, s')
           \<and> deliver_many_loop env tokens title body data image_url s = (Inr rs, s'')
           \<and> map result_of (br_responses res) = rs
           \<and> map r_token (br_responses res) = tokens
           \<and> br_success_count res = int (length (filter sr_success rs))
           \<and> br_failure_count res = int (length (filter (\<lambda>r. \<not> sr_success r) rs))
           \<and> st_world s' = st_world s''"
proof -
  from av have init: "initialize_firebase env s = (Inr (), s1)"
    and app: "fs_app (st_firebase s1) \<noteq> None"
    by (auto simp: is_firebase_available_def split: prod.splits sum.splits)
  from initialize_firebase_again [OF init] have init1: "initialize_firebase env s1 = (Inr (), s1)" .
  let ?bulk = "send_notification_to_multiple_tokens env tokens title body data image_url"
  let ?loop = "deliver_many_loop env tokens title body data image_url"
  have b: "?bulk s = ?bulk s1" by (rule bulk_after_init [OF init])
  from loop_after_init [OF init, of tokens title body data image_url]
  have l: "fst (?loop s) = fst (?loop s1)" "st_world (snd (?loop s)) = st_world (snd (?loop s1))"
    by simp_all
  have core: "\<exists>res s'. ?bulk s1 = (Inr res, s')
                \<and> fst (?loop s1) = Inr (map result_of (br_responses res))
                \<and> map r_token (br_responses res) = tokens
                \<and> br_success_count res = int (length (filter r_success (br_responses res)))
                \<and> br_failure_count res = int (length (filter (\<lambda>r. \<not> r_success r) (br_responses res)))
                \<and> st_world s' = st_world (snd (?loop s1))"
  proof (cases "tokens = []")
    case True
    with init1 show ?thesis by (simp add: send_notification_to_multiple_tokens_def)
  next
    case False
    show ?thesis
    proof (cases "messaging_Notification env title body image_url")
      case (Inl e)
      from loop_when_notification_fails [OF app Inl, of tokens data] init1 False Inl
      show ?thesis
        by (simp add: send_notification_to_multiple_tokens_def comp_def result_of_def)
    next
      case (Inr notif)
      obtain rs sc fc w' where
        se: "send_each env notif (or_empty data) tokens ([], 0, 0) (st_world s1) = ((rs, sc, fc), w')"
        by (cases "send_each env notif (or_empty data) tokens ([], 0, 0) (st_world s1)") auto
      from loop_when_notification_built [OF app Inr, of tokens data] send_each_result [OF se]
        init1 False Inr se
      show ?thesis
        by (simp add: send_notification_to_multiple_tokens_def)
    qed
  qed
  then obtain res s' where
    r1: "?bulk s1 = (Inr res, s')"
    and r2: "fst (?loop s1) = Inr (map result_of (br_responses res))"
    and r3: "map r_token (br_responses res) = tokens"
    and r4: "br_success_count res = int (length (filter r_success (br_responses res)))"
    and r5: "br_failure_count res = int (length (filter (\<lambda>r. \<not> r_success r) (br_responses res)))"
    and r6: "st_world s' = st_world (snd (?loop s1))"
    by blast
  let ?rs = "map result_of (br_responses res)"
  have "?bulk s = (Inr res, s')" using b r1 by simp
  moreover have "?loop s = (Inr ?rs, snd (?loop s))" using l(1) r2 by (simp add: prod_eq_iff)
  moreover have "br_success_count res = int (length (filter sr_success ?rs))"
    using r4 by (simp only: length_filter_result_of)
  moreover have "br_failure_count res = int (length (filter (\<lambda>r. \<not> sr_success r) ?rs))"
    using r5 by (simp only: length_filter_result_of)
  moreover have "st_world s' = st_world (snd (?loop s))" using r6 l(2) by simp
  ultimately show ?thesis using r3 by blast
qed

lemmas firebase_eval =
  send_notification_to_token_def send_notification_to_multiple_tokens_def is_firebase_available_def
  initialize_firebase_def log_def or_empty_def str_opt_def Let_def

text \<open>
  C6 as stated fails: an exception of the initialization step (here a key file that exists
  and is rejected) leaves \<open>send_notification_to_token\<close> as an exception.
\<close>

theorem single_send_propagates_initialization_error:
  "fst (send_notification_to_token env_bad_key ''tok-ios'' ''Hello'' ''World'' None None demo_state)
     = Inl (Exception ''Invalid service account certificate'')"
  by (simp add: firebase_eval env_bad_key_def demo_state_def)

theorem single_send_never_raises_once_initialized_witness:
  "fst (send_notification_to_token env_no_key ''tok-ios'' ''Hello'' ''World'' None None demo_state)
     = Inr \<lparr>sr_success = False, sr_message_id = None, sr_error = Some not_configured\<rparr>
   \<and> st_world (snd (send_notification_to_token env_no_key ''tok-ios'' ''Hello'' ''World'' None None
                     demo_state)) = st_world demo_state
   \<and> fst (send_notification_to_token env_ready ''tok-bad'' ''Hello'' ''World'' None None demo_state)
     = Inr \<lparr>sr_success = False, sr_message_id = None, sr_error = Some ''invalid token''\<rparr>
   \<and> fst (send_notification_to_token
            (env_ready\<lparr>messaging_Notification := \<lambda>t b i. Inl (Exception ''bad image'')\<rparr>)
            ''tok-ios'' ''Hello'' ''World'' None None demo_state)
     = Inr \<lparr>sr_success = False, sr_message_id = None, sr_error = Some ''bad image''\<rparr>
   \<and> st_firebase (snd (send_notification_to_token env_bad_key ''tok-ios'' ''Hello'' ''World'' None None
                        demo_state)) = \<lparr>fs_app = None, fs_initialized = True\<rparr>"
proof -
  let ?env3 = "env_ready\<lparr>messaging_Notification := \<lambda>t b i. Inl (Exception ''bad image'')\<rparr>"
  have i1: "initialize_firebase env_no_key demo_state
              = (Inr (), snd (initialize_firebase env_no_key demo_state))"
    by (simp add: firebase_eval env_no_key_def demo_state_def)
  have a1: "fs_app (st_firebase (snd (initialize_firebase env_no_key demo_state))) = None"
    by (simp add: firebase_eval env_no_key_def demo_state_def)
  have i2: "initialize_firebase env_ready demo_state
              = (Inr (), snd (initialize_firebase env_ready demo_state))"
    by (simp add: firebase_eval env_ready_def demo_state_def)
  have a2: "fs_app (st_firebase (snd (initialize_firebase env_ready demo_state))) \<noteq> None"
    by (simp add: firebase_eval env_ready_def demo_state_def)
  have n2: "messaging_Notification env_ready ''Hello'' ''World'' None
              = Inr \<lparr>n_title = ''Hello'', n_body = ''World'', n_image = None\<rparr>"
    by (simp add: env_ready_def)
  have m2: "fst (messaging_send env_ready
                   \<lparr>m_notification = \<lparr>n_title = ''Hello'', n_body = ''World'', n_image = None\<rparr>,
                    m_data = or_empty None, m_token = ''tok-bad''\<rparr> (st_world demo_state))
              = Inl (Exception ''invalid token'')"
    by (simp add: env_ready_def)
  have i3: "initialize_firebase ?env3 demo_state
              = (Inr (), snd (initialize_firebase ?env3 demo_state))"
    by (simp add: firebase_eval env_ready_def demo_state_def)
  have a3: "fs_app (st_firebase (snd (initialize_firebase ?env3 demo_state))) \<noteq> None"
    by (simp add: firebase_eval env_ready_def demo_state_def)
  have n3: "messaging_Notification ?env3 ''Hello'' ''World'' None = Inl (Exception ''bad image'')"
    by simp
  from single_send_never_raises_once_initialized
         [of env_no_key demo_state "snd (initialize_firebase env_no_key demo_state)"
             "''tok-ios''" "''Hello''" "''World''" None None "Exception ''unused''"] i1 a1
  have p1: "fst (send_notification_to_token env_no_key ''tok-ios'' ''Hello'' ''World'' None None demo_state)
     = Inr \<lparr>sr_success = False, sr_message_id = None, sr_error = Some not_configured\<rparr>
   \<and> st_world (snd (send_notification_to_token env_no_key ''tok-ios'' ''Hello'' ''World'' None None
                     demo_state)) = st_world demo_state"
    by auto
  from single_send_never_raises_once_initialized
         [of env_ready demo_state "snd (initialize_firebase env_ready demo_state)"
             "''tok-bad''" "''Hello''" "''World''" None None "Exception ''unused''"] i2 a2 n2 m2
  have p2: "fst (send_notification_to_token env_ready ''tok-bad'' ''Hello'' ''World'' None None demo_state)
     = Inr \<lparr>sr_success = False, sr_message_id = None, sr_error = Some ''invalid token''\<rparr>"
    by auto
  from single_send_never_raises_once_initialized
         [of ?env3 demo_state "snd (initialize_firebase ?env3 demo_state)"
             "''tok-ios''" "''Hello''" "''World''" None None "Exception ''unused''"] i3 a3 n3
  have p3: "fst (send_notification_to_token ?env3 ''tok-ios'' ''Hello'' ''World'' None None demo_state)
     = Inr \<lparr>sr_success = False, sr_message_id = None, sr_error = Some ''bad image''\<rparr>"
    by auto
  have i4: "initialize_firebase env_bad_key demo_state
              = (Inl (Exception ''Invalid service account certificate''),
                 snd (initialize_firebase env_bad_key demo_state))"
    by (simp add: firebase_eval env_bad_key_def demo_state_def)
  have f4: "st_firebase (snd (initialize_firebase env_bad_key demo_state))
              = \<lparr>fs_app = None, fs_initialized = True\<rparr>"
    by (simp add: firebase_eval env_bad_key_def demo_state_def)
  from single_send_never_raises_once_initialized
         [of env_bad_key demo_state "snd (initialize_firebase env_bad_key demo_state)"
             "''tok-ios''" "''Hello''" "''World''" None None
             "Exception ''Invalid service account certificate''"] i4
  have "send_notification_to_token env_bad_key ''tok-ios'' ''Hello'' ''World'' None None demo_state
          = (Inl (Exception ''Invalid service account certificate''),
             snd (initialize_firebase env_bad_key demo_state))"
    by blast
  with f4 have p4: "st_firebase (snd (send_notification_to_token env_bad_key ''tok-ios'' ''Hello''
                                        ''World'' None None demo_state))
                      = \<lparr>fs_app = None, fs_initialized = True\<rparr>"
    by simp
  from p1 p2 p3 p4 show ?thesis by simp
qed

text \<open>
  C5 as stated fails when the gateway is not configured: the single form answers the fixed
  not-configured message without calling the gateway, the bulk form calls the gateway for
  every token and reports what it raises.
\<close>

theorem bulk_form_differs_when_not_configured:
  "fst (deliver_many_loop env_no_key [''tok-ios''] ''Hello'' ''World'' None None demo_state)
     = Inr [\<lparr>sr_success = False, sr_message_id = None, sr_error = Some not_configured\<rparr>]
   \<and> fst (send_notification_to_multiple_tokens env_no_key [''tok-ios''] ''Hello'' ''World'' None None
            demo_state)
     = Inr \<lparr>br_success_count = 0, br_failure_count = 1,
            br_responses = [\<lparr>r_token = ''tok-ios'', r_success = False, r_message_id = None,
                             r_error = Some ''The default Firebase app does not exist. Make sure to initialize the SDK by calling initialize_app().''\<rparr>]\<rparr>
   \<and> (case fst (send_notification_to_multiple_tokens env_no_key [''tok-ios''] ''Hello'' ''World''
                   None None demo_state) of
         Inl e \<Rightarrow> Inl e
       | Inr res \<Rightarrow> Inr (map result_of (br_responses res)))
     \<noteq> fst (deliver_many_loop env_no_key [''tok-ios''] ''Hello'' ''World'' None None demo_state)"
  by (simp add: firebase_eval env_no_key_def demo_state_def result_of_def not_configured_def)

theorem bulk_form_is_loop_when_available_witness:
  "fst (send_notification_to_multiple_tokens env_ready [''tok-ios'', ''tok-bad''] ''Hello'' ''World''
          None None demo_state)
     = Inr \<lparr>br_success_count = 1, br_failure_count = 1,
            br_responses = [\<lparr>r_token = ''tok-ios'', r_success = True,
                             r_message_id = Some ''msg-tok-ios'', r_error = None\<rparr>,
                            \<lparr>r_token = ''tok-bad'', r_success = False, r_message_id = None,
                             r_error = Some ''invalid token''\<rparr>]\<rparr>
   \<and> fst (deliver_many_loop env_ready [''tok-ios'', ''tok-bad''] ''Hello'' ''World'' None None demo_state)
     = Inr [\<lparr>sr_success = True, sr_message_id = Some ''msg-tok-ios'', sr_error = None\<rparr>,
            \<lparr>sr_success = False, sr_message_id = None, sr_error = Some ''invalid token''\<rparr>]"
proof -
  have av: "is_firebase_available env_ready demo_state
              = (Inr True, snd (is_firebase_available env_ready demo_state))"
    by (simp add: firebase_eval env_ready_def demo_state_def)
  have bulk: "fst (send_notification_to_multiple_tokens env_ready [''tok-ios'', ''tok-bad''] ''Hello''
                ''World'' None None demo_state)
     = Inr \<lparr>br_success_count = 1, br_failure_count = 1,
            br_responses = [\<lparr>r_token = ''tok-ios'', r_success = True,
                             r_message_id = Some ''msg-tok-ios'', r_error = None\<rparr>,
                            \<lparr>r_token = ''tok-bad'', r_success = False, r_message_id = None,
                             r_error = Some ''invalid token''\<rparr>]\<rparr>"
    by (simp add: firebase_eval env_ready_def demo_state_def)
  from bulk_form_is_loop_when_available
         [OF av, of "[''tok-ios'', ''tok-bad'']" "''Hello''" "''World''" None None]
  obtain res s' rs s'' where
    b: "send_notification_to_multiple_tokens env_ready [''tok-ios'', ''tok-bad''] ''Hello'' ''World''
          None None demo_state = (Inr res, s')"
    and l: "deliver_many_loop env_ready [''tok-ios'', ''tok-bad''] ''Hello'' ''World'' None None
              demo_state = (Inr rs, s'')"
    and eq: "map result_of (br_responses res) = rs"
    by blast
  from b bulk have "br_responses res = [\<lparr>r_token = ''tok-ios'', r_success = True,
                             r_message_id = Some ''msg-tok-ios'', r_error = None\<rparr>,
                            \<lparr>r_token = ''tok-bad'', r_success = False, r_message_id = None,
                             r_error = Some ''invalid token''\<rparr>]"
    by auto
  with eq l bulk show ?thesis by (auto simp: result_of_def)
qed

section \<open>Batching and dispatch\<close>

lemma py_range_length:
  "0 < step \<Longrightarrow> length (py_range i stop step) = (stop - i + step - 1) div step"
proof (induction i stop step rule: py_range.induct)
  case (1 i stop step)
  show ?case
  proof (cases "i < stop")
    case True
    with 1 have ih: "length (py_range (i + step) stop step) = (stop - (i + step) + step - 1) div step"
      by simp
    have "(stop - i + step - 1) div step = Suc ((stop - (i + step) + step - 1) div step)"
    proof (cases "stop - i \<le> step")
      case True
      with \<open>i < stop\<close> 1(2) have a: "(stop - i + step - 1) div step = 1"
        by (intro div_nat_eqI) auto
      from True 1(2) have b: "(stop - (i + step) + step - 1) div step = 0" by simp
      from a b show ?thesis by simp
    next
      case False
      then have e: "stop - i + step - 1 = (stop - (i + step) + step - 1) + step" by simp
      have "(stop - (i + step) + step - 1 + step) div step
              = (stop - (i + step) + step - 1) div step + 1"
        using 1(2) by (intro div_add_self2) simp
      then show ?thesis unfolding e Suc_eq_plus1 .
    qed
    with True 1(2) ih show ?thesis by (simp add: py_range.simps [of i stop step])
  next
    case False
    with 1(2) show ?thesis by (simp add: py_range.simps [of i stop step])
  qed
qed

lemma py_range_concat:
  "0 < step \<Longrightarrow> concat (map (\<lambda>j. take step (drop j xs)) (py_range i (length xs) step)) = drop i xs"
proof (induction i "length xs" step rule: py_range.induct)
  case (1 i step)
  show ?case
  proof (cases "i < length xs")
    case True
    with 1 have "concat (map (\<lambda>j. take step (drop j xs)) (py_range (i + step) (length xs) step))
                   = drop (i + step) xs" by simp
    moreover have "take step (drop i xs) @ drop (i + step) xs = drop i xs"
      by (metis add.commute append_take_drop_id drop_drop)
    ultimately show ?thesis using True 1(2) by (simp add: py_range.simps [of i "length xs" step])
  next
    case False
    with 1(2) show ?thesis by (simp add: py_range.simps [of i "length xs" step])
  qed
qed

lemma py_range_bound: "j \<in> set (py_range i stop step) \<Longrightarrow> j < stop"
proof (induction i stop step rule: py_range.induct)
  case (1 i stop step)
  then show ?case
    by (cases "i < stop \<and> 0 < step") (auto simp: py_range.simps [of i stop step])
qed

lemma batches_of_props:
  "length (batches_of xs) = (length xs + 499) div 500"
  "concat (batches_of xs) = xs"
  "\<forall>b \<in> set (batches_of xs). 0 < length b \<and> length b \<le> 500"
proof -
  show "length (batches_of xs) = (length xs + 499) div 500"
    by (simp add: batches_of_def batch_size_def py_range_length)
  show "concat (batches_of xs) = xs"
    using py_range_concat [of batch_size xs 0] by (simp add: batches_of_def batch_size_def)
  show "\<forall>b \<in> set (batches_of xs). 0 < length b \<and> length b \<le> 500"
    by (auto simp: batches_of_def batch_size_def dest: py_range_bound)
qed

lemma batches_of_1200:
  "length xs = 1200 \<Longrightarrow> py_range 0 (length xs) batch_size = [0, 500, 1000]
     \<and> map length (batches_of xs) = [500, 500, 200]"
  by (simp add: batches_of_def batch_size_def py_range.simps [of _ 1200 500])

lemma successes_failures [simp]:
  "successes [] = 0" "failures [] = 0"
  "successes (r # rs) = (if r_success r then 1 else 0) + successes rs"
  "failures (r # rs) = (if r_success r then 0 else 1) + failures rs"
  "successes (rs @ rs') = successes rs + successes rs'"
  "failures (rs @ rs') = failures rs + failures rs'"
  by (simp_all add: successes_def failures_def)

lemma successes_plus_failures: "successes rs + failures rs = int (length rs)"
  by (induction rs) simp_all

lemma successes_nonneg: "0 \<le> successes rs" "0 \<le> failures rs"
  by (simp_all add: successes_def failures_def)

lemma log_responses_ok:
  "idx + length rs \<le> length batch \<Longrightarrow>
     log_responses n batch idx rs (sc, fc) d =
       (Inr (sc + successes rs, fc + failures rs),
        d\<lparr>notification_logs := notification_logs d
              @ map2 (log_of n) (take (length rs) (drop idx batch)) rs\<rparr>)"
proof (induction rs arbitrary: idx sc fc d)
  case Nil
  then show ?case by simp
next
  case (Cons r rs)
  then have lt: "idx < length batch" and le: "Suc idx + length rs \<le> length batch" by simp_all
  from lt have dr: "drop idx batch = batch ! idx # drop (Suc idx) batch"
    by (simp add: Cons_nth_drop_Suc)
  show ?case
    using lt Cons.IH [OF le] by (simp add: dr Let_def)
qed

lemma take_whole: "length rs = length b \<Longrightarrow> take (length rs) (drop 0 b) = b"
  by simp

lemma send_batch_ok:
  assumes init: "fst (initialize_firebase env s) = Inr ()"
  shows "\<exists>rs s'. send_batch env n data tt i (sc, fc) s = (Inr (sc + successes rs, fc + failures rs), s')
           \<and> map r_token rs = map dt_token (take batch_size (drop i tt))
           \<and> st_db s' = (st_db s)\<lparr>notification_logs := notification_logs (st_db s)
                  @ map2 (log_of n) (take batch_size (drop i tt)) rs\<rparr>
           \<and> st_messages s' = st_messages s \<and> settled s'"
proof -
  let ?batch = "take batch_size (drop i tt)"
  from init obtain s1 where i1: "initialize_firebase env s = (Inr (), s1)"
    by (cases "initialize_firebase env s") auto
  from bulk_result [OF i1, of "map dt_token ?batch" "pn_title n" "pn_body n" "Some data" "pn_image_url n"]
  obtain res s' where
    b: "send_notification_to_multiple_tokens env (map dt_token ?batch) (pn_title n) (pn_body n)
          (Some data) (pn_image_url n) s = (Inr res, s')"
    and tok: "map r_token (br_responses res) = map dt_token ?batch"
    and db: "st_db s' = st_db s" and msg: "st_messages s' = st_messages s" and st: "settled s'"
    by blast
  from tok have len: "length (br_responses res) = length ?batch" by (metis length_map)
  then have "0 + length (br_responses res) \<le> length ?batch" by simp
  note lr0 = log_responses_ok [OF this, of n sc fc "st_db s'"]
  have tk: "take (length (br_responses res)) (drop 0 ?batch) = ?batch"
    using len by (rule take_whole)
  have lr: "log_responses n ?batch 0 (br_responses res) (sc, fc) (st_db s') =
              (Inr (sc + successes (br_responses res), fc + failures (br_responses res)),
               (st_db s')\<lparr>notification_logs := notification_logs (st_db s')
                  @ map2 (log_of n) ?batch (br_responses res)\<rparr>)"
    using lr0 unfolding tk .
  have "send_batch env n data tt i (sc, fc) s =
          (Inr (sc + successes (br_responses res), fc + failures (br_responses res)),
           s'\<lparr>st_db := (st_db s')\<lparr>notification_logs := notification_logs (st_db s')
                  @ map2 (log_of n) ?batch (br_responses res)\<rparr>\<rparr>)"
    by (simp add: send_batch_def Let_def b lr)
  with tok db msg st show ?thesis
    by (intro exI [of _ "br_responses res"] exI) (auto simp: settled_def)
qed

lemma settled_init_ok: "settled s \<Longrightarrow> fst (initialize_firebase env s) = Inr ()"
  by (simp add: initialize_firebase_settled)

lemma for_batches_ok:
  assumes init: "fst (initialize_firebase env s) = Inr ()"
  shows "\<exists>rs s'. for_batches env n data tt js (sc, fc) s = (Inr (sc + successes rs, fc + failures rs), s')
           \<and> map r_token rs = map dt_token (concat (map (\<lambda>j. take batch_size (drop j tt)) js))
           \<and> st_db s' = (st_db s)\<lparr>notification_logs := notification_logs (st_db s)
                  @ map2 (log_of n) (concat (map (\<lambda>j. take batch_size (drop j tt)) js)) rs\<rparr>
           \<and> st_messages s' = st_messages s
           \<and> fst (initialize_firebase env s') = Inr ()"
  using init
proof (induction js arbitrary: sc fc s)
  case Nil
  then show ?case by (intro exI [of _ "[]"] exI [of _ s]) simp
next
  case (Cons j js)
  let ?b = "take batch_size (drop j tt)"
  let ?bs = "concat (map (\<lambda>j. take batch_size (drop j tt)) js)"
  from send_batch_ok [OF Cons.prems, of n data tt j sc fc]
  obtain rs1 s1 where
    sb: "send_batch env n data tt j (sc, fc) s = (Inr (sc + successes rs1, fc + failures rs1), s1)"
    and t1: "map r_token rs1 = map dt_token ?b"
    and d1: "st_db s1 = (st_db s)\<lparr>notification_logs := notification_logs (st_db s)
                  @ map2 (log_of n) ?b rs1\<rparr>"
    and m1: "st_messages s1 = st_messages s" and st1: "settled s1"
    by blast
  from Cons.IH [OF settled_init_ok [OF st1], of "sc + successes rs1" "fc + failures rs1"]
  obtain rs2 s2 where
    fb: "for_batches env n data tt js (sc + successes rs1, fc + failures rs1) s1
           = (Inr (sc + successes rs1 + successes rs2, fc + failures rs1 + failures rs2), s2)"
    and t2: "map r_token rs2 = map dt_token ?bs"
    and d2: "st_db s2 = (st_db s1)\<lparr>notification_logs := notification_logs (st_db s1)
                  @ map2 (log_of n) ?bs rs2\<rparr>"
    and m2: "st_messages s2 = st_messages s1"
    and i2: "fst (initialize_firebase env s2) = Inr ()"
    by blast
  from t1 have len: "length ?b = length rs1" by (metis length_map)
  have run: "for_batches env n data tt (j # js) (sc, fc) s
               = (Inr (sc + successes (rs1 @ rs2), fc + failures (rs1 @ rs2)), s2)"
    using sb fb by (simp add: add.assoc)
  have tok: "map r_token (rs1 @ rs2) = map dt_token (concat (map (\<lambda>j. take batch_size (drop j tt)) (j # js)))"
    using t1 t2 by simp
  have db: "st_db s2 = (st_db s)\<lparr>notification_logs := notification_logs (st_db s)
              @ map2 (log_of n) (concat (map (\<lambda>j. take batch_size (drop j tt)) (j # js))) (rs1 @ rs2)\<rparr>"
    using d1 d2 len by simp
  from run tok db m1 m2 i2 show ?case by (intro exI [of _ "rs1 @ rs2"] exI [of _ s2]) simp
qed

lemma log_of_id: "pn_id n' = pn_id n \<Longrightarrow> log_of n' = log_of n"
  by (simp add: log_of_def fun_eq_iff)

lemma initialize_firebase_same:
  "st_firebase s' = st_firebase s \<Longrightarrow> fst (initialize_firebase env s') = fst (initialize_firebase env s)"
  by (simp add: initialize_firebase_def Let_def split: sum.splits option.splits)

lemma save_notification_fields [simp]:
  "st_firebase (save_notification n s) = st_firebase s"
  "st_world (save_notification n s) = st_world s"
  "st_messages (save_notification n s) = st_messages s"
  "st_logger (save_notification n s) = st_logger s"
  "notifications (st_db (save_notification n s)) = (notifications (st_db s))(pn_id n \<mapsto> n)"
  "notification_logs (st_db (save_notification n s)) = notification_logs (st_db s)"
  "device_tokens (st_db (save_notification n s)) = device_tokens (st_db s)"
  "auth_user (st_db (save_notification n s)) = auth_user (st_db s)"
  "device_token_seq (st_db (save_notification n s)) = device_token_seq (st_db s)"
  "notification_saves (st_db (save_notification n s)) = notification_saves (st_db s) @ [n]"
  by (simp_all add: save_notification_def)

lemma get_target_tokens_cong:
  "device_tokens d' = device_tokens d \<Longrightarrow>
   pn_target_device_types n' = pn_target_device_types n \<Longrightarrow>
   pn_send_to_all n' = pn_send_to_all n \<Longrightarrow> pn_target_users n' = pn_target_users n \<Longrightarrow>
     get_target_tokens d' n' = get_target_tokens d n"
  by (simp add: get_target_tokens_filter)

lemma send_to_targets_ok:
  assumes init: "fst (initialize_firebase env s) = Inr ()"
  shows "\<exists>rs t s'. send_to_targets env n tt s = (Inr (successes rs, failures rs), s')
           \<and> map r_token rs = map dt_token tt
           \<and> notifications (st_db s') = (notifications (st_db s))(pn_id n \<mapsto>
                n\<lparr>pn_total_recipients := int (length tt),
                  pn_successful_sends := successes rs,
                  pn_failed_sends := failures rs,
                  pn_sent_at := Some t,
                  pn_status := (if successes rs > 0 then Sent else Failed)\<rparr>)
           \<and> notification_logs (st_db s') = notification_logs (st_db s) @ map2 (log_of n) tt rs
           \<and> device_tokens (st_db s') = device_tokens (st_db s)
           \<and> st_messages s' = st_messages s"
proof -
  let ?n1 = "n\<lparr>pn_total_recipients := int (length tt)\<rparr>"
  let ?s1 = "save_notification ?n1 s"
  let ?data = "if pn_data ?n1 \<noteq> [] then pn_data ?n1 else []"
  have "fst (initialize_firebase env ?s1) = Inr ()"
    using init initialize_firebase_same [of ?s1 s env] by simp
  from for_batches_ok [OF this, of ?n1 ?data tt "py_range 0 (length tt) batch_size" 0 0]
  obtain rs s2 where
    fb: "for_batches env ?n1 ?data tt (py_range 0 (length tt) batch_size) (0, 0) ?s1
           = (Inr (0 + successes rs, 0 + failures rs), s2)"
    and tok: "map r_token rs = map dt_token
                (concat (map (\<lambda>j. take batch_size (drop j tt)) (py_range 0 (length tt) batch_size)))"
    and db: "st_db s2 = (st_db ?s1)\<lparr>notification_logs := notification_logs (st_db ?s1)
               @ map2 (log_of ?n1)
                   (concat (map (\<lambda>j. take batch_size (drop j tt)) (py_range 0 (length tt) batch_size)))
                   rs\<rparr>"
    and msg: "st_messages s2 = st_messages ?s1"
    by blast
  have cc: "concat (map (\<lambda>j. take batch_size (drop j tt)) (py_range 0 (length tt) batch_size)) = tt"
    using py_range_concat [of batch_size tt 0] by (simp add: batch_size_def)
  have lo: "log_of ?n1 = log_of n" by (rule log_of_id) simp
  let ?n2 = "?n1\<lparr>pn_successful_sends := successes rs, pn_failed_sends := failures rs,
                  pn_sent_at := Some (timezone_now env (st_world s2)),
                  pn_status := (if successes rs > 0 then Sent else Failed)\<rparr>"
  have run: "send_to_targets env n tt s = (Inr (successes rs, failures rs), save_notification ?n2 s2)"
    using fb by (simp add: send_to_targets_def Let_def)
  have a: "notifications (st_db (save_notification ?n2 s2)) = (notifications (st_db s))(pn_id n \<mapsto>
                n\<lparr>pn_total_recipients := int (length tt),
                  pn_successful_sends := successes rs,
                  pn_failed_sends := failures rs,
                  pn_sent_at := Some (timezone_now env (st_world s2)),
                  pn_status := (if successes rs > 0 then Sent else Failed)\<rparr>)"
    by (simp add: db)
  have b: "notification_logs (st_db (save_notification ?n2 s2))
             = notification_logs (st_db s) @ map2 (log_of n) tt rs"
    by (simp add: db cc lo)
  have c: "device_tokens (st_db (save_notification ?n2 s2)) = device_tokens (st_db s)"
    by (simp add: db)
  have d: "st_messages (save_notification ?n2 s2) = st_messages s" by (simp add: msg)
  from tok cc have tok': "map r_token rs = map dt_token tt" by simp
  from run tok' a b c d show ?thesis by blast
qed

lemma dispatch_async_ok:
  assumes row: "notifications (st_db s) i = Some n0" and pk: "pn_id n0 = i"
    and ne: "get_target_tokens (st_db s) n0 \<noteq> []"
    and init: "fst (initialize_firebase env s) = Inr ()"
  shows "\<exists>rs t s'. send_notification_async env i s = (Inr (), s')
           \<and> map r_token rs = map dt_token (get_target_tokens (st_db s) n0)
           \<and> notifications (st_db s') = (notifications (st_db s))(i \<mapsto>
                n0\<lparr>pn_total_recipients := int (length (get_target_tokens (st_db s) n0)),
                   pn_successful_sends := successes rs,
                   pn_failed_sends := failures rs,
                   pn_sent_at := Some t,
                   pn_status := (if successes rs > 0 then Sent else Failed)\<rparr>)
           \<and> notification_logs (st_db s') = notification_logs (st_db s)
                @ map2 (log_of n0) (get_target_tokens (st_db s) n0) rs
           \<and> device_tokens (st_db s') = device_tokens (st_db s)"
proof -
  let ?n1 = "n0\<lparr>pn_status := Sending\<rparr>"
  let ?s1 = "save_notification ?n1 s"
  let ?tt = "get_target_tokens (st_db s) n0"
  have tt: "get_target_tokens (st_db ?s1) ?n1 = ?tt"
    by (rule get_target_tokens_cong) simp_all
  have "fst (initialize_firebase env ?s1) = Inr ()"
    using init initialize_firebase_same [of ?s1 s env] by simp
  from send_to_targets_ok [OF this, of ?n1 ?tt]
  obtain rs t s2 where
    run: "send_to_targets env ?n1 ?tt ?s1 = (Inr (successes rs, failures rs), s2)"
    and tok: "map r_token rs = map dt_token ?tt"
    and nt: "notifications (st_db s2) = (notifications (st_db ?s1))(pn_id ?n1 \<mapsto>
                ?n1\<lparr>pn_total_recipients := int (length ?tt),
                  pn_successful_sends := successes rs,
                  pn_failed_sends := failures rs,
                  pn_sent_at := Some t,
                  pn_status := (if successes rs > 0 then Sent else Failed)\<rparr>)"
    and lg: "notification_logs (st_db s2) = notification_logs (st_db ?s1) @ map2 (log_of ?n1) ?tt rs"
    and dt: "device_tokens (st_db s2) = device_tokens (st_db ?s1)"
    by blast
  let ?s3 = "log INFO (''Notification '' @ quoted (pn_title ?n1) @ '' sent automatically! Success: ''
                @ str_int (successes rs) @ '', Failed: '' @ str_int (failures rs)) s2"
  have tr: "send_notification_async_try env i s = (Inr (), ?s3)"
    using row ne run by (simp add: send_notification_async_try_def Let_def tt)
  then have a: "send_notification_async env i s = (Inr (), ?s3)"
    by (simp add: send_notification_async_def)
  have lo: "log_of ?n1 = log_of n0" by (rule log_of_id) simp
  have b: "notifications (st_db ?s3) = (notifications (st_db s))(i \<mapsto>
                n0\<lparr>pn_total_recipients := int (length ?tt),
                   pn_successful_sends := successes rs,
                   pn_failed_sends := failures rs,
                   pn_sent_at := Some t,
                   pn_status := (if successes rs > 0 then Sent else Failed)\<rparr>)"
    using nt pk by simp
  have c: "notification_logs (st_db ?s3) = notification_logs (st_db s) @ map2 (log_of n0) ?tt rs"
    using lg lo by simp
  have d: "device_tokens (st_db ?s3) = device_tokens (st_db s)" using dt by simp
  from a tok b c d show ?thesis by blast
qed

lemma dispatch_single_ok:
  assumes ne: "admin_get_target_tokens (st_db s) n0 \<noteq> []"
    and init: "fst (initialize_firebase env s) = Inr ()"
  shows "\<exists>rs t s'. send_single_notification env n0 s = (Inr (), s')
           \<and> map r_token rs = map dt_token (admin_get_target_tokens (st_db s) n0)
           \<and> notifications (st_db s') = (notifications (st_db s))(pn_id n0 \<mapsto>
                n0\<lparr>pn_total_recipients := int (length (admin_get_target_tokens (st_db s) n0)),
                   pn_successful_sends := successes rs,
                   pn_failed_sends := failures rs,
                   pn_sent_at := Some t,
                   pn_status := (if successes rs > 0 then Sent else Failed)\<rparr>)
           \<and> notification_logs (st_db s') = notification_logs (st_db s)
                @ map2 (log_of n0) (admin_get_target_tokens (st_db s) n0) rs
           \<and> device_tokens (st_db s') = device_tokens (st_db s)"
proof -
  let ?n1 = "n0\<lparr>pn_status := Sending\<rparr>"
  let ?s1 = "save_notification ?n1 s"
  let ?tt = "admin_get_target_tokens (st_db s) n0"
  have tt: "admin_get_target_tokens (st_db ?s1) ?n1 = ?tt"
    unfolding admin_get_target_tokens_eq by (rule get_target_tokens_cong) simp_all
  have "fst (initialize_firebase env ?s1) = Inr ()"
    using init initialize_firebase_same [of ?s1 s env] by simp
  from send_to_targets_ok [OF this, of ?n1 ?tt]
  obtain rs t s2 where
    run: "send_to_targets env ?n1 ?tt ?s1 = (Inr (successes rs, failures rs), s2)"
    and tok: "map r_token rs = map dt_token ?tt"
    and nt: "notifications (st_db s2) = (notifications (st_db ?s1))(pn_id ?n1 \<mapsto>
                ?n1\<lparr>pn_total_recipients := int (length ?tt),
                  pn_successful_sends := successes rs,
                  pn_failed_sends := failures rs,
                  pn_sent_at := Some t,
                  pn_status := (if successes rs > 0 then Sent else Failed)\<rparr>)"
    and lg: "notification_logs (st_db s2) = notification_logs (st_db ?s1) @ map2 (log_of ?n1) ?tt rs"
    and dt: "device_tokens (st_db s2) = device_tokens (st_db ?s1)"
    by blast
  let ?s3 = "s2\<lparr>st_messages := st_messages s2 @
               [(SUCCESS, ''Notification '' @ quoted (pn_title ?n1) @ '' sent successfully! Success: ''
                          @ str_int (successes rs) @ '', Failed: '' @ str_int (failures rs))]\<rparr>"
  have a: "send_single_notification env n0 s = (Inr (), ?s3)"
    using ne run by (simp add: send_single_notification_def Let_def tt)
  have lo: "log_of ?n1 = log_of n0" by (rule log_of_id) simp
  have b: "notifications (st_db ?s3) = (notifications (st_db s))(pn_id n0 \<mapsto>
                n0\<lparr>pn_total_recipients := int (length ?tt),
                   pn_successful_sends := successes rs,
                   pn_failed_sends := failures rs,
                   pn_sent_at := Some t,
                   pn_status := (if successes rs > 0 then Sent else Failed)\<rparr>)"
    using nt by simp
  have c: "notification_logs (st_db ?s3) = notification_logs (st_db s) @ map2 (log_of n0) ?tt rs"
    using lg lo by simp
  have d: "device_tokens (st_db ?s3) = device_tokens (st_db s)" using dt by simp
  from a tok b c d show ?thesis by blast
qed

lemma dispatch_async_empty:
  assumes row: "notifications (st_db s) i = Some n0"
    and em: "get_target_tokens (st_db s) n0 = []"
  shows "send_notification_async env i s =
           (Inr (),
            log ERROR (''No valid device tokens found for notification '' @ str_nat (pn_id n0))
              (s\<lparr>st_db := (st_db s)\<lparr>notifications :=
                    (notifications (st_db s))(pn_id n0 \<mapsto> n0\<lparr>pn_status := Failed\<rparr>),
                  notification_saves := notification_saves (st_db s)
                    @ [n0\<lparr>pn_status := Sending\<rparr>, n0\<lparr>pn_status := Failed\<rparr>]\<rparr>\<rparr>))"
proof -
  let ?n1 = "n0\<lparr>pn_status := Sending\<rparr>"
  have tt: "get_target_tokens (st_db (save_notification ?n1 s)) ?n1 = []"
    unfolding em [symmetric] by (rule get_target_tokens_cong) simp_all
  show ?thesis
    using row tt
    by (simp add: send_notification_async_def send_notification_async_try_def Let_def
        save_notification_def)
qed

lemma dispatch_single_empty:
  assumes em: "admin_get_target_tokens (st_db s) n0 = []"
  shows "send_single_notification env n0 s =
           (Inl (Exception ''No valid device tokens found for targeting criteria''),
            s\<lparr>st_db := (st_db s)\<lparr>notifications :=
                  (notifications (st_db s))(pn_id n0 \<mapsto> n0\<lparr>pn_status := Failed\<rparr>),
                notification_saves := notification_saves (st_db s)
                  @ [n0\<lparr>pn_status := Sending\<rparr>, n0\<lparr>pn_status := Failed\<rparr>]\<rparr>\<rparr>)"
proof -
  let ?n1 = "n0\<lparr>pn_status := Sending\<rparr>"
  have tt: "admin_get_target_tokens (st_db (save_notification ?n1 s)) ?n1 = []"
    unfolding em [symmetric] admin_get_target_tokens_eq by (rule get_target_tokens_cong) simp_all
  show ?thesis
    using tt
    by (simp add: send_single_notification_def Let_def save_notification_def)
qed

section \<open>The dispatch loop, batch by batch\<close>

lemma gateway_sends_append:
  "gateway_sends env n d (xs @ ys) w =
     (case gateway_sends env n d xs w of
        (rs1, w1) \<Rightarrow> (case gateway_sends env n d ys w1 of (rs2, w2) \<Rightarrow> (rs1 @ rs2, w2)))"
  by (induction xs arbitrary: w) (simp_all add: split_beta)

lemma gateway_run_append:
  "gateway_run env title body image_url d (xs @ ys) w =
     (case gateway_run env title body image_url d xs w of
        (rs1, w1) \<Rightarrow>
          (case gateway_run env title body image_url d ys w1 of (rs2, w2) \<Rightarrow> (rs1 @ rs2, w2)))"
  by (simp add: gateway_run_def gateway_sends_append split: sum.splits)

lemma gateway_run_Nil [simp]: "gateway_run env title body image_url d [] w = ([], w)"
  by (simp add: gateway_run_def split: sum.splits)

lemma send_each_sends:
  "send_each env n d ts ([], 0, 0) w =
     (case gateway_sends env n d ts w of (rs, w') \<Rightarrow> ((rs, successes rs, failures rs), w'))"
proof (induction ts arbitrary: w)
  case Nil
  then show ?case by simp
next
  case (Cons t ts)
  obtain res w1 where ms: "messaging_send env \<lparr>m_notification = n, m_data = d, m_token = t\<rparr> w = (res, w1)"
    by (cases "messaging_send env \<lparr>m_notification = n, m_data = d, m_token = t\<rparr> w")
  show ?case
    using ms Cons.IH [of w1]
    by (cases res)
       (simp_all add: send_each_acc [of env n d ts "[x]" for x] response_of_def split_beta)
qed

text \<open>What a bulk call returns, exactly, once initialization has returned.\<close>

lemma bulk_outcome:
  assumes init: "initialize_firebase env s = (Inr (), s1)"
  shows "\<exists>s'. send_notification_to_multiple_tokens env tokens title body (Some d) image_url s
                 = (Inr \<lparr>br_success_count = successes (fst (gateway_run env title body image_url d tokens (st_world s))),
                         br_failure_count = failures (fst (gateway_run env title body image_url d tokens (st_world s))),
                         br_responses = fst (gateway_run env title body image_url d tokens (st_world s))\<rparr>, s')
           \<and> st_world s' = snd (gateway_run env title body image_url d tokens (st_world s))
           \<and> st_db s' = st_db s \<and> st_messages s' = st_messages s \<and> settled s'"
proof -
  from initialize_firebase_after [OF init]
  have s1: "settled s1" "st_db s1 = st_db s" "st_messages s1 = st_messages s" "st_world s1 = st_world s"
    by simp_all
  show ?thesis
  proof (cases "tokens = []")
    case True
    with init s1 show ?thesis by (simp add: send_notification_to_multiple_tokens_def)
  next
    case False
    show ?thesis
    proof (cases "messaging_Notification env title body image_url")
      case (Inl e)
      have "failures (map (\<lambda>token. response_of token (Inl e)) tokens) = int (length tokens)"
        "successes (map (\<lambda>token. response_of token (Inl e)) tokens) = 0"
        by (induction tokens) (simp_all add: response_of_def)
      with init s1 False Inl show ?thesis
        by (simp add: send_notification_to_multiple_tokens_def gateway_run_def settled_def
            response_of_def)
    next
      case (Inr notif)
      with init s1 False show ?thesis
        by (simp add: send_notification_to_multiple_tokens_def gateway_run_def settled_def
            or_empty_def send_each_sends split_beta)
    qed
  qed
qed

lemma gateway_run_tokens:
  "map r_token (fst (gateway_run env title body image_url d tokens w)) = tokens"
proof (cases "messaging_Notification env title body image_url")
  case (Inl e)
  then show ?thesis by (simp add: gateway_run_def response_of_def comp_def)
next
  case (Inr notif)
  have "map r_token (fst (gateway_sends env notif d tokens w)) = tokens"
    by (induction tokens arbitrary: w) (simp_all add: split_beta response_of_def split: sum.splits)
  with Inr show ?thesis by (simp add: gateway_run_def)
qed


lemma bulk_returned:
  assumes "send_notification_to_multiple_tokens env tokens title body data image_url s = (Inr res, s')"
  shows "fst (initialize_firebase env s) = Inr ()"
  using assms
  by (cases "initialize_firebase env s")
     (auto simp: send_notification_to_multiple_tokens_def split: sum.splits)

text \<open>One round of the loop, with the log rows written out.\<close>

lemma send_batch_round:
  "send_batch env n data tt i (sc, fc) s =
     (case send_notification_to_multiple_tokens env (map dt_token (take batch_size (drop i tt)))
             (pn_title n) (pn_body n) (Some data) (pn_image_url n) s of
        (Inl e, s') \<Rightarrow> (Inl e, s')
      | (Inr resp, s') \<Rightarrow>
          (Inr (sc + successes (br_responses resp), fc + failures (br_responses resp)),
           s'\<lparr>st_db := (st_db s')\<lparr>notification_logs := notification_logs (st_db s')
                  @ map2 (log_of n) (take batch_size (drop i tt)) (br_responses resp)\<rparr>\<rparr>))"
proof -
  let ?batch = "take batch_size (drop i tt)"
  let ?bulk = "send_notification_to_multiple_tokens env (map dt_token ?batch)
                 (pn_title n) (pn_body n) (Some data) (pn_image_url n) s"
  obtain r s' where b: "?bulk = (r, s')" by (cases ?bulk)
  show ?thesis
  proof (cases r)
    case (Inl e)
    with b show ?thesis by (simp add: send_batch_def Let_def)
  next
    case (Inr resp)
    with b have ret: "?bulk = (Inr resp, s')" by simp
    from bulk_returned [OF ret] obtain s1 where i1: "initialize_firebase env s = (Inr (), s1)"
      by (cases "initialize_firebase env s") auto
    from bulk_result [OF i1, of "map dt_token ?batch" "pn_title n" "pn_body n" "Some data" "pn_image_url n"]
      ret
    have tok: "map r_token (br_responses resp) = map dt_token ?batch" by auto
    then have len: "length (br_responses resp) = length ?batch" by (metis length_map)
    then have "0 + length (br_responses resp) \<le> length ?batch" by simp
    note lr0 = log_responses_ok [OF this, of n sc fc "st_db s'"]
    have tk: "take (length (br_responses resp)) (drop 0 ?batch) = ?batch"
      using len by (rule take_whole)
    have lr: "log_responses n ?batch 0 (br_responses resp) (sc, fc) (st_db s') =
                (Inr (sc + successes (br_responses resp), fc + failures (br_responses resp)),
                 (st_db s')\<lparr>notification_logs := notification_logs (st_db s')
                    @ map2 (log_of n) ?batch (br_responses resp)\<rparr>)"
      using lr0 unfolding tk .
    show ?thesis by (simp add: send_batch_def Let_def ret lr)
  qed
qed

lemma for_batches_refines:
  "for_batches env n data tt js cnt s
     = fst (dispatch_batches env n data (map (\<lambda>j. take batch_size (drop j tt)) js) cnt s)"
proof (induction js arbitrary: cnt s)
  case Nil
  then show ?case by simp
next
  case (Cons j js)
  obtain sc fc where cnt: "cnt = (sc, fc)" by (cases cnt)
  show ?case
    unfolding cnt
    by (simp add: send_batch_round Cons.IH split_beta split: prod.splits sum.splits)
qed

lemma settled_db [simp]: "settled (s\<lparr>st_db := d\<rparr>) = settled s"
  by (simp add: settled_def)

lemma dispatch_batches_run:
  assumes init: "fst (initialize_firebase env s) = Inr ()"
  shows "\<exists>s'. dispatch_batches env n data bs (sc, fc) s
                 = ((Inr (sc + successes (fst (gateway_run env (pn_title n) (pn_body n) (pn_image_url n)
                                               data (map dt_token (concat bs)) (st_world s))),
                          fc + failures (fst (gateway_run env (pn_title n) (pn_body n) (pn_image_url n)
                                               data (map dt_token (concat bs)) (st_world s)))), s'),
                    map (map dt_token) bs)
           \<and> st_db s' = (st_db s)\<lparr>notification_logs := notification_logs (st_db s)
                  @ map2 (log_of n) (concat bs)
                      (fst (gateway_run env (pn_title n) (pn_body n) (pn_image_url n)
                              data (map dt_token (concat bs)) (st_world s)))\<rparr>
           \<and> st_world s' = snd (gateway_run env (pn_title n) (pn_body n) (pn_image_url n)
                              data (map dt_token (concat bs)) (st_world s))
           \<and> st_messages s' = st_messages s
           \<and> fst (initialize_firebase env s') = Inr ()"
  using init
proof (induction bs arbitrary: sc fc s)
  case Nil
  then show ?case by (intro exI [of _ s]) simp
next
  case (Cons b bs)
  let ?G = "gateway_run env (pn_title n) (pn_body n) (pn_image_url n) data"
  let ?tb = "map dt_token b" and ?tbs = "map dt_token (concat bs)"
  let ?R1 = "fst (?G ?tb (st_world s))" and ?w1 = "snd (?G ?tb (st_world s))"
  let ?R2 = "fst (?G ?tbs ?w1)" and ?w2 = "snd (?G ?tbs ?w1)"
  from Cons.prems obtain s1 where i1: "initialize_firebase env s = (Inr (), s1)"
    by (cases "initialize_firebase env s") auto
  from bulk_outcome [OF i1, of ?tb "pn_title n" "pn_body n" data "pn_image_url n"]
  obtain s' where
    bulk: "send_notification_to_multiple_tokens env ?tb (pn_title n) (pn_body n) (Some data)
             (pn_image_url n) s
           = (Inr \<lparr>br_success_count = successes ?R1, br_failure_count = failures ?R1,
                   br_responses = ?R1\<rparr>, s')"
    and w': "st_world s' = ?w1" and d': "st_db s' = st_db s"
    and m': "st_messages s' = st_messages s" and st': "settled s'"
    by blast
  let ?s2 = "s'\<lparr>st_db := (st_db s')\<lparr>notification_logs := notification_logs (st_db s')
               @ map2 (log_of n) b ?R1\<rparr>\<rparr>"
  have "fst (initialize_firebase env ?s2) = Inr ()"
    by (rule settled_init_ok) (simp add: st')
  from Cons.IH [OF this, of "sc + successes ?R1" "fc + failures ?R1"] w'
  obtain s3 where
    rest: "dispatch_batches env n data bs (sc + successes ?R1, fc + failures ?R1) ?s2
             = ((Inr (sc + successes ?R1 + successes ?R2, fc + failures ?R1 + failures ?R2), s3),
                map (map dt_token) bs)"
    and d3: "st_db s3 = (st_db ?s2)\<lparr>notification_logs := notification_logs (st_db ?s2)
                  @ map2 (log_of n) (concat bs) ?R2\<rparr>"
    and w3: "st_world s3 = ?w2" and m3: "st_messages s3 = st_messages ?s2"
    and i3: "fst (initialize_firebase env s3) = Inr ()"
    by auto
  have app: "?G (map dt_token (concat (b # bs))) (st_world s) = (?R1 @ ?R2, ?w2)"
    by (simp add: gateway_run_append split_beta)
  have len: "length b = length ?R1"
    using gateway_run_tokens [of env "pn_title n" "pn_body n" "pn_image_url n" data ?tb "st_world s"]
    by (metis length_map)
  have run: "dispatch_batches env n data (b # bs) (sc, fc) s
               = ((Inr (sc + successes (?R1 @ ?R2), fc + failures (?R1 @ ?R2)), s3),
                  map (map dt_token) (b # bs))"
    using bulk rest by (simp add: add.assoc)
  have db: "st_db s3 = (st_db s)\<lparr>notification_logs := notification_logs (st_db s)
              @ map2 (log_of n) (concat (b # bs)) (?R1 @ ?R2)\<rparr>"
    using d3 d' len by simp
  show ?case
    unfolding app fst_conv snd_conv
    using run db w3 m3 m' i3 by (intro exI [of _ s3]) simp
qed

lemma dispatch_batches_aborted:
  assumes init: "initialize_firebase env s = (Inl e, s1)"
  shows "dispatch_batches env n data (b # bs) cnt s = ((Inl e, s1), [map dt_token b])"
proof -
  obtain sc fc where cnt: "cnt = (sc, fc)" by (cases cnt)
  show ?thesis
    unfolding cnt using init by (simp add: send_notification_to_multiple_tokens_def)
qed

lemma send_to_targets_refines:
  "send_to_targets env n tt s = fst (dispatch_pass env n tt s)"
proof -
  let ?n1 = "n\<lparr>pn_total_recipients := int (length tt)\<rparr>"
  have data: "(if pn_data ?n1 \<noteq> [] then pn_data ?n1 else []) = pn_data n" by simp
  have fb: "for_batches env ?n1 (pn_data n) tt (py_range 0 (length tt) batch_size) (0, 0)
              (save_notification ?n1 s)
            = fst (dispatch_batches env ?n1 (pn_data n) (batches_of tt) (0, 0) (save_notification ?n1 s))"
    by (simp add: for_batches_refines batches_of_def)
  show ?thesis
    unfolding send_to_targets_def dispatch_pass_def Let_def data fb
    by (simp split: prod.splits sum.splits)
qed

lemma send_single_notification_refines:
  assumes ne: "admin_get_target_tokens (st_db s) m0 \<noteq> []"
  shows "send_single_notification env m0 s =
           (case fst (dispatch_pass env (m0\<lparr>pn_status := Sending\<rparr>)
                        (admin_get_target_tokens (st_db s) m0)
                        (save_notification (m0\<lparr>pn_status := Sending\<rparr>) s)) of
              (Inl e, s') \<Rightarrow> (Inl e, s')
            | (Inr (sc, fc), s') \<Rightarrow>
                (Inr (),
                 s'\<lparr>st_messages := st_messages s' @
                      [(SUCCESS, ''Notification '' @ quoted (pn_title m0) @ '' sent successfully! Success: ''
                                 @ str_int sc @ '', Failed: '' @ str_int fc)]\<rparr>))"
proof -
  let ?n1 = "m0\<lparr>pn_status := Sending\<rparr>"
  have tt: "admin_get_target_tokens (st_db (save_notification ?n1 s)) ?n1
              = admin_get_target_tokens (st_db s) m0"
    unfolding admin_get_target_tokens_eq by (rule get_target_tokens_cong) simp_all
  show ?thesis
    using ne by (simp add: send_single_notification_def Let_def tt send_to_targets_refines
                 split: prod.splits sum.splits)
qed

lemma send_notification_async_try_refines:
  assumes row: "notifications (st_db s) i = Some n0"
    and ne: "get_target_tokens (st_db s) n0 \<noteq> []"
  shows "send_notification_async_try env i s =
           (case fst (dispatch_pass env (n0\<lparr>pn_status := Sending\<rparr>)
                        (get_target_tokens (st_db s) n0)
                        (save_notification (n0\<lparr>pn_status := Sending\<rparr>) s)) of
              (Inl e, s') \<Rightarrow> (Inl e, s')
            | (Inr (sc, fc), s') \<Rightarrow>
                (Inr (),
                 log INFO (''Notification '' @ quoted (pn_title n0) @ '' sent automatically! Success: ''
                           @ str_int sc @ '', Failed: '' @ str_int fc) s'))"
proof -
  let ?n1 = "n0\<lparr>pn_status := Sending\<rparr>"
  have tt: "get_target_tokens (st_db (save_notification ?n1 s)) ?n1 = get_target_tokens (st_db s) n0"
    by (rule get_target_tokens_cong) simp_all
  show ?thesis
    using row ne by (simp add: send_notification_async_try_def Let_def tt send_to_targets_refines
                     split: prod.splits sum.splits)
qed

lemma dispatch_pass_run:
  assumes init: "fst (initialize_firebase env s) = Inr ()"
  shows "\<exists>s'. dispatch_pass env n tt s
                 = ((Inr (successes (fst (gateway_run env (pn_title n) (pn_body n) (pn_image_url n)
                                            (pn_data n) (map dt_token tt) (st_world s))),
                          failures (fst (gateway_run env (pn_title n) (pn_body n) (pn_image_url n)
                                            (pn_data n) (map dt_token tt) (st_world s)))), s'),
                    map (map dt_token) (batches_of tt))
           \<and> notification_logs (st_db s') = notification_logs (st_db s)
                @ map2 (log_of n) tt (fst (gateway_run env (pn_title n) (pn_body n) (pn_image_url n)
                                             (pn_data n) (map dt_token tt) (st_world s)))
           \<and> st_messages s' = st_messages s"
proof -
  let ?n1 = "n\<lparr>pn_total_recipients := int (length tt)\<rparr>"
  let ?s1 = "save_notification ?n1 s"
  let ?R = "fst (gateway_run env (pn_title n) (pn_body n) (pn_image_url n)
                   (pn_data n) (map dt_token tt) (st_world s))"
  have "fst (initialize_firebase env ?s1) = Inr ()"
    using init initialize_firebase_same [of ?s1 s env] by simp
  from dispatch_batches_run [OF this, of ?n1 "pn_data n" "batches_of tt" 0 0]
  obtain s2 where
    run: "dispatch_batches env ?n1 (pn_data n) (batches_of tt) (0, 0) ?s1
            = ((Inr (successes ?R, failures ?R), s2), map (map dt_token) (batches_of tt))"
    and db: "st_db s2 = (st_db ?s1)\<lparr>notification_logs := notification_logs (st_db ?s1)
               @ map2 (log_of ?n1) tt ?R\<rparr>"
    and msg: "st_messages s2 = st_messages ?s1"
    by (auto simp: batches_of_props)
  have lo: "log_of ?n1 = log_of n" by (rule log_of_id) simp
  let ?n2 = "?n1\<lparr>pn_successful_sends := successes ?R, pn_failed_sends := failures ?R,
                  pn_sent_at := Some (timezone_now env (st_world s2)),
                  pn_status := (if successes ?R > 0 then Sent else Failed)\<rparr>"
  have "dispatch_pass env n tt s
          = ((Inr (successes ?R, failures ?R), save_notification ?n2 s2),
             map (map dt_token) (batches_of tt))"
    using run by (simp add: dispatch_pass_def Let_def)
  moreover have "notification_logs (st_db (save_notification ?n2 s2))
                   = notification_logs (st_db s) @ map2 (log_of n) tt ?R"
    by (simp add: db lo)
  moreover have "st_messages (save_notification ?n2 s2) = st_messages s" by (simp add: msg)
  ultimately show ?thesis by blast
qed

lemma dispatch_pass_aborted:
  assumes init: "initialize_firebase env s = (Inl e, s1)" and ne: "tt \<noteq> []"
  shows "\<exists>s'. dispatch_pass env n tt s = ((Inl e, s'), [map dt_token (take batch_size tt)])
           \<and> notification_logs (st_db s') = notification_logs (st_db s)"
proof -
  let ?n1 = "n\<lparr>pn_total_recipients := int (length tt)\<rparr>"
  let ?s1 = "save_notification ?n1 s"
  from ne have bt: "batches_of tt = take batch_size tt # map (\<lambda>j. take batch_size (drop j tt))
                                      (py_range batch_size (length tt) batch_size)"
    by (simp add: batches_of_def py_range.simps [of 0] batch_size_def)
  obtain r s2 where i2: "initialize_firebase env ?s1 = (r, s2)"
    by (cases "initialize_firebase env ?s1")
  from initialize_firebase_same [of ?s1 s env] init i2 have r: "r = Inl e" by simp
  from initialize_firebase_after [OF i2] have db: "st_db s2 = st_db ?s1" by simp
  from dispatch_batches_aborted [of env ?s1 e s2 ?n1 "pn_data n" "take batch_size tt" _ "(0, 0)"] i2 r
  have "dispatch_batches env ?n1 (pn_data n) (batches_of tt) (0, 0) ?s1
          = ((Inl e, s2), [map dt_token (take batch_size tt)])"
    unfolding bt by simp
  then have "dispatch_pass env n tt s = ((Inl e, s2), [map dt_token (take batch_size tt)])"
    by (simp add: dispatch_pass_def Let_def)
  moreover have "notification_logs (st_db s2) = notification_logs (st_db s)" by (simp add: db)
  ultimately show ?thesis by blast
qed

lemma dispatch_async_outcome:
  assumes row: "notifications (st_db s) i = Some n0"
    and ne: "get_target_tokens (st_db s) n0 \<noteq> []"
    and init: "fst (initialize_firebase env s) = Inr ()"
  shows "\<exists>s'. send_notification_async env i s = (Inr (), s')
           \<and> notification_logs (st_db s') = notification_logs (st_db s)
                @ map2 (log_of n0) (get_target_tokens (st_db s) n0)
                    (fst (gateway_run env (pn_title n0) (pn_body n0) (pn_image_url n0) (pn_data n0)
                            (map dt_token (get_target_tokens (st_db s) n0)) (st_world s)))"
proof -
  let ?n1 = "n0\<lparr>pn_status := Sending\<rparr>"
  let ?s1 = "save_notification ?n1 s"
  let ?tt = "get_target_tokens (st_db s) n0"
  have "fst (initialize_firebase env ?s1) = Inr ()"
    using init initialize_firebase_same [of ?s1 s env] by simp
  from dispatch_pass_run [OF this, of ?n1 ?tt]
  obtain s2 sc fc where run: "fst (dispatch_pass env ?n1 ?tt ?s1) = (Inr (sc, fc), s2)"
    and lg: "notification_logs (st_db s2) = notification_logs (st_db ?s1)
               @ map2 (log_of ?n1) ?tt
                   (fst (gateway_run env (pn_title ?n1) (pn_body ?n1) (pn_image_url ?n1) (pn_data ?n1)
                           (map dt_token ?tt) (st_world ?s1)))"
    by force
  have lo: "log_of ?n1 = log_of n0" by (rule log_of_id) simp
  from send_notification_async_try_refines [OF row ne, of env] run
  have "send_notification_async_try env i s
          = (Inr (), log INFO (''Notification '' @ quoted (pn_title n0) @ '' sent automatically! Success: ''
                               @ str_int sc @ '', Failed: '' @ str_int fc) s2)"
    by simp
  then have "send_notification_async env i s
          = (Inr (), log INFO (''Notification '' @ quoted (pn_title n0) @ '' sent automatically! Success: ''
                               @ str_int sc @ '', Failed: '' @ str_int fc) s2)"
    by (simp add: send_notification_async_def)
  moreover from lg lo
  have "notification_logs (st_db (log INFO (''Notification '' @ quoted (pn_title n0) @ '' sent automatically! Success: ''
                               @ str_int sc @ '', Failed: '' @ str_int fc) s2))
          = notification_logs (st_db s) @ map2 (log_of n0) ?tt
              (fst (gateway_run env (pn_title n0) (pn_body n0) (pn_image_url n0) (pn_data n0)
                      (map dt_token ?tt) (st_world s)))"
    by simp
  ultimately show ?thesis by blast
qed

lemma dispatch_single_outcome:
  assumes ne: "admin_get_target_tokens (st_db s) m0 \<noteq> []"
    and init: "fst (initialize_firebase env s) = Inr ()"
  shows "\<exists>s'. send_single_notification env m0 s = (Inr (), s')
           \<and> notification_logs (st_db s') = notification_logs (st_db s)
                @ map2 (log_of m0) (admin_get_target_tokens (st_db s) m0)
                    (fst (gateway_run env (pn_title m0) (pn_body m0) (pn_image_url m0) (pn_data m0)
                            (map dt_token (admin_get_target_tokens (st_db s) m0)) (st_world s)))"
proof -
  let ?n1 = "m0\<lparr>pn_status := Sending\<rparr>"
  let ?s1 = "save_notification ?n1 s"
  let ?tt = "admin_get_target_tokens (st_db s) m0"
  have "fst (initialize_firebase env ?s1) = Inr ()"
    using init initialize_firebase_same [of ?s1 s env] by simp
  from dispatch_pass_run [OF this, of ?n1 ?tt]
  obtain s2 sc fc where run: "fst (dispatch_pass env ?n1 ?tt ?s1) = (Inr (sc, fc), s2)"
    and lg: "notification_logs (st_db s2) = notification_logs (st_db ?s1)
               @ map2 (log_of ?n1) ?tt
                   (fst (gateway_run env (pn_title ?n1) (pn_body ?n1) (pn_image_url ?n1) (pn_data ?n1)
                           (map dt_token ?tt) (st_world ?s1)))"
    by force
  have lo: "log_of ?n1 = log_of m0" by (rule log_of_id) simp
  let ?s3 = "s2\<lparr>st_messages := st_messages s2 @
                [(SUCCESS, ''Notification '' @ quoted (pn_title m0) @ '' sent successfully! Success: ''
                           @ str_int sc @ '', Failed: '' @ str_int fc)]\<rparr>"
  from send_single_notification_refines [OF ne, of env] run
  have "send_single_notification env m0 s = (Inr (), ?s3)" by simp
  moreover from lg lo
  have "notification_logs (st_db ?s3)
          = notification_logs (st_db s) @ map2 (log_of m0) ?tt
              (fst (gateway_run env (pn_title m0) (pn_body m0) (pn_image_url m0) (pn_data m0)
                      (map dt_token ?tt) (st_world s)))"
    by simp
  ultimately show ?thesis by blast
qed

lemma dispatch_async_aborted:
  assumes row: "notifications (st_db s) i = Some n0"
    and ne: "get_target_tokens (st_db s) n0 \<noteq> []"
    and init: "fst (initialize_firebase env s) = Inl e"
  shows "\<exists>s'. send_notification_async env i s = (Inr (), s')
           \<and> notification_logs (st_db s') = notification_logs (st_db s)"
proof -
  let ?n1 = "n0\<lparr>pn_status := Sending\<rparr>"
  let ?s1 = "save_notification ?n1 s"
  let ?tt = "get_target_tokens (st_db s) n0"
  obtain r s1' where i1: "initialize_firebase env ?s1 = (r, s1')"
    by (cases "initialize_firebase env ?s1")
  with init initialize_firebase_same [of ?s1 s env] have "initialize_firebase env ?s1 = (Inl e, s1')"
    by simp
  from dispatch_pass_aborted [OF this ne, of ?n1]
  obtain s2 where run: "fst (dispatch_pass env ?n1 ?tt ?s1) = (Inl e, s2)"
    and lg: "notification_logs (st_db s2) = notification_logs (st_db ?s1)"
    by force
  from send_notification_async_try_refines [OF row ne, of env] run
  have tr: "send_notification_async_try env i s = (Inl e, s2)" by simp
  show ?thesis
    using tr lg by (simp add: send_notification_async_def Let_def split: option.splits)
qed

lemma dispatch_single_aborted:
  assumes ne: "admin_get_target_tokens (st_db s) m0 \<noteq> []"
    and init: "fst (initialize_firebase env s) = Inl e"
  shows "\<exists>s'. send_single_notification env m0 s = (Inl e, s')
           \<and> notification_logs (st_db s') = notification_logs (st_db s)"
proof -
  let ?n1 = "m0\<lparr>pn_status := Sending\<rparr>"
  let ?s1 = "save_notification ?n1 s"
  let ?tt = "admin_get_target_tokens (st_db s) m0"
  obtain r s1' where i1: "initialize_firebase env ?s1 = (r, s1')"
    by (cases "initialize_firebase env ?s1")
  with init initialize_firebase_same [of ?s1 s env] have "initialize_firebase env ?s1 = (Inl e, s1')"
    by simp
  from dispatch_pass_aborted [OF this ne, of ?n1]
  obtain s2 where run: "fst (dispatch_pass env ?n1 ?tt ?s1) = (Inl e, s2)"
    and lg: "notification_logs (st_db s2) = notification_logs (st_db ?s1)"
    by force
  from send_single_notification_refines [OF ne, of env] run
  have "send_single_notification env m0 s = (Inl e, s2)" by simp
  with lg show ?thesis by simp
qed

lemma rows_by_position:
  "one_record_per_endpoint n tt (audience_responses env n tt w)
     (map2 (log_of n) tt (audience_responses env n tt w))"
proof -
  let ?R = "audience_responses env n tt w"
  have tok: "map r_token ?R = map dt_token tt"
    by (simp add: audience_responses_def gateway_run_tokens)
  then have len: "length ?R = length tt" by (metis length_map)
  have "\<forall>j < length tt. r_token (?R ! j) = dt_token (tt ! j)"
  proof (intro allI impI)
    fix j assume j: "j < length tt"
    with len have "r_token (?R ! j) = map r_token ?R ! j" by simp
    also have "\<dots> = dt_token (tt ! j)" using j by (simp add: tok)
    finally show "r_token (?R ! j) = dt_token (tt ! j)" .
  qed
  with len show ?thesis
    by (simp add: one_record_per_endpoint_def log_of_def)
qed

lemma bulk_logger:
  assumes init: "initialize_firebase env s = (Inr (), s1)" and ne: "tokens \<noteq> []"
  shows "length (st_logger (snd (send_notification_to_multiple_tokens env tokens title body data image_url s)))
           = length (st_logger s1)
             + (case messaging_Notification env title body image_url of Inl e \<Rightarrow> 1 | Inr v \<Rightarrow> 2)"
  using init ne
  by (simp add: send_notification_to_multiple_tokens_def log_def split_beta split: sum.splits)

lemma dispatch_batches_logger_settled:
  assumes st: "settled s" and ne: "\<forall>b \<in> set bs. b \<noteq> []"
  shows "length (st_logger (snd (fst (dispatch_batches env n data bs cnt s))))
           = length (st_logger s) + bulk_log_lines env n * length bs"
  using st ne
proof (induction bs arbitrary: cnt s)
  case Nil
  then show ?case by simp
next
  case (Cons b bs)
  obtain sc fc where cnt: "cnt = (sc, fc)" by (cases cnt)
  from Cons.prems have st: "settled s" and b: "b \<noteq> []" and rest: "\<forall>b \<in> set bs. b \<noteq> []"
    by simp_all
  from initialize_firebase_settled [OF st] have init: "initialize_firebase env s = (Inr (), s)" .
  let ?call = "send_notification_to_multiple_tokens env (map dt_token b) (pn_title n) (pn_body n)
                 (Some data) (pn_image_url n) s"
  from bulk_outcome [OF init, of "map dt_token b" "pn_title n" "pn_body n" data "pn_image_url n"]
  obtain resp s1 where call: "?call = (Inr resp, s1)" and st1: "settled s1" by blast
  from bulk_logger [OF init, of "map dt_token b" "pn_title n" "pn_body n" "Some data" "pn_image_url n"] b call
  have lg: "length (st_logger s1) = length (st_logger s) + bulk_log_lines env n"
    by (simp add: bulk_log_lines_def)
  let ?s2 = "s1\<lparr>st_db := (st_db s1)\<lparr>notification_logs := notification_logs (st_db s1)
                 @ map2 (log_of n) b (br_responses resp)\<rparr>\<rparr>"
  have st2: "settled ?s2" using st1 by simp
  from Cons.IH [OF st2 rest, of "(sc + successes (br_responses resp), fc + failures (br_responses resp))"]
  have "length (st_logger (snd (fst (dispatch_batches env n data bs
                 (sc + successes (br_responses resp), fc + failures (br_responses resp)) ?s2))))
          = length (st_logger ?s2) + bulk_log_lines env n * length bs" .
  with call lg cnt show ?case by (simp add: split_beta)
qed

lemma dispatch_batches_logger:
  assumes init: "fst (initialize_firebase env s) = Inr ()"
    and ne: "\<forall>b \<in> set bs. b \<noteq> []" and bs: "bs \<noteq> []"
  shows "length (st_logger (snd (fst (dispatch_batches env n data bs cnt s))))
           = length (st_logger (snd (initialize_firebase env s))) + bulk_log_lines env n * length bs"
proof -
  obtain b rest where bsr: "bs = b # rest" using bs by (cases bs) auto
  obtain sc fc where cnt: "cnt = (sc, fc)" by (cases cnt)
  obtain s0 where i0: "initialize_firebase env s = (Inr (), s0)"
    using init by (cases "initialize_firebase env s") auto
  from ne bsr have b: "b \<noteq> []" and rne: "\<forall>b \<in> set rest. b \<noteq> []" by simp_all
  let ?call = "send_notification_to_multiple_tokens env (map dt_token b) (pn_title n) (pn_body n)
                 (Some data) (pn_image_url n) s"
  from bulk_outcome [OF i0, of "map dt_token b" "pn_title n" "pn_body n" data "pn_image_url n"]
  obtain resp s1 where call: "?call = (Inr resp, s1)" and st1: "settled s1" by blast
  from bulk_logger [OF i0, of "map dt_token b" "pn_title n" "pn_body n" "Some data" "pn_image_url n"] b call
  have lg: "length (st_logger s1) = length (st_logger s0) + bulk_log_lines env n"
    by (simp add: bulk_log_lines_def)
  let ?s2 = "s1\<lparr>st_db := (st_db s1)\<lparr>notification_logs := notification_logs (st_db s1)
                 @ map2 (log_of n) b (br_responses resp)\<rparr>\<rparr>"
  have st2: "settled ?s2" using st1 by simp
  from dispatch_batches_logger_settled [OF st2 rne, of env n data
      "(sc + successes (br_responses resp), fc + failures (br_responses resp))"]
  have "length (st_logger (snd (fst (dispatch_batches env n data rest
                 (sc + successes (br_responses resp), fc + failures (br_responses resp)) ?s2))))
          = length (st_logger ?s2) + bulk_log_lines env n * length rest" .
  with call lg cnt bsr i0 show ?thesis by (simp add: split_beta)
qed

lemma batches_of_nonempty: "\<forall>b \<in> set (batches_of tt). b \<noteq> []"
  using batches_of_props [of tt] by auto

lemma send_to_targets_logger:
  assumes init: "fst (initialize_firebase env s) = Inr ()" and ne: "tt \<noteq> []"
  shows "length (st_logger (snd (send_to_targets env n tt s)))
           = length (st_logger (snd (initialize_firebase env s)))
             + bulk_log_lines env n * ((length tt + 499) div 500)"
proof -
  let ?n1 = "n\<lparr>pn_total_recipients := int (length tt)\<rparr>"
  let ?s1 = "save_notification ?n1 s"
  have i1: "fst (initialize_firebase env ?s1) = Inr ()"
    using init initialize_firebase_same [of ?s1 s env] by simp
  have lines: "bulk_log_lines env ?n1 = bulk_log_lines env n" by (simp add: bulk_log_lines_def)
  have lg0: "st_logger (snd (initialize_firebase env ?s1)) = st_logger (snd (initialize_firebase env s))"
    by (simp add: initialize_firebase_def Let_def log_def split: sum.splits option.splits)
  have bne: "batches_of tt \<noteq> []"
    using ne batches_of_props [of tt] by (metis concat.simps(1))
  from dispatch_batches_logger [OF i1 batches_of_nonempty bne, of ?n1 "pn_data n" "(0, 0)"]
  have "length (st_logger (snd (fst (dispatch_batches env ?n1 (pn_data n) (batches_of tt) (0, 0) ?s1))))
          = length (st_logger (snd (initialize_firebase env s)))
            + bulk_log_lines env n * ((length tt + 499) div 500)"
    by (simp add: lines lg0 batches_of_props)
  then show ?thesis
    by (auto simp: send_to_targets_refines dispatch_pass_def Let_def split: prod.splits sum.splits)
qed
lemmas dispatch_eval =
  send_notification_async_def send_notification_async_try_def send_single_notification_def
  send_to_targets_def send_batch_def save_notification_def get_target_tokens_def
  admin_get_target_tokens_def log_of_def batch_size_def Let_def
  demo_state_def demo_db_def demo_tokens_def demo_notification_def demo_notification_web_def
  demo_notification_ios_def demo_notification_sent_def

lemma py_range_small: "0 < n \<Longrightarrow> n \<le> 500 \<Longrightarrow> py_range 0 n 500 = [0]"
  by (simp add: py_range.simps [of _ n 500])

lemma dispatch_complete_row:
  "map r_token rs = map dt_token tt \<Longrightarrow>
     dispatch_complete tt
       (n\<lparr>pn_total_recipients := int (length tt), pn_successful_sends := successes rs,
          pn_failed_sends := failures rs, pn_sent_at := Some t,
          pn_status := (if successes rs > 0 then Sent else Failed)\<rparr>)"
proof -
  assume "map r_token rs = map dt_token tt"
  then have "length rs = length tt" by (metis length_map)
  with successes_plus_failures [of rs] successes_nonneg [of rs]
  show ?thesis by (simp add: dispatch_complete_def)
qed

text \<open>
  C1. A dispatch over a non-empty resolved audience that runs to its end (the gateway's
  initialization step does not raise; nothing else in the pass can) returns normally on both
  paths, and the stored request then has \<open>total_recipients\<close> equal to the number of
  resolved endpoints, \<open>successful_sends + failed_sends = total_recipients\<close>, and status
  \<open>sent\<close> if \<open>successful_sends > 0\<close>, \<open>failed\<close> otherwise.
\<close>

theorem dispatch_counters:
  assumes init: "fst (initialize_firebase env s) = Inr ()"
  shows "(notifications (st_db s) i = Some n0 \<and> pn_id n0 = i
            \<and> get_target_tokens (st_db s) n0 \<noteq> [] \<longrightarrow>
           (\<exists>n' s'. send_notification_async env i s = (Inr (), s')
              \<and> notifications (st_db s') i = Some n'
              \<and> dispatch_complete (get_target_tokens (st_db s) n0) n'))
       \<and> (admin_get_target_tokens (st_db s) m0 \<noteq> [] \<longrightarrow>
           (\<exists>m' s'. send_single_notification env m0 s = (Inr (), s')
              \<and> notifications (st_db s') (pn_id m0) = Some m'
              \<and> dispatch_complete (admin_get_target_tokens (st_db s) m0) m'))"
proof (intro conjI impI)
  assume "notifications (st_db s) i = Some n0 \<and> pn_id n0 = i \<and> get_target_tokens (st_db s) n0 \<noteq> []"
  then have row: "notifications (st_db s) i = Some n0" and pk: "pn_id n0 = i"
    and ne: "get_target_tokens (st_db s) n0 \<noteq> []" by simp_all
  let ?tt = "get_target_tokens (st_db s) n0"
  from dispatch_async_ok [OF row pk ne init]
  obtain rs t s' where
    run: "send_notification_async env i s = (Inr (), s')"
    and tok: "map r_token rs = map dt_token ?tt"
    and nt: "notifications (st_db s') = (notifications (st_db s))(i \<mapsto>
                n0\<lparr>pn_total_recipients := int (length ?tt), pn_successful_sends := successes rs,
                   pn_failed_sends := failures rs, pn_sent_at := Some t,
                   pn_status := (if successes rs > 0 then Sent else Failed)\<rparr>)"
    by blast
  from nt have "notifications (st_db s') i = Some
                (n0\<lparr>pn_total_recipients := int (length ?tt), pn_successful_sends := successes rs,
                   pn_failed_sends := failures rs, pn_sent_at := Some t,
                   pn_status := (if successes rs > 0 then Sent else Failed)\<rparr>)"
    by simp
  with run dispatch_complete_row [OF tok]
  show "\<exists>n' s'. send_notification_async env i s = (Inr (), s')
           \<and> notifications (st_db s') i = Some n' \<and> dispatch_complete ?tt n'"
    by blast
next
  assume ne: "admin_get_target_tokens (st_db s) m0 \<noteq> []"
  let ?tt = "admin_get_target_tokens (st_db s) m0"
  from dispatch_single_ok [OF ne init]
  obtain rs t s' where
    run: "send_single_notification env m0 s = (Inr (), s')"
    and tok: "map r_token rs = map dt_token ?tt"
    and nt: "notifications (st_db s') = (notifications (st_db s))(pn_id m0 \<mapsto>
                m0\<lparr>pn_total_recipients := int (length ?tt), pn_successful_sends := successes rs,
                   pn_failed_sends := failures rs, pn_sent_at := Some t,
                   pn_status := (if successes rs > 0 then Sent else Failed)\<rparr>)"
    by blast
  from nt have "notifications (st_db s') (pn_id m0) = Some
                (m0\<lparr>pn_total_recipients := int (length ?tt), pn_successful_sends := successes rs,
                   pn_failed_sends := failures rs, pn_sent_at := Some t,
                   pn_status := (if successes rs > 0 then Sent else Failed)\<rparr>)"
    by simp
  with run dispatch_complete_row [OF tok]
  show "\<exists>m' s'. send_single_notification env m0 s = (Inr (), s')
           \<and> notifications (st_db s') (pn_id m0) = Some m' \<and> dispatch_complete ?tt m'"
    by blast
qed

theorem dispatch_counters_witness:
  "map_option (\<lambda>n. (pn_status n, pn_total_recipients n, pn_successful_sends n, pn_failed_sends n))
     (notifications (st_db (snd (send_notification_async env_ready 3 demo_state))) 3)
     = Some (Sent, 2, 1, 1)
   \<and> map_option (\<lambda>n. (pn_status n, pn_total_recipients n, pn_successful_sends n, pn_failed_sends n))
     (notifications (st_db (snd (send_single_notification env_no_key demo_notification_ios demo_state))) 3)
     = Some (Failed, 2, 0, 2)"
proof -
  have init: "fst (initialize_firebase env_ready demo_state) = Inr ()"
    by (simp add: firebase_eval env_ready_def demo_state_def)
  have hyp: "notifications (st_db demo_state) 3 = Some demo_notification_ios
       \<and> pn_id demo_notification_ios = 3
       \<and> get_target_tokens (st_db demo_state) demo_notification_ios \<noteq> []"
    by (simp add: dispatch_eval)
  from dispatch_counters [OF init, of 3 demo_notification_ios demo_notification_ios] hyp
  obtain n' s' where "send_notification_async env_ready 3 demo_state = (Inr (), s')"
    and "notifications (st_db s') 3 = Some n'"
    and "dispatch_complete (get_target_tokens (st_db demo_state) demo_notification_ios) n'"
    by blast
  have v1: "map_option (\<lambda>n. (pn_status n, pn_total_recipients n, pn_successful_sends n, pn_failed_sends n))
     (notifications (st_db (snd (send_notification_async env_ready 3 demo_state))) 3)
     = Some (Sent, 2, 1, 1)"
    by (simp add: dispatch_eval firebase_eval env_ready_def py_range_small)
  have v2: "map_option (\<lambda>n. (pn_status n, pn_total_recipients n, pn_successful_sends n, pn_failed_sends n))
     (notifications (st_db (snd (send_single_notification env_no_key demo_notification_ios demo_state))) 3)
     = Some (Failed, 2, 0, 2)"
    by (simp add: dispatch_eval firebase_eval env_no_key_def py_range_small)
  from v1 v2 show ?thesis by simp
qed


text \<open>
  Why C1 speaks of a pass that completes: when the first bulk call raises (the key file is
  rejected), the automatic path stores the request as failed with the total already written
  and the two counters untouched, and the admin action's transaction puts the draft back.
\<close>

lemma dispatch_aborted_by_initialization:
  "map_option (\<lambda>n. (pn_status n, pn_total_recipients n, pn_successful_sends n, pn_failed_sends n))
     (notifications (st_db (snd (send_notification_async env_bad_key 3 demo_state))) 3)
     = Some (Failed, 2, 0, 0)
   \<and> notifications (st_db (send_notifications env_bad_key [3] demo_state)) 3
     = Some demo_notification_ios"
  by (simp add: send_notifications_def atomic_def List.map_filter_def dispatch_eval firebase_eval
      env_bad_key_def py_range_small)

text \<open>
  C2, as the code has it. The audience is cut into the slices \<open>target_tokens[i:i + 500]\<close>
  for \<open>i\<close> in \<open>range(0, n, 500)\<close>: \<open>ceil(n/500)\<close> consecutive slices, none empty, none
  longer than 500, together the resolved audience in its order (for \<open>n = 1200\<close>: at 0, 500
  and 1000, of 500, 500 and 200 endpoints). The loop, the shared pass and both dispatchers
  are, state for state, the batch-by-batch dispatch over these slices. When the
  initialization step of the gateway does not raise, that dispatch makes exactly one bulk
  call per slice, in order, on the slice's tokens, and appends exactly one log row per
  endpoint: the row at position \<open>j\<close> names the endpoint at position \<open>j\<close> and carries what
  the library answered for that endpoint's token. The calls show in the service's own log:
  each bulk call leaves its lines there, and a pass leaves \<open>ceil(n/500)\<close> times as many.
  When the initialization step raises, which happens at the first bulk call, the pass stops
  there: one bulk call whatever the size of the audience, and no log row; the automatic path
  then returns normally and the admin path raises.
\<close>

theorem dispatch_batching:
  "length (py_range 0 (length tt) batch_size) = (length tt + 499) div 500
   \<and> length (batches_of tt) = (length tt + 499) div 500
   \<and> concat (batches_of tt) = tt
   \<and> (\<forall>b \<in> set (batches_of tt). 0 < length b \<and> length b \<le> 500)
   \<and> (length tt = 1200 \<longrightarrow>
        py_range 0 (length tt) batch_size = [0, 500, 1000]
        \<and> map length (batches_of tt) = [500, 500, 200])
   \<and> for_batches env n data tt (py_range 0 (length tt) batch_size) cnt s
        = fst (dispatch_batches env n data (batches_of tt) cnt s)
   \<and> send_to_targets env n tt s = fst (dispatch_pass env n tt s)
   \<and> one_record_per_endpoint n tt (audience_responses env n tt (st_world s))
         (map2 (log_of n) tt (audience_responses env n tt (st_world s)))
   \<and> (notifications (st_db s) i = Some n0 \<and> get_target_tokens (st_db s) n0 \<noteq> [] \<longrightarrow>
        send_notification_async_try env i s =
          (case fst (dispatch_pass env (n0\<lparr>pn_status := Sending\<rparr>)
                       (get_target_tokens (st_db s) n0)
                       (save_notification (n0\<lparr>pn_status := Sending\<rparr>) s)) of
             (Inl e, s') \<Rightarrow> (Inl e, s')
           | (Inr (sc, fc), s') \<Rightarrow>
               (Inr (),
                log INFO (''Notification '' @ quoted (pn_title n0) @ '' sent automatically! Success: ''
                          @ str_int sc @ '', Failed: '' @ str_int fc) s')))
   \<and> (admin_get_target_tokens (st_db s) m0 \<noteq> [] \<longrightarrow>
        send_single_notification env m0 s =
          (case fst (dispatch_pass env (m0\<lparr>pn_status := Sending\<rparr>)
                       (admin_get_target_tokens (st_db s) m0)
                       (save_notification (m0\<lparr>pn_status := Sending\<rparr>) s)) of
             (Inl e, s') \<Rightarrow> (Inl e, s')
           | (Inr (sc, fc), s') \<Rightarrow>
               (Inr (),
                s'\<lparr>st_messages := st_messages s' @
                     [(SUCCESS, ''Notification '' @ quoted (pn_title m0) @ '' sent successfully! Success: ''
                                @ str_int sc @ '', Failed: '' @ str_int fc)]\<rparr>)))
   \<and> (fst (initialize_firebase env s) = Inr () \<longrightarrow>
        snd (dispatch_pass env n tt s) = map (map dt_token) (batches_of tt)
        \<and> fst (fst (dispatch_pass env n tt s))
            = Inr (successes (audience_responses env n tt (st_world s)),
                   failures (audience_responses env n tt (st_world s)))
        \<and> notification_logs (st_db (snd (fst (dispatch_pass env n tt s))))
            = notification_logs (st_db s) @ map2 (log_of n) tt (audience_responses env n tt (st_world s))
        \<and> map r_token (audience_responses env n tt (st_world s)) = map dt_token tt
        \<and> (tt \<noteq> [] \<longrightarrow>
             length (st_logger (snd (send_to_targets env n tt s)))
               = length (st_logger (snd (initialize_firebase env s)))
                 + bulk_log_lines env n * ((length tt + 499) div 500))
        \<and> (notifications (st_db s) i = Some n0 \<and> get_target_tokens (st_db s) n0 \<noteq> [] \<longrightarrow>
             fst (send_notification_async env i s) = Inr ()
             \<and> notification_logs (st_db (snd (send_notification_async env i s)))
                 = notification_logs (st_db s)
                   @ map2 (log_of n0) (get_target_tokens (st_db s) n0)
                       (audience_responses env n0 (get_target_tokens (st_db s) n0) (st_world s)))
        \<and> (admin_get_target_tokens (st_db s) m0 \<noteq> [] \<longrightarrow>
             fst (send_single_notification env m0 s) = Inr ()
             \<and> notification_logs (st_db (snd (send_single_notification env m0 s)))
                 = notification_logs (st_db s)
                   @ map2 (log_of m0) (admin_get_target_tokens (st_db s) m0)
                       (audience_responses env m0 (admin_get_target_tokens (st_db s) m0) (st_world s))))
   \<and> (fst (initialize_firebase env s) = Inl x \<longrightarrow>
        (tt \<noteq> [] \<longrightarrow>
           snd (dispatch_pass env n tt s) = [map dt_token (take batch_size tt)]
           \<and> fst (fst (dispatch_pass env n tt s)) = Inl x
           \<and> notification_logs (st_db (snd (fst (dispatch_pass env n tt s))))
               = notification_logs (st_db s))
        \<and> (notifications (st_db s) i = Some n0 \<and> get_target_tokens (st_db s) n0 \<noteq> [] \<longrightarrow>
             fst (send_notification_async env i s) = Inr ()
             \<and> notification_logs (st_db (snd (send_notification_async env i s)))
                 = notification_logs (st_db s))
        \<and> (admin_get_target_tokens (st_db s) m0 \<noteq> [] \<longrightarrow>
             fst (send_single_notification env m0 s) = Inl x
             \<and> notification_logs (st_db (snd (send_single_notification env m0 s)))
                 = notification_logs (st_db s)))"
proof (intro conjI impI)
  show "length (py_range 0 (length tt) batch_size) = (length tt + 499) div 500"
    by (simp add: batch_size_def py_range_length)
  show "length (batches_of tt) = (length tt + 499) div 500" by (rule batches_of_props)
  show "concat (batches_of tt) = tt" by (rule batches_of_props)
  show "\<forall>b \<in> set (batches_of tt). 0 < length b \<and> length b \<le> 500" by (rule batches_of_props)
  show "for_batches env n data tt (py_range 0 (length tt) batch_size) cnt s
          = fst (dispatch_batches env n data (batches_of tt) cnt s)"
    by (simp add: for_batches_refines batches_of_def)
  show "send_to_targets env n tt s = fst (dispatch_pass env n tt s)"
    by (rule send_to_targets_refines)
  show "one_record_per_endpoint n tt (audience_responses env n tt (st_world s))
          (map2 (log_of n) tt (audience_responses env n tt (st_world s)))"
    by (rule rows_by_position)
next
  assume "length tt = 1200"
  with batches_of_1200 [of tt]
  show "py_range 0 (length tt) batch_size = [0, 500, 1000]"
    and "map length (batches_of tt) = [500, 500, 200]" by blast+
next
  assume "notifications (st_db s) i = Some n0 \<and> get_target_tokens (st_db s) n0 \<noteq> []"
  then show "send_notification_async_try env i s =
          (case fst (dispatch_pass env (n0\<lparr>pn_status := Sending\<rparr>)
                       (get_target_tokens (st_db s) n0)
                       (save_notification (n0\<lparr>pn_status := Sending\<rparr>) s)) of
             (Inl e, s') \<Rightarrow> (Inl e, s')
           | (Inr (sc, fc), s') \<Rightarrow>
               (Inr (),
                log INFO (''Notification '' @ quoted (pn_title n0) @ '' sent automatically! Success: ''
                          @ str_int sc @ '', Failed: '' @ str_int fc) s'))"
    using send_notification_async_try_refines [of s i n0 env] by blast
next
  assume "admin_get_target_tokens (st_db s) m0 \<noteq> []"
  then show "send_single_notification env m0 s =
          (case fst (dispatch_pass env (m0\<lparr>pn_status := Sending\<rparr>)
                       (admin_get_target_tokens (st_db s) m0)
                       (save_notification (m0\<lparr>pn_status := Sending\<rparr>) s)) of
             (Inl e, s') \<Rightarrow> (Inl e, s')
           | (Inr (sc, fc), s') \<Rightarrow>
               (Inr (),
                s'\<lparr>st_messages := st_messages s' @
                     [(SUCCESS, ''Notification '' @ quoted (pn_title m0) @ '' sent successfully! Success: ''
                                @ str_int sc @ '', Failed: '' @ str_int fc)]\<rparr>))"
    by (rule send_single_notification_refines)
next
  assume init: "fst (initialize_firebase env s) = Inr ()"
  from dispatch_pass_run [OF init, of n tt]
  obtain s' where run: "dispatch_pass env n tt s
      = ((Inr (successes (audience_responses env n tt (st_world s)),
               failures (audience_responses env n tt (st_world s))), s'),
         map (map dt_token) (batches_of tt))"
    and lg: "notification_logs (st_db s') = notification_logs (st_db s)
               @ map2 (log_of n) tt (audience_responses env n tt (st_world s))"
    unfolding audience_responses_def by blast
  from run show "snd (dispatch_pass env n tt s) = map (map dt_token) (batches_of tt)" by simp
  from run show "fst (fst (dispatch_pass env n tt s))
            = Inr (successes (audience_responses env n tt (st_world s)),
                   failures (audience_responses env n tt (st_world s)))" by simp
  from run lg show "notification_logs (st_db (snd (fst (dispatch_pass env n tt s))))
            = notification_logs (st_db s) @ map2 (log_of n) tt (audience_responses env n tt (st_world s))"
    by simp
  show "map r_token (audience_responses env n tt (st_world s)) = map dt_token tt"
    by (simp add: audience_responses_def gateway_run_tokens)
  {
    assume "tt \<noteq> []"
    with init show "length (st_logger (snd (send_to_targets env n tt s)))
               = length (st_logger (snd (initialize_firebase env s)))
                 + bulk_log_lines env n * ((length tt + 499) div 500)"
      by (rule send_to_targets_logger)
  }
  {
    assume "notifications (st_db s) i = Some n0 \<and> get_target_tokens (st_db s) n0 \<noteq> []"
    then have row: "notifications (st_db s) i = Some n0"
      and ne: "get_target_tokens (st_db s) n0 \<noteq> []" by simp_all
    from dispatch_async_outcome [OF row ne init]
    show "fst (send_notification_async env i s) = Inr ()"
      and "notification_logs (st_db (snd (send_notification_async env i s)))
                 = notification_logs (st_db s)
                   @ map2 (log_of n0) (get_target_tokens (st_db s) n0)
                       (audience_responses env n0 (get_target_tokens (st_db s) n0) (st_world s))"
      unfolding audience_responses_def by auto
  }
  {
    assume ne: "admin_get_target_tokens (st_db s) m0 \<noteq> []"
    from dispatch_single_outcome [OF ne init]
    show "fst (send_single_notification env m0 s) = Inr ()"
      and "notification_logs (st_db (snd (send_single_notification env m0 s)))
                 = notification_logs (st_db s)
                   @ map2 (log_of m0) (admin_get_target_tokens (st_db s) m0)
                       (audience_responses env m0 (admin_get_target_tokens (st_db s) m0) (st_world s))"
      unfolding audience_responses_def by auto
  }
next
  assume init: "fst (initialize_firebase env s) = Inl x"
  {
    assume ne: "tt \<noteq> []"
    obtain r s1 where "initialize_firebase env s = (r, s1)" by (cases "initialize_firebase env s")
    with init have "initialize_firebase env s = (Inl x, s1)" by simp
    from dispatch_pass_aborted [OF this ne, of n]
    obtain s' where run: "dispatch_pass env n tt s = ((Inl x, s'), [map dt_token (take batch_size tt)])"
      and lg: "notification_logs (st_db s') = notification_logs (st_db s)" by blast
    from run show "snd (dispatch_pass env n tt s) = [map dt_token (take batch_size tt)]" by simp
    from run show "fst (fst (dispatch_pass env n tt s)) = Inl x" by simp
    from run lg show "notification_logs (st_db (snd (fst (dispatch_pass env n tt s))))
               = notification_logs (st_db s)" by simp
  }
  {
    assume "notifications (st_db s) i = Some n0 \<and> get_target_tokens (st_db s) n0 \<noteq> []"
    then have row: "notifications (st_db s) i = Some n0"
      and ne: "get_target_tokens (st_db s) n0 \<noteq> []" by simp_all
    from dispatch_async_aborted [OF row ne init]
    show "fst (send_notification_async env i s) = Inr ()"
      and "notification_logs (st_db (snd (send_notification_async env i s)))
                 = notification_logs (st_db s)" by auto
  }
  {
    assume ne: "admin_get_target_tokens (st_db s) m0 \<noteq> []"
    from dispatch_single_aborted [OF ne init]
    show "fst (send_single_notification env m0 s) = Inl x"
      and "notification_logs (st_db (snd (send_single_notification env m0 s)))
                 = notification_logs (st_db s)" by auto
  }
qed


theorem dispatch_batching_witness:
  "map length (batches_of (replicate 1200 (demo_tokens ! 1))) = [500, 500, 200]
   \<and> length (py_range 0 1200 batch_size) = 3
   \<and> map length (snd (dispatch_pass env_ready demo_notification_ios
                         (replicate 1200 (demo_tokens ! 1)) demo_state)) = [500, 500, 200]
   \<and> notification_logs (st_db (snd (send_notification_async env_ready 3 demo_state)))
     = [\<lparr>nl_notification = 3, nl_device_token = 2, nl_status = LogSuccess, nl_error_message = None\<rparr>,
        \<lparr>nl_notification = 3, nl_device_token = 3, nl_status = LogFailed,
         nl_error_message = Some ''invalid token''\<rparr>]
   \<and> notification_logs (st_db (snd (send_single_notification env_ready demo_notification_ios demo_state)))
     = [\<lparr>nl_notification = 3, nl_device_token = 2, nl_status = LogSuccess, nl_error_message = None\<rparr>,
        \<lparr>nl_notification = 3, nl_device_token = 3, nl_status = LogFailed,
         nl_error_message = Some ''invalid token''\<rparr>]
   \<and> length (st_logger (snd (send_to_targets env_ready demo_notification_ios
                                (replicate 1200 (demo_tokens ! 1)) demo_state))) = 1 + 2 * 3
   \<and> snd (dispatch_pass env_bad_key demo_notification_ios
             (replicate 1200 (demo_tokens ! 1)) demo_state) = [replicate 500 ''tok-ios'']
   \<and> fst (send_single_notification env_bad_key demo_notification_ios demo_state)
       = Inl (Exception ''Invalid service account certificate'')
   \<and> notification_logs (st_db (snd (send_notification_async env_bad_key 3 demo_state))) = []"
proof -
  let ?tt = "replicate 1200 (demo_tokens ! 1)"
  have init: "fst (initialize_firebase env_ready demo_state) = Inr ()"
    by (simp add: firebase_eval env_ready_def demo_state_def)
  have bad: "fst (initialize_firebase env_bad_key demo_state)
               = Inl (Exception ''Invalid service account certificate'')"
    by (simp add: firebase_eval env_bad_key_def demo_state_def)
  have len: "length ?tt = 1200" by simp
  have ne: "?tt \<noteq> []" by simp
  have row: "notifications (st_db demo_state) 3 = Some demo_notification_ios
               \<and> get_target_tokens (st_db demo_state) demo_notification_ios \<noteq> []"
    by (simp add: dispatch_eval)
  have adm: "admin_get_target_tokens (st_db demo_state) demo_notification_ios \<noteq> []"
    by (simp add: dispatch_eval)
  have tt3: "get_target_tokens (st_db demo_state) demo_notification_ios = [demo_tokens ! 1, demo_tokens ! 2]"
    by (simp add: dispatch_eval)
  have at3: "admin_get_target_tokens (st_db demo_state) demo_notification_ios
               = [demo_tokens ! 1, demo_tokens ! 2]"
    by (simp add: dispatch_eval)
  have rs: "audience_responses env_ready demo_notification_ios [demo_tokens ! 1, demo_tokens ! 2]
              (st_world demo_state)
            = [\<lparr>r_token = ''tok-ios'', r_success = True, r_message_id = Some ''msg-tok-ios'', r_error = None\<rparr>,
               \<lparr>r_token = ''tok-bad'', r_success = False, r_message_id = None,
                r_error = Some ''invalid token''\<rparr>]"
    by (simp add: audience_responses_def gateway_run_def response_of_def env_ready_def dispatch_eval)
  have old: "notification_logs (st_db demo_state) = []" by (simp add: dispatch_eval)
  note good = dispatch_batching [of ?tt env_ready demo_notification_ios "[]" "(0, 0)" demo_state
      3 demo_notification_ios demo_notification_ios "Exception ''unused''"]
  note fail = dispatch_batching [of ?tt env_bad_key demo_notification_ios "[]" "(0, 0)" demo_state
      3 demo_notification_ios demo_notification_ios "Exception ''Invalid service account certificate''"]
  from good len have a: "map length (batches_of ?tt) = [500, 500, 200]" by blast
  from good have "length (py_range 0 (length ?tt) batch_size) = (length ?tt + 499) div 500" by blast
  then have b: "length (py_range 0 1200 batch_size) = 3" by simp
  from good init have "snd (dispatch_pass env_ready demo_notification_ios ?tt demo_state)
                         = map (map dt_token) (batches_of ?tt)" by blast
  with a have c: "map length (snd (dispatch_pass env_ready demo_notification_ios ?tt demo_state))
                    = [500, 500, 200]"
    by (simp add: comp_def)
  from good init ne
  have "length (st_logger (snd (send_to_targets env_ready demo_notification_ios ?tt demo_state)))
          = length (st_logger (snd (initialize_firebase env_ready demo_state)))
            + bulk_log_lines env_ready demo_notification_ios * ((length ?tt + 499) div 500)"
    by blast
  then have c2: "length (st_logger (snd (send_to_targets env_ready demo_notification_ios ?tt demo_state)))
                   = 1 + 2 * 3"
    by (simp add: bulk_log_lines_def firebase_eval env_ready_def demo_state_def)
  from good init row have "notification_logs (st_db (snd (send_notification_async env_ready 3 demo_state)))
      = notification_logs (st_db demo_state)
        @ map2 (log_of demo_notification_ios) (get_target_tokens (st_db demo_state) demo_notification_ios)
            (audience_responses env_ready demo_notification_ios
               (get_target_tokens (st_db demo_state) demo_notification_ios) (st_world demo_state))"
    by blast
  then have d: "notification_logs (st_db (snd (send_notification_async env_ready 3 demo_state)))
     = [\<lparr>nl_notification = 3, nl_device_token = 2, nl_status = LogSuccess, nl_error_message = None\<rparr>,
        \<lparr>nl_notification = 3, nl_device_token = 3, nl_status = LogFailed,
         nl_error_message = Some ''invalid token''\<rparr>]"
    unfolding tt3 rs old by (simp add: log_of_def dispatch_eval)
  from good init adm
  have "notification_logs (st_db (snd (send_single_notification env_ready demo_notification_ios demo_state)))
      = notification_logs (st_db demo_state)
        @ map2 (log_of demo_notification_ios)
            (admin_get_target_tokens (st_db demo_state) demo_notification_ios)
            (audience_responses env_ready demo_notification_ios
               (admin_get_target_tokens (st_db demo_state) demo_notification_ios) (st_world demo_state))"
    by blast
  then have e: "notification_logs (st_db (snd (send_single_notification env_ready demo_notification_ios demo_state)))
     = [\<lparr>nl_notification = 3, nl_device_token = 2, nl_status = LogSuccess, nl_error_message = None\<rparr>,
        \<lparr>nl_notification = 3, nl_device_token = 3, nl_status = LogFailed,
         nl_error_message = Some ''invalid token''\<rparr>]"
    unfolding at3 rs old by (simp add: log_of_def dispatch_eval)
  from fail bad ne have "snd (dispatch_pass env_bad_key demo_notification_ios ?tt demo_state)
                           = [map dt_token (take batch_size ?tt)]" by blast
  then have f: "snd (dispatch_pass env_bad_key demo_notification_ios ?tt demo_state)
                  = [replicate 500 ''tok-ios'']"
    by (simp add: batch_size_def dispatch_eval)
  from fail bad adm have g: "fst (send_single_notification env_bad_key demo_notification_ios demo_state)
       = Inl (Exception ''Invalid service account certificate'')" by blast
  from fail bad row have "notification_logs (st_db (snd (send_notification_async env_bad_key 3 demo_state)))
                            = notification_logs (st_db demo_state)" by blast
  with old have h: "notification_logs (st_db (snd (send_notification_async env_bad_key 3 demo_state))) = []"
    by simp
  show ?thesis by (intro conjI) (rule a b c d e c2 f g h)+
qed

text \<open>
  C2 as stated fails when the key file is rejected. Request 3 resolves to two endpoints; the
  first bulk call raises out of the initialization step, so neither dispatcher creates a
  log row for them: the automatic path stores the request as failed and returns, the admin
  path raises and its transaction is rolled back. For an audience of 1200 the pass makes
  that one bulk call, on the first 500 tokens, instead of three.
\<close>

theorem dispatch_aborted_creates_no_log_rows:
  "notifications (st_db demo_state) 3 = Some demo_notification_ios
   \<and> length (get_target_tokens (st_db demo_state) demo_notification_ios) = 2
   \<and> length (admin_get_target_tokens (st_db demo_state) demo_notification_ios) = 2
   \<and> fst (send_notification_async env_bad_key 3 demo_state) = Inr ()
   \<and> notification_logs (st_db (snd (send_notification_async env_bad_key 3 demo_state))) = []
   \<and> fst (send_single_notification env_bad_key demo_notification_ios demo_state)
       = Inl (Exception ''Invalid service account certificate'')
   \<and> notification_logs (st_db (snd (send_single_notification env_bad_key demo_notification_ios
                                       demo_state))) = []
   \<and> notification_logs (st_db (send_notifications env_bad_key [3] demo_state)) = []
   \<and> fst (send_to_targets env_bad_key demo_notification_ios (replicate 1200 (demo_tokens ! 1))
            demo_state) = Inl (Exception ''Invalid service account certificate'')
   \<and> st_logger (snd (send_to_targets env_bad_key demo_notification_ios (replicate 1200 (demo_tokens ! 1))
                       demo_state))
       = [(ERROR, ''Failed to initialize Firebase: Invalid service account certificate'')]"
  by (simp add: send_notifications_def atomic_def List.map_filter_def dispatch_eval firebase_eval
      env_bad_key_def py_range_small py_range.simps [of _ 1200 500])

text \<open>
  C3, as the code has it. A dispatch whose resolved audience is empty stores the request as
  failed and touches nothing else: the other fields of the request (so \<open>total_recipients\<close>
  stays what it was, 0 for a fresh draft), the log table and the gateway are left alone. The
  automatic path then logs an error line and returns normally; the manual path's
  \<open>_send_single_notification\<close> raises "No valid device tokens found for targeting criteria".
\<close>

theorem empty_audience_fails_request:
  "(notifications (st_db s) i = Some n0 \<and> pn_id n0 = i \<and> get_target_tokens (st_db s) n0 = [] \<longrightarrow>
      (\<exists>s'. send_notification_async env i s = (Inr (), s')
         \<and> notifications (st_db s') = (notifications (st_db s))(i \<mapsto> n0\<lparr>pn_status := Failed\<rparr>)
         \<and> notification_logs (st_db s') = notification_logs (st_db s)
         \<and> st_world s' = st_world s \<and> st_firebase s' = st_firebase s
         \<and> st_logger s' = st_logger s
              @ [(ERROR, ''No valid device tokens found for notification '' @ str_nat i)]))
   \<and> (admin_get_target_tokens (st_db s) m0 = [] \<longrightarrow>
      (\<exists>s'. send_single_notification env m0 s
               = (Inl (Exception ''No valid device tokens found for targeting criteria''), s')
         \<and> notifications (st_db s') = (notifications (st_db s))(pn_id m0 \<mapsto> m0\<lparr>pn_status := Failed\<rparr>)
         \<and> notification_logs (st_db s') = notification_logs (st_db s)
         \<and> st_world s' = st_world s \<and> st_firebase s' = st_firebase s
         \<and> st_logger s' = st_logger s))"
proof (intro conjI impI)
  assume "notifications (st_db s) i = Some n0 \<and> pn_id n0 = i \<and> get_target_tokens (st_db s) n0 = []"
  then have row: "notifications (st_db s) i = Some n0" and pk: "pn_id n0 = i"
    and em: "get_target_tokens (st_db s) n0 = []" by simp_all
  from dispatch_async_empty [OF row em, of env] pk
  show "\<exists>s'. send_notification_async env i s = (Inr (), s')
         \<and> notifications (st_db s') = (notifications (st_db s))(i \<mapsto> n0\<lparr>pn_status := Failed\<rparr>)
         \<and> notification_logs (st_db s') = notification_logs (st_db s)
         \<and> st_world s' = st_world s \<and> st_firebase s' = st_firebase s
         \<and> st_logger s' = st_logger s
              @ [(ERROR, ''No valid device tokens found for notification '' @ str_nat i)]"
    by (simp add: log_def)
next
  assume em: "admin_get_target_tokens (st_db s) m0 = []"
  from dispatch_single_empty [OF em, of env]
  show "\<exists>s'. send_single_notification env m0 s
               = (Inl (Exception ''No valid device tokens found for targeting criteria''), s')
         \<and> notifications (st_db s') = (notifications (st_db s))(pn_id m0 \<mapsto> m0\<lparr>pn_status := Failed\<rparr>)
         \<and> notification_logs (st_db s') = notification_logs (st_db s)
         \<and> st_world s' = st_world s \<and> st_firebase s' = st_firebase s
         \<and> st_logger s' = st_logger s"
    by simp
qed

theorem empty_audience_fails_request_witness:
  "map_option pn_status (notifications (st_db (snd (send_notification_async env_ready 2 demo_state))) 2)
     = Some Failed
   \<and> map_option pn_total_recipients
       (notifications (st_db (snd (send_notification_async env_ready 2 demo_state))) 2) = Some 0
   \<and> notification_logs (st_db (snd (send_notification_async env_ready 2 demo_state))) = []
   \<and> fst (send_single_notification env_ready demo_notification_web demo_state)
       = Inl (Exception ''No valid device tokens found for targeting criteria'')"
proof -
  have h1: "notifications (st_db demo_state) 2 = Some demo_notification_web
              \<and> pn_id demo_notification_web = 2
              \<and> get_target_tokens (st_db demo_state) demo_notification_web = []"
    by (simp add: dispatch_eval)
  have h2: "admin_get_target_tokens (st_db demo_state) demo_notification_web = []"
    by (simp add: dispatch_eval)
  note inst = empty_audience_fails_request
      [of demo_state 2 demo_notification_web env_ready demo_notification_web]
  from inst h1 obtain s' where
    a: "send_notification_async env_ready 2 demo_state = (Inr (), s')"
    and b: "notifications (st_db s') = (notifications (st_db demo_state))
              (2 \<mapsto> demo_notification_web\<lparr>pn_status := Failed\<rparr>)"
    and c: "notification_logs (st_db s') = notification_logs (st_db demo_state)"
    by blast
  from inst h2 obtain s'' where
    d: "send_single_notification env_ready demo_notification_web demo_state
          = (Inl (Exception ''No valid device tokens found for targeting criteria''), s'')"
    by blast
  from a b c d show ?thesis
    by (simp add: demo_state_def demo_db_def demo_notification_web_def demo_notification_def)
qed

text \<open>
  C3 as stated fails on the automatic path: with no eligible recipient
  \<open>send_notification_async\<close> logs the error and returns normally; nothing is raised to, or
  returned to, the caller that triggered it, and no message is left for an operator.
\<close>

theorem empty_audience_not_signalled_on_automatic_path:
  "get_target_tokens (st_db demo_state) demo_notification_web = []
   \<and> notifications (st_db demo_state) 2 = Some demo_notification_web
   \<and> fst (send_notification_async env_ready 2 demo_state) = Inr ()
   \<and> st_messages (snd (send_notification_async env_ready 2 demo_state)) = []
   \<and> fst (auto_send_notification env_ready demo_notification_web True demo_state) = Inr ()"
  by (simp add: dispatch_eval auto_send_notification_def)

section \<open>The lifecycle under the two triggers\<close>

lemma lifecycle_reach:
  "lifecycle_step\<^sup>*\<^sup>* Draft Sent" "lifecycle_step\<^sup>*\<^sup>* Draft Failed"
proof -
  have a: "lifecycle_step Draft Sending" and b: "lifecycle_step Sending Sent"
    and c: "lifecycle_step Sending Failed"
    by (simp_all add: lifecycle_step_def)
  from a b show "lifecycle_step\<^sup>*\<^sup>* Draft Sent" by (meson r_into_rtranclp rtranclp_trans)
  from a c show "lifecycle_step\<^sup>*\<^sup>* Draft Failed" by (meson r_into_rtranclp rtranclp_trans)
qed

lemma bulk_db:
  "st_db (snd (send_notification_to_multiple_tokens env ts title body data image_url s)) = st_db s"
proof (cases "initialize_firebase env s")
  case (Pair r s1)
  from initialize_firebase_after [OF Pair] have db: "st_db s1 = st_db s" by simp
  show ?thesis
  proof (cases r)
    case (Inl e)
    with Pair db show ?thesis by (simp add: send_notification_to_multiple_tokens_def)
  next
    case (Inr u)
    with Pair db show ?thesis
      by (simp add: send_notification_to_multiple_tokens_def split: sum.splits prod.splits)
  qed
qed

lemma log_responses_db:
  "notifications (snd (log_responses n b idx rs cnt d)) = notifications d
   \<and> device_tokens (snd (log_responses n b idx rs cnt d)) = device_tokens d"
proof (induction rs arbitrary: idx cnt d)
  case Nil
  then show ?case by simp
next
  case (Cons r rs)
  obtain sc fc where cnt: "cnt = (sc, fc)" by (cases cnt)
  show ?case unfolding cnt using Cons.IH by (simp add: Let_def)
qed

lemma send_batch_db:
  "notifications (st_db (snd (send_batch env n data tt i cnt s))) = notifications (st_db s)"
proof -
  let ?b = "send_notification_to_multiple_tokens env (map dt_token (take batch_size (drop i tt)))
              (pn_title n) (pn_body n) (Some data) (pn_image_url n) s"
  obtain r s1 where b: "?b = (r, s1)" by (cases ?b)
  from bulk_db [of env "map dt_token (take batch_size (drop i tt))" "pn_title n" "pn_body n"
      "Some data" "pn_image_url n" s] b
  have db: "st_db s1 = st_db s" by simp
  show ?thesis
  proof (cases r)
    case (Inl e)
    with b db show ?thesis by (simp add: send_batch_def Let_def)
  next
    case (Inr resp)
    with b db log_responses_db [of n "take batch_size (drop i tt)" 0 "br_responses resp" cnt "st_db s"]
    show ?thesis by (simp add: send_batch_def Let_def split_beta)
  qed
qed

lemma for_batches_db:
  "notifications (st_db (snd (for_batches env n data tt js cnt s))) = notifications (st_db s)"
proof (induction js arbitrary: cnt s)
  case Nil
  then show ?case by simp
next
  case (Cons j js)
  obtain r s1 where sb: "send_batch env n data tt j cnt s = (r, s1)"
    by (cases "send_batch env n data tt j cnt s")
  from send_batch_db [of env n data tt j cnt s] sb
  have db: "notifications (st_db s1) = notifications (st_db s)" by simp
  show ?case
  proof (cases r)
    case (Inl e)
    with sb db show ?thesis by simp
  next
    case (Inr cnt')
    with sb db Cons.IH [of cnt' s1] show ?thesis by simp
  qed
qed

text \<open>Whatever happens, a pass over a non-empty audience rewrites only the request's own row.\<close>

lemma send_to_targets_row:
  "\<exists>n'. notifications (st_db (snd (send_to_targets env n tt s)))
           = (notifications (st_db s))(pn_id n \<mapsto> n')
        \<and> pn_id n' = pn_id n
        \<and> (case fst (send_to_targets env n tt s) of
              Inl e \<Rightarrow> pn_status n' = pn_status n
            | Inr c \<Rightarrow> pn_status n' = Sent \<or> pn_status n' = Failed)"
proof -
  let ?n1 = "n\<lparr>pn_total_recipients := int (length tt)\<rparr>"
  let ?s1 = "save_notification ?n1 s"
  let ?data = "if pn_data ?n1 \<noteq> [] then pn_data ?n1 else []"
  let ?fb = "for_batches env ?n1 ?data tt (py_range 0 (length tt) batch_size) (0, 0) ?s1"
  obtain r s2 where fb: "?fb = (r, s2)" by (cases ?fb)
  from for_batches_db [of env ?n1 ?data tt "py_range 0 (length tt) batch_size" "(0, 0)" ?s1] fb
  have db: "notifications (st_db s2) = (notifications (st_db s))(pn_id n \<mapsto> ?n1)" by simp
  show ?thesis
  proof (cases r)
    case (Inl e)
    with fb have "send_to_targets env n tt s = (Inl e, s2)"
      by (simp add: send_to_targets_def Let_def)
    with db show ?thesis by (intro exI [of _ ?n1]) simp
  next
    case (Inr c)
    obtain sc fc where c: "c = (sc, fc)" by (cases c)
    let ?n2 = "?n1\<lparr>pn_successful_sends := sc, pn_failed_sends := fc,
                    pn_sent_at := Some (timezone_now env (st_world s2)),
                    pn_status := (if sc > 0 then Sent else Failed)\<rparr>"
    from fb Inr c have "send_to_targets env n tt s = (Inr (sc, fc), save_notification ?n2 s2)"
      by (simp add: send_to_targets_def Let_def)
    with db show ?thesis by (intro exI [of _ ?n2]) simp
  qed
qed

lemma send_single_notification_row:
  "\<exists>n'. notifications (st_db (snd (send_single_notification env n0 s)))
           = (notifications (st_db s))(pn_id n0 \<mapsto> n')
        \<and> (fst (send_single_notification env n0 s) = Inr () \<longrightarrow>
              pn_status n' = Sent \<or> pn_status n' = Failed)"
proof -
  let ?n1 = "n0\<lparr>pn_status := Sending\<rparr>"
  let ?s1 = "save_notification ?n1 s"
  let ?tt = "admin_get_target_tokens (st_db ?s1) ?n1"
  show ?thesis
  proof (cases "?tt = []")
    case True
    then show ?thesis
      by (intro exI [of _ "?n1\<lparr>pn_status := Failed\<rparr>"])
         (simp add: send_single_notification_def Let_def)
  next
    case False
    from send_to_targets_row [of env ?n1 ?tt ?s1]
    obtain n' where
      nt: "notifications (st_db (snd (send_to_targets env ?n1 ?tt ?s1)))
             = (notifications (st_db ?s1))(pn_id ?n1 \<mapsto> n')"
      and st: "case fst (send_to_targets env ?n1 ?tt ?s1) of
                 Inl e \<Rightarrow> pn_status n' = pn_status ?n1
               | Inr c \<Rightarrow> pn_status n' = Sent \<or> pn_status n' = Failed"
      by blast
    obtain r s2 where run: "send_to_targets env ?n1 ?tt ?s1 = (r, s2)"
      by (cases "send_to_targets env ?n1 ?tt ?s1")
    show ?thesis
    proof (cases r)
      case (Inl e)
      with run False nt show ?thesis
        by (intro exI [of _ n']) (simp add: send_single_notification_def Let_def)
    next
      case (Inr c)
      with run False nt st show ?thesis
        by (intro exI [of _ n']) (simp add: send_single_notification_def Let_def split_beta)
    qed
  qed
qed

lemma atomic_send_single_notification:
  "st_db (snd (atomic (send_single_notification env n0) s)) = st_db s
   \<or> (\<exists>n'. notifications (st_db (snd (atomic (send_single_notification env n0) s)))
              = (notifications (st_db s))(pn_id n0 \<mapsto> n')
           \<and> (pn_status n' = Sent \<or> pn_status n' = Failed))"
proof (cases "send_single_notification env n0 s")
  case (Pair r s')
  show ?thesis
  proof (cases r)
    case (Inl e)
    with Pair show ?thesis by (simp add: atomic_def)
  next
    case (Inr u)
    with Pair send_single_notification_row [of env n0 s] show ?thesis
      by (simp add: atomic_def)
  qed
qed

lemma send_notification_async_never_raises: "fst (send_notification_async env i s) = Inr ()"
  by (simp add: send_notification_async_def Let_def split: prod.splits sum.splits option.splits)

lemma send_notification_async_missing:
  "notifications (st_db s) i = None \<Longrightarrow>
     notifications (st_db (snd (send_notification_async env i s))) = notifications (st_db s)"
  by (simp add: send_notification_async_def send_notification_async_try_def Let_def)

lemma send_notification_async_row:
  assumes row: "notifications (st_db s) i = Some n0" and pk: "pn_id n0 = i"
  shows "\<exists>n'. notifications (st_db (snd (send_notification_async env i s)))
                 = (notifications (st_db s))(i \<mapsto> n')
             \<and> (pn_status n' = Sent \<or> pn_status n' = Failed)"
proof -
  let ?n1 = "n0\<lparr>pn_status := Sending\<rparr>"
  let ?s1 = "save_notification ?n1 s"
  let ?tt = "get_target_tokens (st_db ?s1) ?n1"
  show ?thesis
  proof (cases "?tt = []")
    case True
    with row pk show ?thesis
      by (intro exI [of _ "?n1\<lparr>pn_status := Failed\<rparr>"])
         (simp add: send_notification_async_def send_notification_async_try_def Let_def)
  next
    case False
    from send_to_targets_row [of env ?n1 ?tt ?s1]
    obtain n' where
      nt: "notifications (st_db (snd (send_to_targets env ?n1 ?tt ?s1)))
             = (notifications (st_db ?s1))(pn_id ?n1 \<mapsto> n')"
      and id: "pn_id n' = pn_id ?n1"
      and st: "case fst (send_to_targets env ?n1 ?tt ?s1) of
                 Inl e \<Rightarrow> pn_status n' = pn_status ?n1
               | Inr c \<Rightarrow> pn_status n' = Sent \<or> pn_status n' = Failed"
      by blast
    obtain r s2 where run: "send_to_targets env ?n1 ?tt ?s1 = (r, s2)"
      by (cases "send_to_targets env ?n1 ?tt ?s1")
    from nt run pk have nt2: "notifications (st_db s2) = (notifications (st_db s))(i \<mapsto> n')"
      by simp
    show ?thesis
    proof (cases r)
      case (Inl e)
      from row False run Inl have tr: "send_notification_async_try env i s = (Inl e, s2)"
        by (simp add: send_notification_async_try_def Let_def)
      from tr nt2 id pk show ?thesis
        by (intro exI [of _ "n'\<lparr>pn_status := Failed\<rparr>"])
           (simp add: send_notification_async_def Let_def)
    next
      case (Inr c)
      obtain sc fc where c: "c = (sc, fc)" by (cases c)
      from row False run Inr c have tr: "send_notification_async_try env i s
          = (Inr (), log INFO (''Notification '' @ quoted (pn_title ?n1) @ '' sent automatically! Success: ''
                @ str_int sc @ '', Failed: '' @ str_int fc) s2)"
        by (simp add: send_notification_async_try_def Let_def)
      from tr nt2 st run Inr show ?thesis
        by (intro exI [of _ n']) (simp add: send_notification_async_def)
    qed
  qed
qed

lemma advanced_refl: "advanced d d"
  by (simp add: advanced_def)

lemma send_each_notification_advanced:
  assumes "\<forall>n \<in> set ns. notifications d0 (pn_id n) = Some n \<and> pn_status n = Draft"
    and "advanced d0 (st_db s)"
  shows "advanced d0 (st_db (snd (send_each_notification env ns cnt s)))"
  using assms
proof (induction ns arbitrary: cnt s)
  case Nil
  then show ?case by simp
next
  case (Cons n ns)
  obtain sent_count error_count where cnt: "cnt = (sent_count, error_count)" by (cases cnt)
  obtain r s1 where run: "atomic (send_single_notification env n) s = (r, s1)"
    by (cases "atomic (send_single_notification env n) s")
  from Cons.prems(1) have n: "notifications d0 (pn_id n) = Some n" "pn_status n = Draft"
    and rest: "\<forall>m \<in> set ns. notifications d0 (pn_id m) = Some m \<and> pn_status m = Draft"
    by simp_all
  have adv: "advanced d0 (st_db s1)"
  proof -
    from atomic_send_single_notification [of env n s] run
    consider (reverted) "st_db s1 = st_db s"
      | (saved) n' where "notifications (st_db s1) = (notifications (st_db s))(pn_id n \<mapsto> n')"
          "pn_status n' = Sent \<or> pn_status n' = Failed"
      by auto
    then show ?thesis
    proof cases
      case reverted
      with Cons.prems(2) show ?thesis by simp
    next
      case saved
      show ?thesis
        unfolding advanced_def
      proof
        fix i
        show "notifications (st_db s1) i = notifications d0 i
              \<or> (\<exists>m m'. notifications d0 i = Some m \<and> pn_status m = Draft
                    \<and> notifications (st_db s1) i = Some m'
                    \<and> (pn_status m' = Sent \<or> pn_status m' = Failed))"
        proof (cases "i = pn_id n")
          case True
          with n saved show ?thesis by simp
        next
          case False
          with saved(1) have "notifications (st_db s1) i = notifications (st_db s) i" by simp
          with Cons.prems(2) show ?thesis by (simp add: advanced_def)
        qed
      qed
    qed
  qed
  show ?case
  proof (cases r)
    case (Inl e)
    let ?s2 = "s1\<lparr>st_messages := st_messages s1 @
                 [(ERROR, ''Failed to send notification '' @ quoted (pn_title n) @ '': '' @ str_exn e)]\<rparr>"
    from adv have "advanced d0 (st_db ?s2)" by simp
    from Cons.IH [OF rest this, of "(sent_count, error_count + 1)"] run Inl cnt
    show ?thesis by simp
  next
    case (Inr u)
    from Cons.IH [OF rest adv, of "(sent_count + 1, error_count)"] run Inr cnt
    show ?thesis by simp
  qed
qed

lemma send_notifications_db:
  "st_db (send_notifications env queryset s)
     = st_db (snd (send_each_notification env
         (filter (\<lambda>n. pn_status n = Draft) (List.map_filter (notifications (st_db s)) queryset))
         (0, 0) s))"
  by (simp add: send_notifications_def Let_def split_beta)

lemma send_notifications_advanced:
  assumes pk: "pk_consistent (st_db s)"
  shows "advanced (st_db s) (st_db (send_notifications env queryset s))"
proof -
  let ?drafts = "filter (\<lambda>n. pn_status n = Draft) (List.map_filter (notifications (st_db s)) queryset)"
  have "\<forall>n \<in> set ?drafts. notifications (st_db s) (pn_id n) = Some n \<and> pn_status n = Draft"
  proof
    fix n assume "n \<in> set ?drafts"
    then obtain j where "notifications (st_db s) j = Some n" and d: "pn_status n = Draft"
      by (auto simp: List.map_filter_def)
    moreover from this pk have "pn_id n = j" by (simp add: pk_consistent_def)
    ultimately show "notifications (st_db s) (pn_id n) = Some n \<and> pn_status n = Draft" by simp
  qed
  from send_each_notification_advanced [OF this advanced_refl, of env "(0, 0)"]
  show ?thesis by (simp add: send_notifications_db)
qed

lemma send_notifications_skips:
  assumes "\<forall>i \<in> set queryset. \<forall>n. notifications (st_db s) i = Some n \<longrightarrow> pn_status n \<noteq> Draft"
  shows "send_notifications env queryset s = s"
proof -
  have "filter (\<lambda>n. pn_status n = Draft) (List.map_filter (notifications (st_db s)) queryset) = []"
    using assms by (auto simp: filter_empty_conv List.map_filter_def)
  then show ?thesis by (simp add: send_notifications_def)
qed

lemma advanced_row:
  assumes adv: "advanced d d'" and row: "notifications d i = Some n"
  shows "\<exists>n'. notifications d' i = Some n'
           \<and> lifecycle_step\<^sup>*\<^sup>* (pn_status n) (pn_status n')
           \<and> (pn_status n \<noteq> Draft \<longrightarrow> n' = n)
           \<and> (n' = n \<or> pn_status n' = Sent \<or> pn_status n' = Failed)"
proof -
  from adv have "notifications d' i = notifications d i
      \<or> (\<exists>m m'. notifications d i = Some m \<and> pn_status m = Draft
            \<and> notifications d' i = Some m' \<and> (pn_status m' = Sent \<or> pn_status m' = Failed))"
    by (simp add: advanced_def)
  then show ?thesis
  proof
    assume "notifications d' i = notifications d i"
    with row show ?thesis by simp
  next
    assume "\<exists>m m'. notifications d i = Some m \<and> pn_status m = Draft
            \<and> notifications d' i = Some m' \<and> (pn_status m' = Sent \<or> pn_status m' = Failed)"
    then obtain m' where d: "pn_status n = Draft" and r: "notifications d' i = Some m'"
      and t: "pn_status m' = Sent \<or> pn_status m' = Failed"
      using row by auto
    from d t lifecycle_reach have "lifecycle_step\<^sup>*\<^sup>* (pn_status n) (pn_status m')" by auto
    with d r t show ?thesis by simp
  qed
qed

lemma auto_send_notification_advanced:
  assumes row: "notifications (st_db s) (pn_id inst) = Some inst"
  shows "advanced (st_db s) (st_db (snd (auto_send_notification env inst created s)))"
proof (cases "created \<and> pn_status inst = Draft \<and> pn_auto_send inst")
  case True
  from send_notification_async_row [OF row refl, of env]
  obtain n' where
    nt: "notifications (st_db (snd (send_notification_async env (pn_id inst) s)))
           = (notifications (st_db s))(pn_id inst \<mapsto> n')"
    and st: "pn_status n' = Sent \<or> pn_status n' = Failed"
    by blast
  show ?thesis
    unfolding advanced_def
  proof
    fix i
    show "notifications (st_db (snd (auto_send_notification env inst created s))) i
            = notifications (st_db s) i
          \<or> (\<exists>m m'. notifications (st_db s) i = Some m \<and> pn_status m = Draft
                \<and> notifications (st_db (snd (auto_send_notification env inst created s))) i = Some m'
                \<and> (pn_status m' = Sent \<or> pn_status m' = Failed))"
      using True row nt st by (cases "i = pn_id inst") (simp_all add: auto_send_notification_def)
  qed
next
  case False
  then have "auto_send_notification env inst created s = (Inr (), s)"
    by (auto simp: auto_send_notification_def)
  then show ?thesis by (simp add: advanced_refl)
qed

section \<open>The lifecycle, write by write\<close>

lemma log_responses_saves:
  "notification_saves (snd (log_responses n b idx rs cnt d)) = notification_saves d"
proof (induction rs arbitrary: idx cnt d)
  case Nil
  then show ?case by simp
next
  case (Cons r rs)
  obtain sc fc where cnt: "cnt = (sc, fc)" by (cases cnt)
  show ?case unfolding cnt using Cons.IH by (simp add: Let_def)
qed

lemma send_batch_saves:
  "notification_saves (st_db (snd (send_batch env n data tt i cnt s))) = notification_saves (st_db s)"
proof -
  let ?b = "send_notification_to_multiple_tokens env (map dt_token (take batch_size (drop i tt)))
              (pn_title n) (pn_body n) (Some data) (pn_image_url n) s"
  obtain r s1 where b: "?b = (r, s1)" by (cases ?b)
  from bulk_db [of env "map dt_token (take batch_size (drop i tt))" "pn_title n" "pn_body n"
      "Some data" "pn_image_url n" s] b
  have db: "st_db s1 = st_db s" by simp
  show ?thesis
  proof (cases r)
    case (Inl e)
    with b db show ?thesis by (simp add: send_batch_def Let_def)
  next
    case (Inr resp)
    with b db log_responses_saves [of n "take batch_size (drop i tt)" 0 "br_responses resp" cnt "st_db s"]
    show ?thesis by (simp add: send_batch_def Let_def split_beta)
  qed
qed

lemma for_batches_saves:
  "notification_saves (st_db (snd (for_batches env n data tt js cnt s))) = notification_saves (st_db s)"
proof (induction js arbitrary: cnt s)
  case Nil
  then show ?case by simp
next
  case (Cons j js)
  obtain r s1 where sb: "send_batch env n data tt j cnt s = (r, s1)"
    by (cases "send_batch env n data tt j cnt s")
  from send_batch_saves [of env n data tt j cnt s] sb
  have db: "notification_saves (st_db s1) = notification_saves (st_db s)" by simp
  show ?case
  proof (cases r)
    case (Inl e)
    with sb db show ?thesis by simp
  next
    case (Inr cnt')
    with sb db Cons.IH [of cnt' s1] show ?thesis by simp
  qed
qed

text \<open>The saves of a pass over a non-empty audience: the total, then the outcome.\<close>

lemma send_to_targets_trace:
  "\<exists>ws. notification_saves (st_db (snd (send_to_targets env n tt s)))
           = notification_saves (st_db s) @ ws
        \<and> (\<forall>w \<in> set ws. pn_id w = pn_id n)
        \<and> notifications (st_db (snd (send_to_targets env n tt s)))
            = (notifications (st_db s))(pn_id n \<mapsto> last ws)
        \<and> (case fst (send_to_targets env n tt s) of
              Inl e \<Rightarrow> map pn_status ws = [pn_status n]
            | Inr c \<Rightarrow> map pn_status ws = [pn_status n, Sent]
                       \<or> map pn_status ws = [pn_status n, Failed])"
proof -
  let ?n1 = "n\<lparr>pn_total_recipients := int (length tt)\<rparr>"
  let ?s1 = "save_notification ?n1 s"
  let ?data = "if pn_data ?n1 \<noteq> [] then pn_data ?n1 else []"
  let ?fb = "for_batches env ?n1 ?data tt (py_range 0 (length tt) batch_size) (0, 0) ?s1"
  obtain r s2 where fb: "?fb = (r, s2)" by (cases ?fb)
  from for_batches_db [of env ?n1 ?data tt "py_range 0 (length tt) batch_size" "(0, 0)" ?s1] fb
  have db: "notifications (st_db s2) = (notifications (st_db s))(pn_id n \<mapsto> ?n1)" by simp
  from for_batches_saves [of env ?n1 ?data tt "py_range 0 (length tt) batch_size" "(0, 0)" ?s1] fb
  have sv: "notification_saves (st_db s2) = notification_saves (st_db s) @ [?n1]" by simp
  show ?thesis
  proof (cases r)
    case (Inl e)
    with fb have "send_to_targets env n tt s = (Inl e, s2)"
      by (simp add: send_to_targets_def Let_def)
    with db sv show ?thesis by (intro exI [of _ "[?n1]"]) simp
  next
    case (Inr c)
    obtain sc fc where c: "c = (sc, fc)" by (cases c)
    let ?n2 = "?n1\<lparr>pn_successful_sends := sc, pn_failed_sends := fc,
                    pn_sent_at := Some (timezone_now env (st_world s2)),
                    pn_status := (if sc > 0 then Sent else Failed)\<rparr>"
    from fb Inr c have "send_to_targets env n tt s = (Inr (sc, fc), save_notification ?n2 s2)"
      by (simp add: send_to_targets_def Let_def)
    with db sv show ?thesis by (intro exI [of _ "[?n1, ?n2]"]) simp
  qed
qed

lemma send_single_notification_trace:
  "\<exists>ws. notification_saves (st_db (snd (send_single_notification env n0 s)))
           = notification_saves (st_db s) @ ws
        \<and> (\<forall>w \<in> set ws. pn_id w = pn_id n0)
        \<and> notifications (st_db (snd (send_single_notification env n0 s)))
            = (notifications (st_db s))(pn_id n0 \<mapsto> last ws)
        \<and> (case fst (send_single_notification env n0 s) of
              Inl e \<Rightarrow> map pn_status ws = [Sending, Failed] \<or> map pn_status ws = [Sending, Sending]
            | Inr u \<Rightarrow> map pn_status ws = [Sending, Sending, Sent]
                       \<or> map pn_status ws = [Sending, Sending, Failed])"
proof -
  let ?n1 = "n0\<lparr>pn_status := Sending\<rparr>"
  let ?s1 = "save_notification ?n1 s"
  let ?tt = "admin_get_target_tokens (st_db ?s1) ?n1"
  show ?thesis
  proof (cases "?tt = []")
    case True
    then show ?thesis
      by (intro exI [of _ "[?n1, ?n1\<lparr>pn_status := Failed\<rparr>]"])
         (simp add: send_single_notification_def Let_def)
  next
    case False
    from send_to_targets_trace [of env ?n1 ?tt ?s1]
    obtain ws where
      sv: "notification_saves (st_db (snd (send_to_targets env ?n1 ?tt ?s1)))
             = notification_saves (st_db ?s1) @ ws"
      and ids: "\<forall>w \<in> set ws. pn_id w = pn_id ?n1"
      and nt: "notifications (st_db (snd (send_to_targets env ?n1 ?tt ?s1)))
             = (notifications (st_db ?s1))(pn_id ?n1 \<mapsto> last ws)"
      and st: "case fst (send_to_targets env ?n1 ?tt ?s1) of
                 Inl e \<Rightarrow> map pn_status ws = [pn_status ?n1]
               | Inr c \<Rightarrow> map pn_status ws = [pn_status ?n1, Sent]
                          \<or> map pn_status ws = [pn_status ?n1, Failed]"
      by blast
    obtain r s2 where run: "send_to_targets env ?n1 ?tt ?s1 = (r, s2)"
      by (cases "send_to_targets env ?n1 ?tt ?s1")
    from st run have ne: "ws \<noteq> []" by (auto split: sum.splits)
    show ?thesis
    proof (cases r)
      case (Inl e)
      with run False sv ids nt st ne show ?thesis
        by (intro exI [of _ "?n1 # ws"]) (simp add: send_single_notification_def Let_def)
    next
      case (Inr c)
      with run False sv ids nt st ne show ?thesis
        by (intro exI [of _ "?n1 # ws"]) (simp add: send_single_notification_def Let_def split_beta)
    qed
  qed
qed

lemma send_notification_async_trace:
  assumes row: "notifications (st_db s) i = Some n0" and pk: "pn_id n0 = i"
  shows "\<exists>ws. notification_saves (st_db (snd (send_notification_async env i s)))
                 = notification_saves (st_db s) @ ws
             \<and> (\<forall>w \<in> set ws. pn_id w = i)
             \<and> notifications (st_db (snd (send_notification_async env i s)))
                 = (notifications (st_db s))(i \<mapsto> last ws)
             \<and> (map pn_status ws = [Sending, Failed]
                \<or> map pn_status ws = [Sending, Sending, Sent]
                \<or> map pn_status ws = [Sending, Sending, Failed])"
proof -
  let ?n1 = "n0\<lparr>pn_status := Sending\<rparr>"
  let ?s1 = "save_notification ?n1 s"
  let ?tt = "get_target_tokens (st_db ?s1) ?n1"
  show ?thesis
  proof (cases "?tt = []")
    case True
    with row pk show ?thesis
      by (intro exI [of _ "[?n1, ?n1\<lparr>pn_status := Failed\<rparr>]"])
         (simp add: send_notification_async_def send_notification_async_try_def Let_def)
  next
    case False
    from send_to_targets_trace [of env ?n1 ?tt ?s1]
    obtain ws where
      sv: "notification_saves (st_db (snd (send_to_targets env ?n1 ?tt ?s1)))
             = notification_saves (st_db ?s1) @ ws"
      and ids: "\<forall>w \<in> set ws. pn_id w = pn_id ?n1"
      and nt: "notifications (st_db (snd (send_to_targets env ?n1 ?tt ?s1)))
             = (notifications (st_db ?s1))(pn_id ?n1 \<mapsto> last ws)"
      and st: "case fst (send_to_targets env ?n1 ?tt ?s1) of
                 Inl e \<Rightarrow> map pn_status ws = [pn_status ?n1]
               | Inr c \<Rightarrow> map pn_status ws = [pn_status ?n1, Sent]
                          \<or> map pn_status ws = [pn_status ?n1, Failed]"
      by blast
    obtain r s2 where run: "send_to_targets env ?n1 ?tt ?s1 = (r, s2)"
      by (cases "send_to_targets env ?n1 ?tt ?s1")
    from st run have ne: "ws \<noteq> []" by (auto split: sum.splits)
    from nt run pk have nt2: "notifications (st_db s2) = (notifications (st_db s))(i \<mapsto> last ws)"
      by simp
    from sv run have sv2: "notification_saves (st_db s2) = notification_saves (st_db s) @ ?n1 # ws"
      by simp
    from ids ne pk have lid: "pn_id (last ws) = i" by simp
    show ?thesis
    proof (cases r)
      case (Inl e)
      from row False run Inl have tr: "send_notification_async_try env i s = (Inl e, s2)"
        by (simp add: send_notification_async_try_def Let_def)
      from st run Inl have sts: "map pn_status ws = [Sending]" by simp
      from tr nt2 sv2 ids pk lid sts show ?thesis
        by (intro exI [of _ "?n1 # ws @ [(last ws)\<lparr>pn_status := Failed\<rparr>]"])
           (simp add: send_notification_async_def Let_def)
    next
      case (Inr c)
      obtain sc fc where c: "c = (sc, fc)" by (cases c)
      from row False run Inr c have tr: "send_notification_async_try env i s
          = (Inr (), log INFO (''Notification '' @ quoted (pn_title ?n1) @ '' sent automatically! Success: ''
                @ str_int sc @ '', Failed: '' @ str_int fc) s2)"
        by (simp add: send_notification_async_try_def Let_def)
      from tr nt2 sv2 st run Inr ids pk ne show ?thesis
        by (intro exI [of _ "?n1 # ws"]) (simp add: send_notification_async_def)
    qed
  qed
qed


lemma request_writes_simps [simp]:
  "request_writes i [] = []"
  "request_writes i (xs @ ys) = request_writes i xs @ request_writes i ys"
  by (simp_all add: request_writes_def)

lemma request_writes_own: "\<forall>w \<in> set ws. pn_id w = i \<Longrightarrow> request_writes i ws = ws"
  by (simp add: request_writes_def)

lemma request_writes_other: "\<forall>w \<in> set ws. pn_id w = j \<Longrightarrow> i \<noteq> j \<Longrightarrow> request_writes i ws = []"
  by (auto simp: request_writes_def filter_empty_conv)

lemma send_each_notification_trace:
  assumes "distinct (map pn_id ns)"
  shows "\<exists>ws. notification_saves (st_db (snd (send_each_notification env ns cnt s)))
                 = notification_saves (st_db s) @ ws
           \<and> (\<forall>i. (request_writes i ws = []
                    \<and> notifications (st_db (snd (send_each_notification env ns cnt s))) i
                        = notifications (st_db s) i)
                 \<or> (i \<in> pn_id ` set ns
                    \<and> (map pn_status (request_writes i ws) = [Sending, Sending, Sent]
                       \<or> map pn_status (request_writes i ws) = [Sending, Sending, Failed])
                    \<and> notifications (st_db (snd (send_each_notification env ns cnt s))) i
                        = Some (last (request_writes i ws))))"
  using assms
proof (induction ns arbitrary: cnt s)
  case Nil
  show ?case by (intro exI [of _ "[]"]) simp
next
  case (Cons n ns)
  obtain sent_count error_count where cnt: "cnt = (sent_count, error_count)" by (cases cnt)
  obtain r s1 where run: "send_single_notification env n s = (r, s1)"
    by (cases "send_single_notification env n s")
  from Cons.prems have d: "distinct (map pn_id ns)" and nin: "pn_id n \<notin> pn_id ` set ns"
    by simp_all
  show ?case
  proof (cases r)
    case (Inl e)
    let ?s2 = "s1\<lparr>st_db := st_db s,
                  st_messages := st_messages s1 @
                    [(ERROR, ''Failed to send notification '' @ quoted (pn_title n) @ '': '' @ str_exn e)]\<rparr>"
    from run Inl cnt have step: "send_each_notification env (n # ns) cnt s
        = send_each_notification env ns (sent_count, error_count + 1) ?s2"
      by (simp add: atomic_def)
    have db: "st_db ?s2 = st_db s" by simp
    from Cons.IH [OF d, of "(sent_count, error_count + 1)" ?s2]
    obtain ws where
      sv: "notification_saves (st_db (snd (send_each_notification env ns (sent_count, error_count + 1) ?s2)))
             = notification_saves (st_db ?s2) @ ws"
      and P: "\<forall>i. (request_writes i ws = []
                    \<and> notifications (st_db (snd (send_each_notification env ns (sent_count, error_count + 1) ?s2))) i
                        = notifications (st_db ?s2) i)
                 \<or> (i \<in> pn_id ` set ns
                    \<and> (map pn_status (request_writes i ws) = [Sending, Sending, Sent]
                       \<or> map pn_status (request_writes i ws) = [Sending, Sending, Failed])
                    \<and> notifications (st_db (snd (send_each_notification env ns (sent_count, error_count + 1) ?s2))) i
                        = Some (last (request_writes i ws)))"
      by blast
    show ?thesis
      unfolding step
    proof (intro exI [of _ ws] conjI allI)
      show "notification_saves (st_db (snd (send_each_notification env ns (sent_count, error_count + 1) ?s2)))
              = notification_saves (st_db s) @ ws"
        using sv by simp
    next
      fix i
      from P have "(request_writes i ws = []
                    \<and> notifications (st_db (snd (send_each_notification env ns (sent_count, error_count + 1) ?s2))) i
                        = notifications (st_db ?s2) i)
                 \<or> (i \<in> pn_id ` set ns
                    \<and> (map pn_status (request_writes i ws) = [Sending, Sending, Sent]
                       \<or> map pn_status (request_writes i ws) = [Sending, Sending, Failed])
                    \<and> notifications (st_db (snd (send_each_notification env ns (sent_count, error_count + 1) ?s2))) i
                        = Some (last (request_writes i ws)))" ..
      then show "(request_writes i ws = []
                    \<and> notifications (st_db (snd (send_each_notification env ns (sent_count, error_count + 1) ?s2))) i
                        = notifications (st_db s) i)
                 \<or> (i \<in> pn_id ` set (n # ns)
                    \<and> (map pn_status (request_writes i ws) = [Sending, Sending, Sent]
                       \<or> map pn_status (request_writes i ws) = [Sending, Sending, Failed])
                    \<and> notifications (st_db (snd (send_each_notification env ns (sent_count, error_count + 1) ?s2))) i
                        = Some (last (request_writes i ws)))"
        by auto
    qed
  next
    case (Inr u)
    from run Inr cnt have step: "send_each_notification env (n # ns) cnt s
        = send_each_notification env ns (sent_count + 1, error_count) s1"
      by (simp add: atomic_def)
    from send_single_notification_trace [of env n s] run Inr
    obtain ws1 where
      sv1: "notification_saves (st_db s1) = notification_saves (st_db s) @ ws1"
      and ids1: "\<forall>w \<in> set ws1. pn_id w = pn_id n"
      and nt1: "notifications (st_db s1) = (notifications (st_db s))(pn_id n \<mapsto> last ws1)"
      and st1: "map pn_status ws1 = [Sending, Sending, Sent]
                \<or> map pn_status ws1 = [Sending, Sending, Failed]"
      by auto
    let ?fin = "snd (send_each_notification env ns (sent_count + 1, error_count) s1)"
    from Cons.IH [OF d, of "(sent_count + 1, error_count)" s1]
    obtain ws2 where
      sv2: "notification_saves (st_db ?fin) = notification_saves (st_db s1) @ ws2"
      and P: "\<forall>i. (request_writes i ws2 = []
                    \<and> notifications (st_db ?fin) i = notifications (st_db s1) i)
                 \<or> (i \<in> pn_id ` set ns
                    \<and> (map pn_status (request_writes i ws2) = [Sending, Sending, Sent]
                       \<or> map pn_status (request_writes i ws2) = [Sending, Sending, Failed])
                    \<and> notifications (st_db ?fin) i = Some (last (request_writes i ws2)))"
      by blast
    show ?thesis
      unfolding step
    proof (intro exI [of _ "ws1 @ ws2"] conjI allI)
      show "notification_saves (st_db ?fin) = notification_saves (st_db s) @ ws1 @ ws2"
        using sv1 sv2 by simp
    next
      fix i
      from P have Pi: "(request_writes i ws2 = []
                    \<and> notifications (st_db ?fin) i = notifications (st_db s1) i)
                 \<or> (i \<in> pn_id ` set ns
                    \<and> (map pn_status (request_writes i ws2) = [Sending, Sending, Sent]
                       \<or> map pn_status (request_writes i ws2) = [Sending, Sending, Failed])
                    \<and> notifications (st_db ?fin) i = Some (last (request_writes i ws2)))" ..
      show "(request_writes i (ws1 @ ws2) = []
                    \<and> notifications (st_db ?fin) i = notifications (st_db s) i)
                 \<or> (i \<in> pn_id ` set (n # ns)
                    \<and> (map pn_status (request_writes i (ws1 @ ws2)) = [Sending, Sending, Sent]
                       \<or> map pn_status (request_writes i (ws1 @ ws2)) = [Sending, Sending, Failed])
                    \<and> notifications (st_db ?fin) i = Some (last (request_writes i (ws1 @ ws2))))"
      proof (cases "i = pn_id n")
        case True
        with nin Pi have e2: "request_writes i ws2 = []"
          and same: "notifications (st_db ?fin) i = notifications (st_db s1) i" by auto
        from ids1 True have own: "request_writes i ws1 = ws1" by (simp add: request_writes_own)
        from same nt1 True have "notifications (st_db ?fin) i = Some (last ws1)" by simp
        with e2 own st1 True show ?thesis by simp
      next
        case False
        from ids1 False have none: "request_writes i ws1 = []" by (rule request_writes_other)
        from nt1 False have "notifications (st_db s1) i = notifications (st_db s) i" by simp
        with Pi none show ?thesis by auto
      qed
    qed
  qed
qed

lemma map_filter_ids:
  "pk_consistent d \<Longrightarrow>
     map pn_id (List.map_filter (notifications d) qs) = filter (\<lambda>j. notifications d j \<noteq> None) qs"
  by (induction qs) (auto simp: List.map_filter_def pk_consistent_def)

lemma send_notifications_trace:
  assumes pk: "pk_consistent (st_db s)" and dq: "distinct queryset"
  shows "\<exists>ws. notification_saves (st_db (send_notifications env queryset s))
                 = notification_saves (st_db s) @ ws
           \<and> (\<forall>i. (request_writes i ws = []
                    \<and> notifications (st_db (send_notifications env queryset s)) i
                        = notifications (st_db s) i)
                 \<or> (i \<in> set queryset
                    \<and> (\<exists>n. notifications (st_db s) i = Some n \<and> pn_status n = Draft)
                    \<and> (map pn_status (request_writes i ws) = [Sending, Sending, Sent]
                       \<or> map pn_status (request_writes i ws) = [Sending, Sending, Failed])
                    \<and> notifications (st_db (send_notifications env queryset s)) i
                        = Some (last (request_writes i ws))))"
proof -
  let ?all = "List.map_filter (notifications (st_db s)) queryset"
  let ?drafts = "filter (\<lambda>n. pn_status n = Draft) ?all"
  from dq have "distinct (map pn_id ?all)" by (simp add: map_filter_ids [OF pk])
  then have dd: "distinct (map pn_id ?drafts)" by (rule distinct_map_filter)
  have mem: "\<And>i. i \<in> pn_id ` set ?drafts \<Longrightarrow>
               i \<in> set queryset \<and> (\<exists>n. notifications (st_db s) i = Some n \<and> pn_status n = Draft)"
  proof -
    fix i assume "i \<in> pn_id ` set ?drafts"
    then obtain n where n: "n \<in> set ?drafts" and i: "i = pn_id n" by auto
    then obtain j where j: "j \<in> set queryset" and row: "notifications (st_db s) j = Some n"
      and dr: "pn_status n = Draft"
      by (auto simp: List.map_filter_def)
    from row pk have "pn_id n = j" by (simp add: pk_consistent_def)
    with i j row dr show "i \<in> set queryset \<and> (\<exists>n. notifications (st_db s) i = Some n \<and> pn_status n = Draft)"
      by auto
  qed
  let ?fin = "snd (send_each_notification env ?drafts (0, 0) s)"
  from send_each_notification_trace [OF dd, of env "(0, 0)" s]
  obtain ws where
    sv: "notification_saves (st_db ?fin) = notification_saves (st_db s) @ ws"
    and P: "\<forall>i. (request_writes i ws = [] \<and> notifications (st_db ?fin) i = notifications (st_db s) i)
                 \<or> (i \<in> pn_id ` set ?drafts
                    \<and> (map pn_status (request_writes i ws) = [Sending, Sending, Sent]
                       \<or> map pn_status (request_writes i ws) = [Sending, Sending, Failed])
                    \<and> notifications (st_db ?fin) i = Some (last (request_writes i ws)))"
    by blast
  have db: "st_db (send_notifications env queryset s) = st_db ?fin"
    by (rule send_notifications_db)
  show ?thesis
    unfolding db
  proof (intro exI [of _ ws] conjI allI)
    show "notification_saves (st_db ?fin) = notification_saves (st_db s) @ ws" by (rule sv)
  next
    fix i
    from P have "(request_writes i ws = [] \<and> notifications (st_db ?fin) i = notifications (st_db s) i)
                 \<or> (i \<in> pn_id ` set ?drafts
                    \<and> (map pn_status (request_writes i ws) = [Sending, Sending, Sent]
                       \<or> map pn_status (request_writes i ws) = [Sending, Sending, Failed])
                    \<and> notifications (st_db ?fin) i = Some (last (request_writes i ws)))" ..
    with mem [of i]
    show "(request_writes i ws = [] \<and> notifications (st_db ?fin) i = notifications (st_db s) i)
                 \<or> (i \<in> set queryset
                    \<and> (\<exists>n. notifications (st_db s) i = Some n \<and> pn_status n = Draft)
                    \<and> (map pn_status (request_writes i ws) = [Sending, Sending, Sent]
                       \<or> map pn_status (request_writes i ws) = [Sending, Sending, Failed])
                    \<and> notifications (st_db ?fin) i = Some (last (request_writes i ws)))"
      by blast
  qed
qed

lemma auto_send_notification_trace:
  assumes row: "notifications (st_db s) (pn_id inst) = Some inst"
  shows "\<exists>ws. notification_saves (st_db (snd (auto_send_notification env inst created s)))
                 = notification_saves (st_db s) @ ws
           \<and> (\<forall>w \<in> set ws. pn_id w = pn_id inst)
           \<and> ((ws = [] \<and> snd (auto_send_notification env inst created s) = s)
              \<or> (created \<and> pn_status inst = Draft \<and> pn_auto_send inst
                 \<and> (map pn_status ws = [Sending, Failed]
                    \<or> map pn_status ws = [Sending, Sending, Sent]
                    \<or> map pn_status ws = [Sending, Sending, Failed])
                 \<and> notifications (st_db (snd (auto_send_notification env inst created s)))
                     = (notifications (st_db s))(pn_id inst \<mapsto> last ws)))"
proof (cases "created \<and> pn_status inst = Draft \<and> pn_auto_send inst")
  case True
  then have eq: "auto_send_notification env inst created s = send_notification_async env (pn_id inst) s"
    by (simp add: auto_send_notification_def)
  from send_notification_async_trace [OF row refl, of env]
  obtain ws where
    "notification_saves (st_db (snd (send_notification_async env (pn_id inst) s)))
       = notification_saves (st_db s) @ ws"
    and "\<forall>w \<in> set ws. pn_id w = pn_id inst"
    and "notifications (st_db (snd (send_notification_async env (pn_id inst) s)))
           = (notifications (st_db s))(pn_id inst \<mapsto> last ws)"
    and "map pn_status ws = [Sending, Failed]
         \<or> map pn_status ws = [Sending, Sending, Sent]
         \<or> map pn_status ws = [Sending, Sending, Failed]"
    by (elim exE conjE)
  with True show ?thesis
    unfolding eq by (intro exI [of _ ws]) simp
next
  case False
  then have "auto_send_notification env inst created s = (Inr (), s)"
    by (auto simp: auto_send_notification_def)
  then show ?thesis by (intro exI [of _ "[]"]) simp
qed

lemma lifecycle_chain_traces [simp]:
  "lifecycle_chain Draft [Sending, Failed]"
  "lifecycle_chain Draft [Sending, Sending]"
  "lifecycle_chain Draft [Sending, Sending, Sent]"
  "lifecycle_chain Draft [Sending, Sending, Failed]"
  by (simp_all add: lifecycle_step_def)


lemma atomic_rolls_back:
  "fst (f s) = Inl e \<Longrightarrow> st_db (snd (atomic f s)) = st_db s"
  by (cases "f s") (simp add: atomic_def)

text \<open>
  C4. The lifecycle is monotonic, write by write. Every \<open>save()\<close> of a request is recorded,
  so the statuses a request is stored with can be followed one after the other.

  Inside a dispatch of a draft, the automatic dispatcher stores the request as
  \<open>sending\<close>, then (when the audience is not empty) as \<open>sending\<close> again with the total,
  then as \<open>sent\<close> or \<open>failed\<close>, and nothing else; the manual dispatcher does the same,
  except that when the gateway's initialization raises it stops after the second
  \<open>sending\<close>, and whenever it raises its transaction takes the database back to where it
  was. Each of these sequences is a chain of the lifecycle starting from \<open>draft\<close>, and the
  row that is left is the last one written.

  Seen from the two triggers (the admin action, for a selection that names each request
  once over a table whose rows sit under their own primary keys, and the \<open>post_save\<close>
  receiver, for the row just saved): a request that is not a draft is never written and
  keeps its row, so \<open>sent\<close> and \<open>failed\<close> are terminal and only a draft enters
  \<open>sending\<close>; the writes of each request form a chain of the lifecycle from the status it
  had; every request is left exactly as it was or, if it was a draft, in \<open>sent\<close> or
  \<open>failed\<close>. A selection without drafts leaves the whole state as it is, the receiver
  called for a non-draft does nothing and returns normally, and neither trigger raises.
\<close>

theorem lifecycle_monotonic:
  assumes pk: "pk_consistent (st_db s)"
  shows "(\<forall>i n. notifications (st_db s) i = Some n \<longrightarrow>
            (\<exists>n'. notifications (st_db (send_notifications env queryset s)) i = Some n'
               \<and> lifecycle_step\<^sup>*\<^sup>* (pn_status n) (pn_status n')
               \<and> (pn_status n \<noteq> Draft \<longrightarrow> n' = n)
               \<and> (n' = n \<or> pn_status n' = Sent \<or> pn_status n' = Failed)))
       \<and> ((\<forall>i \<in> set queryset. \<forall>n. notifications (st_db s) i = Some n \<longrightarrow> pn_status n \<noteq> Draft)
            \<longrightarrow> send_notifications env queryset s = s)
       \<and> (notifications (st_db s) (pn_id inst) = Some inst \<longrightarrow>
            fst (auto_send_notification env inst created s) = Inr ()
            \<and> (\<forall>i n. notifications (st_db s) i = Some n \<longrightarrow>
                 (\<exists>n'. notifications (st_db (snd (auto_send_notification env inst created s))) i = Some n'
                    \<and> lifecycle_step\<^sup>*\<^sup>* (pn_status n) (pn_status n')
                    \<and> (pn_status n \<noteq> Draft \<longrightarrow> n' = n)
                    \<and> (n' = n \<or> pn_status n' = Sent \<or> pn_status n' = Failed))))
       \<and> (pn_status inst \<noteq> Draft \<longrightarrow> auto_send_notification env inst created s = (Inr (), s))
       \<and> (distinct queryset \<longrightarrow>
            (\<exists>ws. notification_saves (st_db (send_notifications env queryset s))
                     = notification_saves (st_db s) @ ws
               \<and> (\<forall>i n. notifications (st_db s) i = Some n \<longrightarrow>
                     lifecycle_chain (pn_status n) (map pn_status (request_writes i ws))
                     \<and> (pn_status n \<noteq> Draft \<longrightarrow> request_writes i ws = [])
                     \<and> ((request_writes i ws = []
                          \<and> notifications (st_db (send_notifications env queryset s)) i = Some n)
                        \<or> (i \<in> set queryset
                           \<and> (map pn_status (request_writes i ws) = [Sending, Sending, Sent]
                              \<or> map pn_status (request_writes i ws) = [Sending, Sending, Failed])
                           \<and> notifications (st_db (send_notifications env queryset s)) i
                               = Some (last (request_writes i ws)))))
               \<and> (\<forall>i. notifications (st_db s) i = None \<longrightarrow> request_writes i ws = [])))
       \<and> (notifications (st_db s) (pn_id inst) = Some inst \<longrightarrow>
            (\<exists>ws. notification_saves (st_db (snd (auto_send_notification env inst created s)))
                     = notification_saves (st_db s) @ ws
               \<and> (\<forall>w \<in> set ws. pn_id w = pn_id inst)
               \<and> lifecycle_chain (pn_status inst) (map pn_status ws)
               \<and> ((ws = [] \<and> snd (auto_send_notification env inst created s) = s)
                  \<or> (created \<and> pn_status inst = Draft \<and> pn_auto_send inst
                     \<and> (map pn_status ws = [Sending, Failed]
                        \<or> map pn_status ws = [Sending, Sending, Sent]
                        \<or> map pn_status ws = [Sending, Sending, Failed])
                     \<and> notifications (st_db (snd (auto_send_notification env inst created s)))
                         (pn_id inst) = Some (last ws)))))
       \<and> (notifications (st_db s) j = Some n0 \<longrightarrow>
            (\<exists>ws. notification_saves (st_db (snd (send_notification_async env j s)))
                     = notification_saves (st_db s) @ ws
               \<and> (\<forall>w \<in> set ws. pn_id w = j)
               \<and> (map pn_status ws = [Sending, Failed]
                  \<or> map pn_status ws = [Sending, Sending, Sent]
                  \<or> map pn_status ws = [Sending, Sending, Failed])
               \<and> lifecycle_chain Draft (map pn_status ws)
               \<and> notifications (st_db (snd (send_notification_async env j s))) j = Some (last ws)))
       \<and> (\<exists>ws. notification_saves (st_db (snd (send_single_notification env m0 s)))
                  = notification_saves (st_db s) @ ws
             \<and> (\<forall>w \<in> set ws. pn_id w = pn_id m0)
             \<and> (case fst (send_single_notification env m0 s) of
                   Inl e \<Rightarrow> map pn_status ws = [Sending, Failed]
                            \<or> map pn_status ws = [Sending, Sending]
                 | Inr u \<Rightarrow> map pn_status ws = [Sending, Sending, Sent]
                            \<or> map pn_status ws = [Sending, Sending, Failed])
             \<and> lifecycle_chain Draft (map pn_status ws)
             \<and> notifications (st_db (snd (send_single_notification env m0 s))) (pn_id m0)
                 = Some (last ws))
       \<and> (fst (send_single_notification env m0 s) = Inl x \<longrightarrow>
            st_db (snd (atomic (send_single_notification env m0) s)) = st_db s)"
proof (intro conjI allI impI)
  fix i n assume "notifications (st_db s) i = Some n"
  from advanced_row [OF send_notifications_advanced [OF pk] this]
  show "\<exists>n'. notifications (st_db (send_notifications env queryset s)) i = Some n'
               \<and> lifecycle_step\<^sup>*\<^sup>* (pn_status n) (pn_status n')
               \<and> (pn_status n \<noteq> Draft \<longrightarrow> n' = n)
               \<and> (n' = n \<or> pn_status n' = Sent \<or> pn_status n' = Failed)" .
next
  assume "\<forall>i \<in> set queryset. \<forall>n. notifications (st_db s) i = Some n \<longrightarrow> pn_status n \<noteq> Draft"
  then show "send_notifications env queryset s = s" by (rule send_notifications_skips)
next
  show "fst (auto_send_notification env inst created s) = Inr ()"
    by (simp add: auto_send_notification_def send_notification_async_never_raises)
next
  fix i n
  assume row: "notifications (st_db s) (pn_id inst) = Some inst"
    and rn: "notifications (st_db s) i = Some n"
  from advanced_row [OF auto_send_notification_advanced [OF row] rn]
  show "\<exists>n'. notifications (st_db (snd (auto_send_notification env inst created s))) i = Some n'
                    \<and> lifecycle_step\<^sup>*\<^sup>* (pn_status n) (pn_status n')
                    \<and> (pn_status n \<noteq> Draft \<longrightarrow> n' = n)
                    \<and> (n' = n \<or> pn_status n' = Sent \<or> pn_status n' = Failed)" .
next
  assume "pn_status inst \<noteq> Draft"
  then show "auto_send_notification env inst created s = (Inr (), s)"
    by (simp add: auto_send_notification_def)
next
  assume dq: "distinct queryset"
  let ?fin = "st_db (send_notifications env queryset s)"
  from send_notifications_trace [OF pk dq, of env]
  obtain ws where
    sv: "notification_saves ?fin = notification_saves (st_db s) @ ws"
    and P: "\<forall>i. (request_writes i ws = [] \<and> notifications ?fin i = notifications (st_db s) i)
                 \<or> (i \<in> set queryset
                    \<and> (\<exists>n. notifications (st_db s) i = Some n \<and> pn_status n = Draft)
                    \<and> (map pn_status (request_writes i ws) = [Sending, Sending, Sent]
                       \<or> map pn_status (request_writes i ws) = [Sending, Sending, Failed])
                    \<and> notifications ?fin i = Some (last (request_writes i ws)))"
    by (elim exE conjE)
  show "\<exists>ws. notification_saves ?fin = notification_saves (st_db s) @ ws
               \<and> (\<forall>i n. notifications (st_db s) i = Some n \<longrightarrow>
                     lifecycle_chain (pn_status n) (map pn_status (request_writes i ws))
                     \<and> (pn_status n \<noteq> Draft \<longrightarrow> request_writes i ws = [])
                     \<and> ((request_writes i ws = [] \<and> notifications ?fin i = Some n)
                        \<or> (i \<in> set queryset
                           \<and> (map pn_status (request_writes i ws) = [Sending, Sending, Sent]
                              \<or> map pn_status (request_writes i ws) = [Sending, Sending, Failed])
                           \<and> notifications ?fin i = Some (last (request_writes i ws)))))
               \<and> (\<forall>i. notifications (st_db s) i = None \<longrightarrow> request_writes i ws = [])"
  proof (intro exI [of _ ws] conjI allI impI)
    show "notification_saves ?fin = notification_saves (st_db s) @ ws" by (rule sv)
  next
    fix i n assume row: "notifications (st_db s) i = Some n"
    from P have Pi: "(request_writes i ws = [] \<and> notifications ?fin i = notifications (st_db s) i)
                 \<or> (i \<in> set queryset
                    \<and> (\<exists>n. notifications (st_db s) i = Some n \<and> pn_status n = Draft)
                    \<and> (map pn_status (request_writes i ws) = [Sending, Sending, Sent]
                       \<or> map pn_status (request_writes i ws) = [Sending, Sending, Failed])
                    \<and> notifications ?fin i = Some (last (request_writes i ws)))" ..
    from Pi row show "lifecycle_chain (pn_status n) (map pn_status (request_writes i ws))"
      by (auto simp: lifecycle_step_def)
    from Pi row show "(request_writes i ws = [] \<and> notifications ?fin i = Some n)
                        \<or> (i \<in> set queryset
                           \<and> (map pn_status (request_writes i ws) = [Sending, Sending, Sent]
                              \<or> map pn_status (request_writes i ws) = [Sending, Sending, Failed])
                           \<and> notifications ?fin i = Some (last (request_writes i ws)))"
      by auto
    assume "pn_status n \<noteq> Draft"
    with Pi row show "request_writes i ws = []" by auto
  next
    fix i assume none: "notifications (st_db s) i = None"
    from P have "(request_writes i ws = [] \<and> notifications ?fin i = notifications (st_db s) i)
                 \<or> (i \<in> set queryset
                    \<and> (\<exists>n. notifications (st_db s) i = Some n \<and> pn_status n = Draft)
                    \<and> (map pn_status (request_writes i ws) = [Sending, Sending, Sent]
                       \<or> map pn_status (request_writes i ws) = [Sending, Sending, Failed])
                    \<and> notifications ?fin i = Some (last (request_writes i ws)))" ..
    with none show "request_writes i ws = []" by auto
  qed
next
  assume row: "notifications (st_db s) (pn_id inst) = Some inst"
  let ?fin = "snd (auto_send_notification env inst created s)"
  from auto_send_notification_trace [OF row, of env created]
  obtain ws where
    sv: "notification_saves (st_db ?fin) = notification_saves (st_db s) @ ws"
    and ids: "\<forall>w \<in> set ws. pn_id w = pn_id inst"
    and alt: "(ws = [] \<and> ?fin = s)
              \<or> (created \<and> pn_status inst = Draft \<and> pn_auto_send inst
                 \<and> (map pn_status ws = [Sending, Failed]
                    \<or> map pn_status ws = [Sending, Sending, Sent]
                    \<or> map pn_status ws = [Sending, Sending, Failed])
                 \<and> notifications (st_db ?fin) = (notifications (st_db s))(pn_id inst \<mapsto> last ws))"
    by (elim exE conjE)
  from alt have ch: "lifecycle_chain (pn_status inst) (map pn_status ws)"
    by (auto simp: lifecycle_step_def)
  from alt have alt2: "(ws = [] \<and> ?fin = s)
              \<or> (created \<and> pn_status inst = Draft \<and> pn_auto_send inst
                 \<and> (map pn_status ws = [Sending, Failed]
                    \<or> map pn_status ws = [Sending, Sending, Sent]
                    \<or> map pn_status ws = [Sending, Sending, Failed])
                 \<and> notifications (st_db ?fin) (pn_id inst) = Some (last ws))"
    by auto
  from sv ids ch alt2
  show "\<exists>ws. notification_saves (st_db ?fin) = notification_saves (st_db s) @ ws
               \<and> (\<forall>w \<in> set ws. pn_id w = pn_id inst)
               \<and> lifecycle_chain (pn_status inst) (map pn_status ws)
               \<and> ((ws = [] \<and> ?fin = s)
                  \<or> (created \<and> pn_status inst = Draft \<and> pn_auto_send inst
                     \<and> (map pn_status ws = [Sending, Failed]
                        \<or> map pn_status ws = [Sending, Sending, Sent]
                        \<or> map pn_status ws = [Sending, Sending, Failed])
                     \<and> notifications (st_db ?fin) (pn_id inst) = Some (last ws)))"
    by (intro exI [of _ ws] conjI)
next
  assume row: "notifications (st_db s) j = Some n0"
  with pk have id: "pn_id n0 = j" by (simp add: pk_consistent_def)
  let ?fin = "snd (send_notification_async env j s)"
  from send_notification_async_trace [OF row id, of env]
  obtain ws where
    sv: "notification_saves (st_db ?fin) = notification_saves (st_db s) @ ws"
    and ids: "\<forall>w \<in> set ws. pn_id w = j"
    and nt: "notifications (st_db ?fin) = (notifications (st_db s))(j \<mapsto> last ws)"
    and st: "map pn_status ws = [Sending, Failed]
             \<or> map pn_status ws = [Sending, Sending, Sent]
             \<or> map pn_status ws = [Sending, Sending, Failed]"
    by (elim exE conjE)
  from st have ch: "lifecycle_chain Draft (map pn_status ws)" by (auto simp: lifecycle_step_def)
  from nt have row': "notifications (st_db ?fin) j = Some (last ws)" by simp
  from sv ids st ch row'
  show "\<exists>ws. notification_saves (st_db ?fin) = notification_saves (st_db s) @ ws
               \<and> (\<forall>w \<in> set ws. pn_id w = j)
               \<and> (map pn_status ws = [Sending, Failed]
                  \<or> map pn_status ws = [Sending, Sending, Sent]
                  \<or> map pn_status ws = [Sending, Sending, Failed])
               \<and> lifecycle_chain Draft (map pn_status ws)
               \<and> notifications (st_db ?fin) j = Some (last ws)"
    by (intro exI [of _ ws] conjI)
next
  let ?fin = "snd (send_single_notification env m0 s)"
  from send_single_notification_trace [of env m0 s]
  obtain ws where
    sv: "notification_saves (st_db ?fin) = notification_saves (st_db s) @ ws"
    and ids: "\<forall>w \<in> set ws. pn_id w = pn_id m0"
    and nt: "notifications (st_db ?fin) = (notifications (st_db s))(pn_id m0 \<mapsto> last ws)"
    and st: "case fst (send_single_notification env m0 s) of
               Inl e \<Rightarrow> map pn_status ws = [Sending, Failed]
                        \<or> map pn_status ws = [Sending, Sending]
             | Inr u \<Rightarrow> map pn_status ws = [Sending, Sending, Sent]
                        \<or> map pn_status ws = [Sending, Sending, Failed]"
    by (elim exE conjE)
  from st have ch: "lifecycle_chain Draft (map pn_status ws)"
    by (auto simp: lifecycle_step_def split: sum.splits)
  from nt have row': "notifications (st_db ?fin) (pn_id m0) = Some (last ws)" by simp
  from sv ids st ch row'
  show "\<exists>ws. notification_saves (st_db ?fin) = notification_saves (st_db s) @ ws
             \<and> (\<forall>w \<in> set ws. pn_id w = pn_id m0)
             \<and> (case fst (send_single_notification env m0 s) of
                   Inl e \<Rightarrow> map pn_status ws = [Sending, Failed]
                            \<or> map pn_status ws = [Sending, Sending]
                 | Inr u \<Rightarrow> map pn_status ws = [Sending, Sending, Sent]
                            \<or> map pn_status ws = [Sending, Sending, Failed])
             \<and> lifecycle_chain Draft (map pn_status ws)
             \<and> notifications (st_db ?fin) (pn_id m0) = Some (last ws)"
    by (intro exI [of _ ws] conjI)
next
  assume "fst (send_single_notification env m0 s) = Inl x"
  then show "st_db (snd (atomic (send_single_notification env m0) s)) = st_db s"
    by (rule atomic_rolls_back)
qed


theorem lifecycle_monotonic_witness:
  "map (\<lambda>i. map_option pn_status
              (notifications (st_db (send_notifications env_ready [3, 4, 2] demo_state)) i)) [1, 2, 3, 4]
     = [Some Draft, Some Draft, Some Sent, Some Sent]
   \<and> notifications (st_db (send_notifications env_ready [3, 4, 2] demo_state)) 4
       = Some demo_notification_sent
   \<and> send_notifications env_ready [4] demo_state = demo_state
   \<and> auto_send_notification env_ready demo_notification_sent True demo_state = (Inr (), demo_state)
   \<and> map_option pn_status
       (notifications (st_db (snd (auto_send_notification env_ready demo_notification_ios True
                                     demo_state))) 3) = Some Sent
   \<and> map (\<lambda>w. (pn_id w, pn_status w))
       (notification_saves (st_db (send_notifications env_ready [3, 4, 2] demo_state)))
       = [(3, Sending), (3, Sending), (3, Sent)]
   \<and> lifecycle_chain Draft (map pn_status (request_writes 3
        (notification_saves (st_db (send_notifications env_ready [3, 4, 2] demo_state)))))
   \<and> request_writes 4
        (notification_saves (st_db (send_notifications env_ready [3, 4, 2] demo_state))) = []
   \<and> map (\<lambda>w. (pn_id w, pn_status w))
       (notification_saves (st_db (snd (auto_send_notification env_ready demo_notification_web True
                                          demo_state))))
       = [(2, Sending), (2, Failed)]
   \<and> map (\<lambda>w. (pn_id w, pn_status w))
       (notification_saves (st_db (snd (send_single_notification env_bad_key demo_notification_ios
                                          demo_state))))
       = [(3, Sending), (3, Sending)]
   \<and> st_db (snd (atomic (send_single_notification env_bad_key demo_notification_ios) demo_state))
       = st_db demo_state
   \<and> \<not> lifecycle_chain Draft [Sent, Sent, Sent]
   \<and> \<not> lifecycle_chain Sent [Sending, Sending, Sent]"
proof -
  have pk: "pk_consistent (st_db demo_state)"
    by (simp add: pk_consistent_def dispatch_eval)
  note inst = lifecycle_monotonic [OF pk, of env_ready "[4]" demo_notification_sent True
      3 demo_notification_ios demo_notification_ios "Exception ''unused''"]
  note sel = lifecycle_monotonic [OF pk, of env_ready "[3, 4, 2]" demo_notification_sent True
      3 demo_notification_ios demo_notification_ios "Exception ''unused''"]
  note bad = lifecycle_monotonic [OF pk, of env_bad_key "[3]" demo_notification_sent True
      3 demo_notification_ios demo_notification_ios "Exception ''Invalid service account certificate''"]
  have h1: "\<forall>i \<in> set [4]. \<forall>n. notifications (st_db demo_state) i = Some n \<longrightarrow> pn_status n \<noteq> Draft"
    by (simp add: dispatch_eval)
  have h2: "pn_status demo_notification_sent \<noteq> Draft" by (simp add: dispatch_eval)
  from inst h1 have a: "send_notifications env_ready [4] demo_state = demo_state" by blast
  from inst h2 have b: "auto_send_notification env_ready demo_notification_sent True demo_state
                          = (Inr (), demo_state)" by blast
  have c: "map (\<lambda>i. map_option pn_status
              (notifications (st_db (send_notifications env_ready [3, 4, 2] demo_state)) i)) [1, 2, 3, 4]
     = [Some Draft, Some Draft, Some Sent, Some Sent]"
    and c': "notifications (st_db (send_notifications env_ready [3, 4, 2] demo_state)) 4
       = Some demo_notification_sent"
    by (simp_all add: send_notifications_def atomic_def List.map_filter_def dispatch_eval firebase_eval
        env_ready_def py_range_small)
  have d: "map_option pn_status
       (notifications (st_db (snd (auto_send_notification env_ready demo_notification_ios True
                                     demo_state))) 3) = Some Sent"
    by (simp add: auto_send_notification_def dispatch_eval firebase_eval env_ready_def py_range_small)
  have e: "map (\<lambda>w. (pn_id w, pn_status w))
       (notification_saves (st_db (send_notifications env_ready [3, 4, 2] demo_state)))
       = [(3, Sending), (3, Sending), (3, Sent)]"
    by (simp add: send_notifications_def atomic_def List.map_filter_def dispatch_eval firebase_eval
        env_ready_def py_range_small)
  have old: "notification_saves (st_db demo_state) = []" by (simp add: dispatch_eval)
  have r3: "notifications (st_db demo_state) 3 = Some demo_notification_ios"
    and r4: "notifications (st_db demo_state) 4 = Some demo_notification_sent"
    and d3: "pn_status demo_notification_ios = Draft"
    by (simp_all add: dispatch_eval)
  have dq: "distinct [3, 4, 2::nat]" by simp
  note writes = sel [THEN conjunct2, THEN conjunct2, THEN conjunct2, THEN conjunct2, THEN conjunct1]
  from mp [OF writes dq] obtain ws where
    sv: "notification_saves (st_db (send_notifications env_ready [3, 4, 2] demo_state))
           = notification_saves (st_db demo_state) @ ws"
    and P: "\<forall>i n. notifications (st_db demo_state) i = Some n \<longrightarrow>
              lifecycle_chain (pn_status n) (map pn_status (request_writes i ws))
              \<and> (pn_status n \<noteq> Draft \<longrightarrow> request_writes i ws = [])
              \<and> ((request_writes i ws = []
                   \<and> notifications (st_db (send_notifications env_ready [3, 4, 2] demo_state)) i = Some n)
                 \<or> (i \<in> set [3, 4, 2]
                    \<and> (map pn_status (request_writes i ws) = [Sending, Sending, Sent]
                       \<or> map pn_status (request_writes i ws) = [Sending, Sending, Failed])
                    \<and> notifications (st_db (send_notifications env_ready [3, 4, 2] demo_state)) i
                        = Some (last (request_writes i ws))))"
    by (elim exE conjE)
  from sv old have ws: "notification_saves (st_db (send_notifications env_ready [3, 4, 2] demo_state)) = ws"
    by simp
  from P r3 d3 have f: "lifecycle_chain Draft (map pn_status (request_writes 3
        (notification_saves (st_db (send_notifications env_ready [3, 4, 2] demo_state)))))"
    unfolding ws by force
  from P r4 h2 have g: "request_writes 4
        (notification_saves (st_db (send_notifications env_ready [3, 4, 2] demo_state))) = []"
    unfolding ws by blast
  have h: "map (\<lambda>w. (pn_id w, pn_status w))
       (notification_saves (st_db (snd (auto_send_notification env_ready demo_notification_web True
                                          demo_state))))
       = [(2, Sending), (2, Failed)]"
    by (simp add: auto_send_notification_def dispatch_eval)
  have i: "map (\<lambda>w. (pn_id w, pn_status w))
       (notification_saves (st_db (snd (send_single_notification env_bad_key demo_notification_ios
                                          demo_state))))
       = [(3, Sending), (3, Sending)]"
    and raised: "fst (send_single_notification env_bad_key demo_notification_ios demo_state)
                   = Inl (Exception ''Invalid service account certificate'')"
    by (simp_all add: dispatch_eval firebase_eval env_bad_key_def py_range_small)
  from bad raised
  have j: "st_db (snd (atomic (send_single_notification env_bad_key demo_notification_ios) demo_state))
             = st_db demo_state" by blast
  have k: "\<not> lifecycle_chain Draft [Sent, Sent, Sent]"
    and l: "\<not> lifecycle_chain Sent [Sending, Sending, Sent]"
    by (simp_all add: lifecycle_step_def)
  show ?thesis by (intro conjI) (rule c c' a b d e f g h i j k l)+
qed

end
